theory Spec2Isabelle
  imports Complex_Main "HOL-Library.Word"
begin

section \<open>Data model of IFCGeometry.cpp\<close>

text \<open>
  \<open>IfcFloat\<close> is modelled by \<^typ>\<open>real\<close>: comparisons, \<open>min\<close>, \<open>max\<close> and \<open>fabs\<close> are
  the exact ones, arithmetic is the ideal arithmetic the floating-point code approximates.
  \<open>size_t\<close> and \<open>unsigned int\<close> counters are \<^typ>\<open>nat\<close>.
\<close>

type_synonym IfcFloat = real

datatype IfcVector2 = IfcVector2 (x2: IfcFloat) (y2: IfcFloat)

datatype IfcVector3 = IfcVector3 (x3: IfcFloat) (y3: IfcFloat) (z3: IfcFloat)

text \<open>\<open>IfcVector2()\<close> and \<open>IfcVector3()\<close>: the default constructors give the zero vector.\<close>

definition zero2 :: IfcVector2 where
  "zero2 = IfcVector2 0 0"

definition zero3 :: IfcVector3 where
  "zero3 = IfcVector3 0 0 0"

text \<open>\<open>#define one_vec (IfcVector2(1.0, 1.0))\<close>\<close>

definition one_vec :: IfcVector2 where
  "one_vec = IfcVector2 1 1"

definition sub2 :: "IfcVector2 \<Rightarrow> IfcVector2 \<Rightarrow> IfcVector2" where
  "sub2 a b = IfcVector2 (x2 a - x2 b) (y2 a - y2 b)"

definition SquareLength2 :: "IfcVector2 \<Rightarrow> IfcFloat" where
  "SquareLength2 a = x2 a * x2 a + y2 a * y2 a"

definition Length2 :: "IfcVector2 \<Rightarrow> IfcFloat" where
  "Length2 a = sqrt (SquareLength2 a)"

definition add3 :: "IfcVector3 \<Rightarrow> IfcVector3 \<Rightarrow> IfcVector3" where
  "add3 a b = IfcVector3 (x3 a + x3 b) (y3 a + y3 b) (z3 a + z3 b)"

definition sub3 :: "IfcVector3 \<Rightarrow> IfcVector3 \<Rightarrow> IfcVector3" where
  "sub3 a b = IfcVector3 (x3 a - x3 b) (y3 a - y3 b) (z3 a - z3 b)"

definition smul3 :: "IfcFloat \<Rightarrow> IfcVector3 \<Rightarrow> IfcVector3" where
  "smul3 t a = IfcVector3 (t * x3 a) (t * y3 a) (t * z3 a)"

text \<open>\<open>operator*\<close> on two vectors is the dot product, \<open>operator^\<close> the cross product.\<close>

definition dot3 :: "IfcVector3 \<Rightarrow> IfcVector3 \<Rightarrow> IfcFloat" where
  "dot3 a b = x3 a * x3 b + y3 a * y3 b + z3 a * z3 b"

definition cross3 :: "IfcVector3 \<Rightarrow> IfcVector3 \<Rightarrow> IfcVector3" where
  "cross3 a b = IfcVector3 (y3 a * z3 b - z3 a * y3 b)
                           (z3 a * x3 b - x3 a * z3 b)
                           (x3 a * y3 b - y3 a * x3 b)"

definition SquareLength3 :: "IfcVector3 \<Rightarrow> IfcFloat" where
  "SquareLength3 a = x3 a * x3 a + y3 a * y3 a + z3 a * z3 a"

definition Length3 :: "IfcVector3 \<Rightarrow> IfcFloat" where
  "Length3 a = sqrt (SquareLength3 a)"

text \<open>
  \<open>Normalize\<close> divides by the length. For the zero vector the C++ divides 0 by 0 and every
  later comparison with the result is false; in HOL \<open>0 / 0 = 0\<close>, and the only
  comparisons the code makes with it (\<open>> 0\<close>, \<open>< 0.5\<close> on an absolute value) agree where
  they decide a branch of the half-space clipper.
\<close>

definition Normalize3 :: "IfcVector3 \<Rightarrow> IfcVector3" where
  "Normalize3 a = IfcVector3 (x3 a / Length3 a) (y3 a / Length3 a) (z3 a / Length3 a)"

text \<open>
  Modelled from the spec: \<open>std::min\<close> and \<open>std::max\<close> on vectors are the overloads of
  ProcessHelper.h, which is not part of the sources; the spec calls the result the
  union of bounding boxes, so they work component by component.
\<close>

definition min2 :: "IfcVector2 \<Rightarrow> IfcVector2 \<Rightarrow> IfcVector2" where
  "min2 a b = IfcVector2 (min (x2 a) (x2 b)) (min (y2 a) (y2 b))"

definition max2 :: "IfcVector2 \<Rightarrow> IfcVector2 \<Rightarrow> IfcVector2" where
  "max2 a b = IfcVector2 (max (x2 a) (x2 b)) (max (y2 a) (y2 b))"

definition min3 :: "IfcVector3 \<Rightarrow> IfcVector3 \<Rightarrow> IfcVector3" where
  "min3 a b = IfcVector3 (min (x3 a) (x3 b)) (min (y3 a) (y3 b)) (min (z3 a) (z3 b))"

definition max3 :: "IfcVector3 \<Rightarrow> IfcVector3 \<Rightarrow> IfcVector3" where
  "max3 a b = IfcVector3 (max (x3 a) (x3 b)) (max (y3 a) (y3 b)) (max (z3 a) (z3 b))"

text \<open>\<open>TempMesh\<close>: a polygon soup, the vertices and the per-face vertex counts.\<close>

record TempMesh =
  verts :: "IfcVector3 list"
  vertcnt :: "nat list"

definition empty_mesh :: TempMesh where
  "empty_mesh = \<lparr>verts = [], vertcnt = []\<rparr>"

text \<open>The invariant the spec states for a \<open>TempMesh\<close>.\<close>

definition counts_match :: "TempMesh \<Rightarrow> bool" where
  "counts_match m = (sum_list (vertcnt m) = length (verts m))"

definition no_zero_count :: "TempMesh \<Rightarrow> bool" where
  "no_zero_count m = (0 \<notin> set (vertcnt m))"

text \<open>The log: every \<open>IFCImporter::LogX\<close> call appends one entry.\<close>

datatype LogLevel = Error | Warn | Debug | Info

type_synonym Logger = "(LogLevel \<times> string) list"

text \<open>\<open>typedef std::pair<IfcVector2, IfcVector2> BoundingBox\<close>: \<open>first\<close> is \<open>fst\<close>, \<open>second\<close> is \<open>snd\<close>.\<close>

type_synonym BoundingBox = "IfcVector2 \<times> IfcVector2"

type_synonym Contour = "IfcVector2 list"

record ProjectedWindowContour =
  contour :: Contour
  bb :: BoundingBox

definition IsInvalid :: "ProjectedWindowContour \<Rightarrow> bool" where
  "IsInvalid w = (contour w = [])"

definition FlagInvalid :: "ProjectedWindowContour \<Rightarrow> ProjectedWindowContour" where
  "FlagInvalid w = w\<lparr>contour := []\<rparr>"

type_synonym ContourVector = "ProjectedWindowContour list"

text \<open>
  Modelled from the spec: the matrix types of the library (\<open>aiMatrix3x3t\<close>,
  \<open>aiMatrix4x4t\<close>) are declared outside the sources. The spec has a 3x3 rotation for the
  plane basis and composed affine transforms for the projection: \<open>IfcMatrix3\<close> is its
  three rows (\<open>a1 a2 a3\<close>, \<open>b1 b2 b3\<close>, \<open>c1 c2 c3\<close>), \<open>IfcMatrix4\<close> its sixteen entries by the
  names the source uses; a matrix times a vector is the rows times the vector plus the
  fourth column, the product of two matrices is rows times columns, the default
  constructor is the identity and a 3x3 matrix becomes a 4x4 one with no translation.
\<close>

datatype IfcMatrix3 = IfcMatrix3 (row_a: IfcVector3) (row_b: IfcVector3) (row_c: IfcVector3)

record IfcMatrix4 =
  a1 :: IfcFloat  a2 :: IfcFloat  a3 :: IfcFloat  a4 :: IfcFloat
  b1 :: IfcFloat  b2 :: IfcFloat  b3 :: IfcFloat  b4 :: IfcFloat
  c1 :: IfcFloat  c2 :: IfcFloat  c3 :: IfcFloat  c4 :: IfcFloat
  d1 :: IfcFloat  d2 :: IfcFloat  d3 :: IfcFloat  d4 :: IfcFloat

definition identity3 :: IfcMatrix3 where
  "identity3 = IfcMatrix3 (IfcVector3 1 0 0) (IfcVector3 0 1 0) (IfcVector3 0 0 1)"

definition identity4 :: IfcMatrix4 where
  "identity4 = \<lparr>a1 = 1, a2 = 0, a3 = 0, a4 = 0,  b1 = 0, b2 = 1, b3 = 0, b4 = 0,
                c1 = 0, c2 = 0, c3 = 1, c4 = 0,  d1 = 0, d2 = 0, d3 = 0, d4 = 1\<rparr>"

definition IfcMatrix4_of :: "IfcMatrix3 \<Rightarrow> IfcMatrix4" where
  "IfcMatrix4_of m =
     \<lparr>a1 = x3 (row_a m), a2 = y3 (row_a m), a3 = z3 (row_a m), a4 = 0,
      b1 = x3 (row_b m), b2 = y3 (row_b m), b3 = z3 (row_b m), b4 = 0,
      c1 = x3 (row_c m), c2 = y3 (row_c m), c3 = z3 (row_c m), c4 = 0,
      d1 = 0, d2 = 0, d3 = 0, d4 = 1\<rparr>"

definition mul4 :: "IfcMatrix4 \<Rightarrow> IfcMatrix4 \<Rightarrow> IfcMatrix4" where
  "mul4 m n =
     \<lparr>a1 = a1 m * a1 n + a2 m * b1 n + a3 m * c1 n + a4 m * d1 n,
      a2 = a1 m * a2 n + a2 m * b2 n + a3 m * c2 n + a4 m * d2 n,
      a3 = a1 m * a3 n + a2 m * b3 n + a3 m * c3 n + a4 m * d3 n,
      a4 = a1 m * a4 n + a2 m * b4 n + a3 m * c4 n + a4 m * d4 n,
      b1 = b1 m * a1 n + b2 m * b1 n + b3 m * c1 n + b4 m * d1 n,
      b2 = b1 m * a2 n + b2 m * b2 n + b3 m * c2 n + b4 m * d2 n,
      b3 = b1 m * a3 n + b2 m * b3 n + b3 m * c3 n + b4 m * d3 n,
      b4 = b1 m * a4 n + b2 m * b4 n + b3 m * c4 n + b4 m * d4 n,
      c1 = c1 m * a1 n + c2 m * b1 n + c3 m * c1 n + c4 m * d1 n,
      c2 = c1 m * a2 n + c2 m * b2 n + c3 m * c2 n + c4 m * d2 n,
      c3 = c1 m * a3 n + c2 m * b3 n + c3 m * c3 n + c4 m * d3 n,
      c4 = c1 m * a4 n + c2 m * b4 n + c3 m * c4 n + c4 m * d4 n,
      d1 = d1 m * a1 n + d2 m * b1 n + d3 m * c1 n + d4 m * d1 n,
      d2 = d1 m * a2 n + d2 m * b2 n + d3 m * c2 n + d4 m * d2 n,
      d3 = d1 m * a3 n + d2 m * b3 n + d3 m * c3 n + d4 m * d3 n,
      d4 = d1 m * a4 n + d2 m * b4 n + d3 m * c4 n + d4 m * d4 n\<rparr>"

definition apply4 :: "IfcMatrix4 \<Rightarrow> IfcVector3 \<Rightarrow> IfcVector3" where
  "apply4 m v =
     IfcVector3 (a1 m * x3 v + a2 m * y3 v + a3 m * z3 v + a4 m)
                (b1 m * x3 v + b2 m * y3 v + b3 m * z3 v + b4 m)
                (c1 m * x3 v + c2 m * y3 v + c3 m * z3 v + c4 m)"

text \<open>
  \<open>TempOpening\<close>: the direction of the extrusion, the profile mesh and the wall points
  (the pointer \<open>solid\<close> to the IFC entity is not used by the geometry).
\<close>

record TempOpening =
  extrusionDir :: IfcVector3
  profileMesh :: TempMesh
  wallPoints :: "IfcVector3 list"

section \<open>ProcessPolyloop\<close>

text \<open>
  The points of the loop are converted by \<open>ConvertCartesianPoint\<close> (IFCUtil, not part of
  the sources), a parameter here. Each point is pushed and counted, the count is pushed,
  and a result of one vertex is popped again.
\<close>

definition ProcessPolyloop ::
  "('p \<Rightarrow> IfcVector3) \<Rightarrow> 'p list \<Rightarrow> TempMesh \<Rightarrow> bool \<times> TempMesh" where
  "ProcessPolyloop ConvertCartesianPoint loop meshout =
     (let m1 = meshout\<lparr>verts := verts meshout @ map ConvertCartesianPoint loop,
                        vertcnt := vertcnt meshout @ [length loop]\<rparr>
      in if last (vertcnt m1) > 1 then (True, m1)
         else if last (vertcnt m1) = 1
           then (False, m1\<lparr>vertcnt := butlast (vertcnt m1), verts := butlast (verts m1)\<rparr>)
           else (False, m1))"

section \<open>Bounding boxes\<close>

definition BoundingBoxesOverlapping :: "BoundingBox \<Rightarrow> BoundingBox \<Rightarrow> bool" where
  "BoundingBoxesOverlapping ibb b =
     (x2 (fst ibb) < x2 (snd b) \<and> x2 (snd ibb) > x2 (fst b) \<and>
      y2 (fst ibb) < y2 (snd b) \<and> y2 (snd ibb) > y2 (fst b))"

section \<open>The fixed-point bridge and the polygon clipper\<close>

text \<open>
  ClipperLib (contrib/clipper) is an external library: its points, polygons and
  ex-polygons are data here, its \<open>Orientation\<close> test and the \<open>Execute\<close> of a \<open>Clipper\<close>
  object are parameters. \<open>Execute\<close> gets the clip type and the polygons added by
  \<open>AddPolygon\<close>, in order; the \<open>const char*\<close> the library throws is \<open>Inl\<close>.
  \<open>MinMaxChooser\<close> (ProcessHelper.h, not part of the sources) initialises a running
  minimum and a running maximum: the pair of its two start values is a parameter too.
  So are the inverse of a 4x4 matrix, which belongs to the matrix library, and
  \<open>TryAddOpenings_Poly2Tri\<close>, the fallback that hands the face to the Poly2Tri
  triangulator: it gets the openings, their normals, the face mesh and the log and
  answers with its return value, the new mesh and the new log.
\<close>

type_synonym IntPoint = "int \<times> int"

type_synonym Polygon = "IntPoint list"

record ExPolygon =
  outer :: Polygon
  holes :: "Polygon list"

type_synonym ExPolygons = "ExPolygon list"

datatype ClipType = ctIntersection | ctUnion | ctDifference | ctXor

datatype PolyType = ptSubject | ptClip

record Collaborators =
  Orientation :: "Polygon \<Rightarrow> bool"
  Execute :: "ClipType \<Rightarrow> (PolyType \<times> Polygon) list \<Rightarrow> string + ExPolygons"
  MinMaxChooser :: "IfcFloat \<times> IfcFloat"
  Inverse :: "IfcMatrix4 \<Rightarrow> IfcMatrix4"
  TryAddOpenings_Poly2Tri ::
    "TempOpening list \<Rightarrow> IfcVector3 list \<Rightarrow> TempMesh \<Rightarrow> Logger \<Rightarrow> bool \<times> TempMesh \<times> Logger"

text \<open>\<open>const ClipperLib::long64 max_ulong64 = 1518500249\<close>\<close>

definition max_ulong64 :: int where
  "max_ulong64 = 1518500249"

text \<open>
  \<open>to_int64(p)\<close> casts \<open>p * max_ulong64\<close> to \<open>ulong64\<close>, which truncates; every caller
  passes coordinates clamped to \<open>[0,1]\<close>, where truncation is the floor (the cast of a
  negative value is undefined in C++). \<open>from_int64(p)\<close> divides by the same constant.
\<close>

definition to_int64 :: "IfcFloat \<Rightarrow> int" where
  "to_int64 p = \<lfloor>p * of_int max_ulong64\<rfloor>"

definition from_int64 :: "int \<Rightarrow> IfcFloat" where
  "from_int64 p = of_int p / of_int max_ulong64"

fun IsDuplicateVertex :: "IfcVector2 \<Rightarrow> Contour \<Rightarrow> bool" where
  "IsDuplicateVertex vv [] = False"
| "IsDuplicateVertex vv (cp # temp_contour) =
     (if SquareLength2 (sub2 cp vv) < 1 / 100000 then True
      else IsDuplicateVertex vv temp_contour)"

text \<open>The point of a clipper polygon, back in floating point and clamped to \<open>[0,1]\<close>.\<close>

definition from_IntPoint :: "IntPoint \<Rightarrow> IfcVector2" where
  "from_IntPoint point =
     min2 (max2 (IfcVector2 (from_int64 (fst point)) (from_int64 (snd point))) zero2) one_vec"

fun ExtractVertices_loop :: "Polygon \<Rightarrow> bool \<Rightarrow> Contour \<Rightarrow> Contour" where
  "ExtractVertices_loop [] filter_duplicates temp_contour = temp_contour"
| "ExtractVertices_loop (point # poly) filter_duplicates temp_contour =
     ExtractVertices_loop poly filter_duplicates
       (if filter_duplicates \<and> IsDuplicateVertex (from_IntPoint point) temp_contour
        then temp_contour else temp_contour @ [from_IntPoint point])"

text \<open>\<open>ExtractVerticesFromClipper\<close> clears \<open>temp_contour\<close> first, so it is a function of the polygon.\<close>

definition ExtractVerticesFromClipper :: "Polygon \<Rightarrow> bool \<Rightarrow> Contour" where
  "ExtractVerticesFromClipper poly filter_duplicates =
     ExtractVertices_loop poly filter_duplicates []"

fun GetBoundingBox_loop :: "Polygon \<Rightarrow> BoundingBox \<Rightarrow> BoundingBox" where
  "GetBoundingBox_loop [] newbb = newbb"
| "GetBoundingBox_loop (point # poly) newbb =
     GetBoundingBox_loop poly
       (min2 (fst newbb) (from_IntPoint point), max2 (snd newbb) (from_IntPoint point))"

definition GetBoundingBox :: "Collaborators \<Rightarrow> Polygon \<Rightarrow> BoundingBox" where
  "GetBoundingBox E poly =
     GetBoundingBox_loop poly
       (IfcVector2 (fst (MinMaxChooser E)) (fst (MinMaxChooser E)),
        IfcVector2 (snd (MinMaxChooser E)) (snd (MinMaxChooser E)))"

text \<open>A contour in fixed point, reversed when \<open>ClipperLib::Orientation\<close> says so.\<close>

definition to_Polygon :: "Contour \<Rightarrow> Polygon" where
  "to_Polygon c = map (\<lambda>pip. (to_int64 (x2 pip), to_int64 (y2 pip))) c"

definition oriented :: "Collaborators \<Rightarrow> Polygon \<Rightarrow> Polygon" where
  "oriented E clip = (if Orientation E clip then rev clip else clip)"

definition MergeWindowContours :: "Collaborators \<Rightarrow> Contour \<Rightarrow> Contour \<Rightarrow> string + ExPolygons" where
  "MergeWindowContours E a b =
     Execute E ctUnion
       [(ptSubject, oriented E (to_Polygon a)), (ptSubject, oriented E (to_Polygon b))]"

text \<open>Subtract \<open>a\<close> from \<open>b\<close>.\<close>

definition MakeDisjunctWindowContours ::
  "Collaborators \<Rightarrow> Contour \<Rightarrow> Contour \<Rightarrow> string + ExPolygons" where
  "MakeDisjunctWindowContours E a b =
     Execute E ctDifference
       [(ptClip, oriented E (to_Polygon a)), (ptSubject, oriented E (to_Polygon b))]"

section \<open>Cleanup of the window contours\<close>

text \<open>
  \<open>CleanupWindowContour\<close> unions the contour with itself. An empty result flags the
  window invalid; otherwise the first polygon is extracted into the local \<open>scratch\<close>,
  which is dropped at the end of the function: the window is as it was. A throw of the
  clipper leaves the function (\<open>Inl\<close>).
\<close>

definition CleanupWindowContour ::
  "Collaborators \<Rightarrow> ProjectedWindowContour \<Rightarrow> Logger
     \<Rightarrow> string + (ProjectedWindowContour \<times> Logger)" where
  "CleanupWindowContour E window lg =
     (case Execute E ctUnion [(ptSubject, to_Polygon (contour window))] of
        Inl sx \<Rightarrow> Inl sx
      | Inr clipped \<Rightarrow>
          if length clipped \<noteq> 1 then
            if clipped = [] then
              Inr (FlagInvalid window,
                   lg @ [(Error, ''error during polygon clipping, window contour is degenerate'')])
            else
              (let lg1 = lg @ [(Error, ''error during polygon clipping, window contour is not convex'')];
                   scratch = ExtractVerticesFromClipper (outer (clipped ! 0)) False
               in Inr (window, lg1))
          else
            (let scratch = ExtractVerticesFromClipper (outer (clipped ! 0)) False
             in Inr (window, lg)))"

text \<open>
  \<open>CleanupWindowContours\<close>: the loop over all windows inside \<open>try\<close>; the \<open>catch\<close> logs
  and ends the pass, the windows not yet visited stay as they are.
\<close>

fun CleanupWindowContours :: "Collaborators \<Rightarrow> ContourVector \<Rightarrow> Logger \<Rightarrow> ContourVector \<times> Logger" where
  "CleanupWindowContours E [] lg = ([], lg)"
| "CleanupWindowContours E (window # contours) lg =
     (case CleanupWindowContour E window lg of
        Inl sx \<Rightarrow>
          (window # contours,
           lg @ [(Error, ''error during polygon clipping, window shape may be wrong: (Clipper: ''
                          @ sx @ '')'')])
      | Inr (window', lg') \<Rightarrow>
          (let (contours', lg'') = CleanupWindowContours E contours lg'
           in (window' # contours', lg'')))"

section \<open>Overlap resolution in GenerateOpenings\<close>

text \<open>
  The state of the loop over the accepted contours that \<open>GenerateOpenings\<close> runs for each
  new opening: the accepted \<open>contours\<close>, the table \<open>contours_to_openings\<close> (the
  \<open>TempOpening*\<close> are the positions of the openings in the list passed in), the new
  contour \<open>temp_contour\<close> with its box (\<open>bb\<close> in the source) and \<open>joined_openings\<close>.
\<close>

record ScanState =
  contours :: ContourVector
  contours_to_openings :: "nat list list"
  temp_contour :: Contour
  new_bb :: BoundingBox
  joined_openings :: "nat list"
  logger :: Logger

text \<open>
  The loop ends by running off the end or by \<open>break\<close> (\<open>Finished\<close>), by the
  \<open>return TryAddOpenings_Poly2Tri(...)\<close> (\<open>Poly2TriEscape\<close>), or by a throw of the clipper,
  which nothing in \<open>GenerateOpenings\<close> catches (\<open>ClipperThrow\<close>).
\<close>

datatype ScanResult = Finished ScanState | Poly2TriEscape ScanState | ClipperThrow string

text \<open>\<open>v.erase(v.begin() + i)\<close>\<close>

definition erase :: "nat \<Rightarrow> 'a list \<Rightarrow> 'a list" where
  "erase i xs = take i xs @ drop (Suc i) xs"

text \<open>The "good guy bounding box" branch: the difference replaces the new contour.\<close>

definition shrink_contour :: "Collaborators \<Rightarrow> ExPolygons \<Rightarrow> ScanState \<Rightarrow> ScanState" where
  "shrink_contour E poly st =
     st\<lparr>new_bb := GetBoundingBox E (outer (poly ! 0)),
        temp_contour := ExtractVerticesFromClipper (outer (poly ! 0)) False\<rparr>"

text \<open>The last branch: the union is one polygon and the two contours are merged.\<close>

definition merge_contours :: "bool \<Rightarrow> nat \<Rightarrow> ExPolygons \<Rightarrow> ScanState \<Rightarrow> ScanState" where
  "merge_contours generate_connection_geometry it poly st =
     st\<lparr>logger := logger st @ [(Debug, ''merging overlapping openings'')],
        temp_contour := ExtractVerticesFromClipper (outer (poly ! 0)) True,
        new_bb := (min2 (fst (new_bb st)) (fst (bb (contours st ! it))),
                   max2 (snd (new_bb st)) (snd (bb (contours st ! it)))),
        joined_openings :=
          (if generate_connection_geometry
           then joined_openings st @ (contours_to_openings st ! it)
           else joined_openings st),
        contours_to_openings :=
          (if generate_connection_geometry
           then erase it (contours_to_openings st)
           else contours_to_openings st),
        contours := erase it (contours st)\<rparr>"

text \<open>
  The loop \<open>for (it = contours.begin(); it != contours.end(); )\<close>, \<open>it\<close> as a position.
  The first \<open>continue\<close> keeps \<open>it\<close>, the merge sets it back to \<open>contours.begin()\<close>.
\<close>

function scan :: "Collaborators \<Rightarrow> bool \<Rightarrow> nat \<Rightarrow> ScanState \<Rightarrow> ScanResult" where
  "scan E generate_connection_geometry it st =
     (if it \<ge> length (contours st) then Finished st
      else if BoundingBoxesOverlapping (bb (contours st ! it)) (new_bb st) then
        (case MakeDisjunctWindowContours E (contour (contours st ! it)) (temp_contour st) of
           Inl sx \<Rightarrow> ClipperThrow sx
         | Inr poly \<Rightarrow>
             if length poly = 1 \<and>
                \<not> BoundingBoxesOverlapping (bb (contours st ! it))
                     (GetBoundingBox E (outer (poly ! 0)))
             then scan E generate_connection_geometry it (shrink_contour E poly st)
             else
               (case MergeWindowContours E (temp_contour st) (contour (contours st ! it)) of
                  Inl sx \<Rightarrow> ClipperThrow sx
                | Inr poly \<Rightarrow>
                    if length poly > 1 then Poly2TriEscape st
                    else if length poly = 0 then
                      Finished (st\<lparr>logger := logger st @ [(Warn, ''ignoring duplicate opening'')],
                                   temp_contour := []\<rparr>)
                    else scan E generate_connection_geometry 0
                           (merge_contours generate_connection_geometry it poly st)))
      else scan E generate_connection_geometry (Suc it) st)"
  by pat_completeness auto
termination
  apply (relation "measures [\<lambda>(E, g, it, st). length (contours st),
                            \<lambda>(E, g, it, st). length (contours st) - it,
                            \<lambda>(E, g, it, st). if it < length (contours st) \<and>
                                 BoundingBoxesOverlapping (bb (contours st ! it)) (new_bb st)
                               then 1 else 0]")
     apply (auto simp: shrink_contour_def merge_contours_def erase_def)
  done

declare scan.simps [simp del]

section \<open>InsertWindowContours\<close>

text \<open>
  The tests of a contour vertex against the four sides of the bounding box: whether it
  lies within \<open>epsilon\<close> of a side in x or in y, and the point \<open>edge\<close> after the tests (a
  coordinate is snapped to the side it is close to, the minimum side first).
\<close>

definition hit_x :: "BoundingBox \<Rightarrow> IfcFloat \<Rightarrow> IfcVector2 \<Rightarrow> bool" where
  "hit_x box epsilon v =
     (\<bar>x2 v - x2 (fst box)\<bar> < epsilon \<or> \<bar>x2 v - x2 (snd box)\<bar> < epsilon)"

definition hit_y :: "BoundingBox \<Rightarrow> IfcFloat \<Rightarrow> IfcVector2 \<Rightarrow> bool" where
  "hit_y box epsilon v =
     (\<bar>y2 v - y2 (fst box)\<bar> < epsilon \<or> \<bar>y2 v - y2 (snd box)\<bar> < epsilon)"

definition snap :: "BoundingBox \<Rightarrow> IfcFloat \<Rightarrow> IfcVector2 \<Rightarrow> IfcVector2 \<Rightarrow> IfcVector2" where
  "snap box epsilon v edge =
     IfcVector2
       (if \<bar>x2 v - x2 (fst box)\<bar> < epsilon then x2 (fst box)
        else if \<bar>x2 v - x2 (snd box)\<bar> < epsilon then x2 (snd box)
        else x2 edge)
       (if \<bar>y2 v - y2 (fst box)\<bar> < epsilon then y2 (fst box)
        else if \<bar>y2 v - y2 (snd box)\<bar> < epsilon then y2 (snd box)
        else y2 edge)"

text \<open>
  The inner loop \<open>for (a = last_hit, e = 0; e <= cnt; a = (a+1) % size, ++e)\<close>, its
  fourth argument the number of rounds left: a vertex farther than \<open>diag*diag*0.7\<close> (squared)
  from \<open>edge\<close> is skipped, the others are pushed.
\<close>

fun push_run :: "Contour \<Rightarrow> IfcVector2 \<Rightarrow> IfcFloat \<Rightarrow> nat \<Rightarrow> nat \<Rightarrow> IfcVector3 list
    \<Rightarrow> IfcVector3 list" where
  "push_run cont edge diag a 0 vs = vs"
| "push_run cont edge diag a (Suc k) vs =
     push_run cont edge diag ((a + 1) mod length cont) k
       (if SquareLength2 (sub2 (cont ! a) edge) > diag * diag * (7 / 10) then vs
        else vs @ [IfcVector3 (x2 (cont ! a)) (y2 (cont ! a)) 0])"

text \<open>
  The body of \<open>if (last_hit != (size_t)-1)\<close> up to the reversal of the new face: the run
  of vertices, the synthesized corner (or the erasure of a run of two), the count and the
  \<open>std::reverse\<close> of the last \<open>d\<close> vertices.
\<close>

definition emit_face :: "BoundingBox \<Rightarrow> Contour \<Rightarrow> IfcFloat \<Rightarrow> nat \<Rightarrow> nat \<Rightarrow> IfcVector2
    \<Rightarrow> TempMesh \<Rightarrow> TempMesh" where
  "emit_face box cont diag last_hit n edge curmesh =
     (let size = length cont;
          epsilon = diag / 1000;
          old = length (verts curmesh);
          cnt = (if last_hit > n then size - (last_hit - n) else n - last_hit);
          vs1 = push_run cont edge diag last_hit (cnt + 1) (verts curmesh);
          vs2 = (if edge \<noteq> cont ! last_hit
                 then (let corner = snap box epsilon (cont ! last_hit) edge
                       in vs1 @ [IfcVector3 (x2 corner) (y2 corner) 0])
                 else if cnt = 1 then take old vs1
                 else vs1);
          d = length vs2 - old
      in if d \<noteq> 0
         then curmesh\<lparr>verts := take old vs2 @ rev (drop old vs2),
                      vertcnt := vertcnt curmesh @ [d]\<rparr>
         else curmesh\<lparr>verts := vs2\<rparr>)"

text \<open>
  The walk \<open>for (n = 0, e = 0; ; n = (n+1) % size, ++e)\<close>. The counter \<open>e\<close> is a
  \<open>size_t\<close>, a 64-bit word: the sanity check is the equality \<open>e == size*2\<close> of the source.
  \<open>last_hit\<close> and \<open>very_first_hit\<close> are \<open>None\<close> for \<open>(size_t)-1\<close>. The result carries the
  value of \<open>e\<close> at the \<open>break\<close>.
\<close>

lemma word_step: "(t::64 word) \<noteq> e \<Longrightarrow> unat (t - (e + 1)) < unat (t - e)"
proof -
  assume a: "t \<noteq> e"
  then have "t - e \<noteq> 0" by simp
  then have "unat (t - e - 1) < unat (t - e)"
    by (simp add: unat_minus_one unat_gt_0)
  then show ?thesis by (simp add: diff_diff_eq add.commute)
qed

function walk :: "BoundingBox \<Rightarrow> Contour \<Rightarrow> IfcFloat \<Rightarrow> nat \<Rightarrow> 64 word \<Rightarrow> nat option \<Rightarrow> nat option
    \<Rightarrow> IfcVector2 \<Rightarrow> TempMesh \<Rightarrow> Logger \<Rightarrow> 64 word \<times> TempMesh \<times> Logger" where
  "walk box cont diag n e last_hit very_first_hit edge curmesh lg =
     (if e = of_nat (length cont) * 2 then
        (e, curmesh,
         lg @ [(Error, ''encountered unexpected topology while generating window contour'')])
      else if hit_x box (diag / 1000) (cont ! n) \<or> hit_y box (diag / 1000) (cont ! n) then
        (case last_hit of
           Some lh \<Rightarrow>
             if Some n = very_first_hit
             then (e, emit_face box cont diag lh n (snap box (diag / 1000) (cont ! n) edge) curmesh,
                   lg)
             else walk box cont diag ((n + 1) mod length cont) (e + 1) (Some n) very_first_hit
                    (snap box (diag / 1000) (cont ! n) edge)
                    (emit_face box cont diag lh n (snap box (diag / 1000) (cont ! n) edge) curmesh)
                    lg
         | None \<Rightarrow>
             walk box cont diag ((n + 1) mod length cont) (e + 1) (Some n) (Some n)
               (snap box (diag / 1000) (cont ! n) edge) curmesh lg)
      else walk box cont diag ((n + 1) mod length cont) (e + 1) last_hit very_first_hit
             (snap box (diag / 1000) (cont ! n) edge) curmesh lg)"
  by pat_completeness auto
termination
  by (relation "measure (\<lambda>(box, cont, diag, n, e, r). unat (of_nat (length cont) * 2 - e))")
     (auto intro: word_step)

declare walk.simps [simp del]

text \<open>
  The loop over all contours. The set \<open>verts\<close> of the four vertices is ordered by
  \<open>XYSorter\<close>, under which two points are equivalent when both coordinates are equal, so
  \<open>verts.find(p) != end\<close> is membership. \<open>openings\<close> is not used by the source either.
\<close>

fun InsertWindowContours :: "ContourVector \<Rightarrow> 'o list \<Rightarrow> TempMesh \<Rightarrow> Logger \<Rightarrow> TempMesh \<times> Logger" where
  "InsertWindowContours [] openings curmesh lg = (curmesh, lg)"
| "InsertWindowContours (w # ws) openings curmesh lg =
     (if contour w = [] then InsertWindowContours ws openings curmesh lg
      else if length (contour w) = 4 \<and>
              fst (bb w) \<in> set (contour w) \<and> snd (bb w) \<in> set (contour w) \<and>
              IfcVector2 (x2 (fst (bb w))) (y2 (snd (bb w))) \<in> set (contour w) \<and>
              IfcVector2 (x2 (snd (bb w))) (y2 (fst (bb w))) \<in> set (contour w)
      then InsertWindowContours ws openings curmesh lg
      else
        (let diag = Length2 (sub2 (fst (bb w)) (snd (bb w)));
             (e, curmesh', lg') = walk (bb w) (contour w) diag 0 0 None None zero2 curmesh lg
         in InsertWindowContours ws openings curmesh' lg'))"

section \<open>The half-space clipper\<close>

text \<open>\<open>enum Intersect\<close>\<close>

datatype Intersect = Intersect_No | Intersect_LiesOnPlane | Intersect_Yes

text \<open>
  \<open>IntersectSegmentPlane\<close> writes the point of intersection to \<open>out\<close> only when it
  returns \<open>Intersect_Yes\<close>; the result carries \<open>out\<close> as it is afterwards. The
  arithmetic is that of the reals, so \<open>e0 + t * seg\<close> here lies on the plane; the source
  rounds every operation, and its \<open>out\<close> can lie a rounding error off the plane, on either
  side. What is stated of the clipper below is therefore which vertices are pushed and in
  which order, and the result on an input whose coordinates and intersection points the
  program computes without rounding; no statement is made about the side of the plane a
  computed point lies on.
\<close>

definition IntersectSegmentPlane ::
  "IfcVector3 \<Rightarrow> IfcVector3 \<Rightarrow> IfcVector3 \<Rightarrow> IfcVector3 \<Rightarrow> IfcVector3 \<Rightarrow> Intersect \<times> IfcVector3" where
  "IntersectSegmentPlane p n e0 e1 out =
     (let pdelta = sub3 e0 p;
          seg = sub3 e1 e0;
          dotOne = dot3 n seg;
          dotTwo = - (dot3 n pdelta)
      in if \<bar>dotOne\<bar> < 1 / 1000000 then
           (if \<bar>dotTwo\<bar> < 1 / 1000000 then Intersect_LiesOnPlane else Intersect_No, out)
         else
           (let t = dotTwo / dotOne
            in if t > 1 \<or> t < 0 then (Intersect_No, out)
               else (Intersect_Yes, add3 e0 (smul3 t seg))))"

text \<open>The test \<open>(e0-p).Normalize()*n > 0\<close>, which both branches of the clipper make.\<close>

definition on_kept_side :: "IfcVector3 \<Rightarrow> IfcVector3 \<Rightarrow> IfcVector3 \<Rightarrow> bool" where
  "on_kept_side p n e0 = (dot3 (Normalize3 (sub3 e0 p)) n > 0)"

text \<open>What one edge \<open>e0, e1\<close> of a face pushes onto \<open>outvert\<close>.\<close>

definition clip_edge :: "IfcVector3 \<Rightarrow> IfcVector3 \<Rightarrow> IfcVector3 \<Rightarrow> IfcVector3 \<Rightarrow> IfcVector3 list" where
  "clip_edge p n e0 e1 =
     (case IntersectSegmentPlane p n e0 e1 zero3 of
        (Intersect_Yes, isectpos) \<Rightarrow>
          if on_kept_side p n e0 then [e0, isectpos] else [isectpos]
      | (isect, isectpos) \<Rightarrow>
          if on_kept_side p n e0 then [e0] else [])"

text \<open>
  The loop \<open>for (i = 0; i < *iit; ++i)\<close> over the edges of the face of \<open>cnt\<close> vertices
  that starts at \<open>vidx\<close>: the \<open>newcount\<close> vertices pushed, in order.
\<close>

definition clip_face :: "IfcVector3 \<Rightarrow> IfcVector3 \<Rightarrow> IfcVector3 list \<Rightarrow> nat \<Rightarrow> nat \<Rightarrow> IfcVector3 list" where
  "clip_face p n vin vidx cnt =
     concat (map (\<lambda>i. clip_edge p n (vin ! (vidx + i)) (vin ! (vidx + (i + 1) mod cnt))) [0..<cnt])"

text \<open>
  Modelled from the spec: \<open>ArrayBounds\<close> (ProcessHelper.h) and \<open>FuzzyVectorCompare\<close>
  (IFCUtil.h) are not part of the sources. The spec has the tolerance
  \<open>|bbox|^2 / 10^6\<close> for near-duplicates: \<open>ArrayBounds\<close> is the bounding box of the pushed
  vertices, a running component-wise minimum and maximum from the \<open>MinMaxChooser\<close> start
  values, and two vertices are near-duplicates when their squared distance is below
  the tolerance.
\<close>

fun ArrayBounds_loop :: "IfcVector3 list \<Rightarrow> IfcVector3 \<times> IfcVector3 \<Rightarrow> IfcVector3 \<times> IfcVector3" where
  "ArrayBounds_loop [] mm = mm"
| "ArrayBounds_loop (v # vs) mm = ArrayBounds_loop vs (min3 v (fst mm), max3 v (snd mm))"

definition ArrayBounds :: "Collaborators \<Rightarrow> IfcVector3 list \<Rightarrow> IfcVector3 \<times> IfcVector3" where
  "ArrayBounds E vs =
     ArrayBounds_loop vs
       (IfcVector3 (fst (MinMaxChooser E)) (fst (MinMaxChooser E)) (fst (MinMaxChooser E)),
        IfcVector3 (snd (MinMaxChooser E)) (snd (MinMaxChooser E)) (snd (MinMaxChooser E)))"

definition FuzzyVectorCompare :: "IfcFloat \<Rightarrow> IfcVector3 \<Rightarrow> IfcVector3 \<Rightarrow> bool" where
  "FuzzyVectorCompare epsilon a b = (\<bar>SquareLength3 (sub3 a b)\<bar> < epsilon)"

text \<open>
  \<open>std::unique\<close> with a predicate: an element is dropped when the predicate holds for
  the last element kept and it.
\<close>

fun unique_from :: "('a \<Rightarrow> 'a \<Rightarrow> bool) \<Rightarrow> 'a \<Rightarrow> 'a list \<Rightarrow> 'a list" where
  "unique_from pred kept [] = []"
| "unique_from pred kept (y # ys) =
     (if pred kept y then unique_from pred kept ys else y # unique_from pred y ys)"

fun unique :: "('a \<Rightarrow> 'a \<Rightarrow> bool) \<Rightarrow> 'a list \<Rightarrow> 'a list" where
  "unique pred [] = []"
| "unique pred (x # xs) = x # unique_from pred x xs"

text \<open>
  The filter on the last \<open>newcount\<close> vertices: \<open>std::unique\<close> under the tolerance, then
  the last vertex is popped when it is near the first.
\<close>

definition remove_near_duplicates :: "Collaborators \<Rightarrow> IfcVector3 list \<Rightarrow> IfcVector3 list" where
  "remove_near_duplicates E pushed =
     (let epsilon = SquareLength3 (sub3 (snd (ArrayBounds E pushed)) (fst (ArrayBounds E pushed)))
                      / 1000000;
          fz = FuzzyVectorCompare epsilon;
          u = unique fz pushed
      in if fz (hd u) (last u) then butlast u else u)"

text \<open>
  The rest of the loop body, from \<open>if (!newcount) continue\<close>: a face of more than two
  vertices gets its count pushed, the vertices of any other are popped again, which
  leaves \<open>result\<close> as it was before the face.
\<close>

definition finish_face :: "Collaborators \<Rightarrow> IfcVector3 list \<Rightarrow> TempMesh \<Rightarrow> TempMesh" where
  "finish_face E pushed result =
     (if pushed = [] then result
      else if length (remove_near_duplicates E pushed) > 2
      then result\<lparr>verts := verts result @ remove_near_duplicates E pushed,
                   vertcnt := vertcnt result @ [length (remove_near_duplicates E pushed)]\<rparr>
      else result)"

text \<open>The loop \<open>for (iit = begin; iit != end; vidx += *iit++)\<close> over the faces.\<close>

fun clip_faces :: "Collaborators \<Rightarrow> IfcVector3 \<Rightarrow> IfcVector3 \<Rightarrow> IfcVector3 list \<Rightarrow> nat \<Rightarrow> nat list
    \<Rightarrow> TempMesh \<Rightarrow> TempMesh" where
  "clip_faces E p n vin vidx [] result = result"
| "clip_faces E p n vin vidx (cnt # cnts) result =
     clip_faces E p n vin (vidx + cnt) cnts (finish_face E (clip_face p n vin vidx cnt) result)"







section \<open>Revolved area solids\<close>

text \<open>
  Modelled from the spec: the macros \<open>AI_MATH_HALF_PI_F\<close> and \<open>AI_MATH_TWO_PI_F\<close> are
  declared outside the sources; the spec writes \<open>\<pi>/2\<close> and \<open>2\<pi>\<close> for them.
\<close>

definition AI_MATH_HALF_PI_F :: IfcFloat where
  "AI_MATH_HALF_PI_F = pi / 2"

definition AI_MATH_TWO_PI_F :: IfcFloat where
  "AI_MATH_TWO_PI_F = 2 * pi"

text \<open>
  \<open>cnt_segments = std::max(2u, static_cast<unsigned int>(16 * fabs(max_angle) /
  AI_MATH_HALF_PI_F))\<close>: the cast truncates.
\<close>

definition cnt_segments_of :: "IfcFloat \<Rightarrow> nat" where
  "cnt_segments_of max_angle = max 2 (nat \<lfloor>16 * \<bar>max_angle\<bar> / AI_MATH_HALF_PI_F\<rfloor>)"

text \<open>
  The inner loop over the profile, for one segment: a quad per profile edge, built from
  the last vertex of the quads of the segment before, which start at \<open>base\<close>.
\<close>

fun revolve_profile :: "(IfcVector3 \<Rightarrow> IfcVector3) \<Rightarrow> nat \<Rightarrow> nat \<Rightarrow> nat list
    \<Rightarrow> IfcVector3 list \<times> nat list \<Rightarrow> IfcVector3 list \<times> nat list" where
  "revolve_profile rot sz base [] (out, vc) = (out, vc)"
| "revolve_profile rot sz base (i # is) (out, vc) =
     (let next = (i + 1) mod sz;
          base_0 = out ! (base + i * 4 + 3);
          base_1 = out ! (base + next * 4 + 3)
      in revolve_profile rot sz base is
           (out @ [base_0, base_1, rot base_1, rot base_0], vc @ [4]))"

text \<open>The loop over the segments; \<open>base\<close> moves on by \<open>size * 4\<close> after each.\<close>

fun revolve_segments :: "(IfcVector3 \<Rightarrow> IfcVector3) \<Rightarrow> nat \<Rightarrow> nat \<Rightarrow> nat
    \<Rightarrow> IfcVector3 list \<times> nat list \<Rightarrow> (IfcVector3 list \<times> nat list) \<times> nat" where
  "revolve_segments rot sz 0 base st = (st, base)"
| "revolve_segments rot sz (Suc k) base st =
     revolve_segments rot sz k (base + sz * 4) (revolve_profile rot sz base [0..<sz] st)"

text \<open>
  \<open>ProcessProfile\<close>, \<open>ConvertAxisPlacement\<close> and the matrices are outside the sources:
  the function gets the outcome of \<open>ProcessProfile\<close> (its flag and the mesh of the
  profile), the profile type, axis and position of the axis placement, the map
  \<open>Rotation delta axis pos\<close> for the matrix \<open>tb0 * Rotation(delta, axis) * tb1\<close> and the
  map \<open>trafo\<close> of the final \<open>result.Transform\<close>.
\<close>

definition ProcessRevolvedAreaSolid ::
  "(IfcFloat \<Rightarrow> IfcVector3 \<Rightarrow> IfcVector3 \<Rightarrow> IfcVector3 \<Rightarrow> IfcVector3) \<Rightarrow> (IfcVector3 \<Rightarrow> IfcVector3)
     \<Rightarrow> bool \<Rightarrow> TempMesh \<Rightarrow> string \<Rightarrow> IfcVector3 \<Rightarrow> IfcVector3 \<Rightarrow> IfcFloat \<Rightarrow> IfcFloat
     \<Rightarrow> TempMesh \<Rightarrow> Logger \<Rightarrow> TempMesh \<times> Logger" where
  "ProcessRevolvedAreaSolid Rotation trafo profile_ok meshout ProfileType axis pos Angle
       angle_scale result lg =
     (if \<not> profile_ok \<or> length (verts meshout) \<le> 1 then (result, lg)
      else
        (let vin = verts meshout;
             sz = length vin;
             has_area = (ProfileType = ''AREA'' \<and> sz > 2);
             max_angle = Angle * angle_scale
         in if \<bar>max_angle\<bar> < 1 / 1000 then ((if has_area then meshout else result), lg)
            else
              (let cnt_segments = cnt_segments_of max_angle;
                   delta = max_angle / of_nat cnt_segments;
                   has_area = (has_area \<and> \<bar>max_angle\<bar> < AI_MATH_TWO_PI_F * (99 / 100));
                   rot = Rotation delta axis pos;
                   out0 = verts result @ concat (map (replicate 4) vin);
                   ((out1, vc1), base) =
                      revolve_segments rot sz cnt_segments 0 (out0, vertcnt result);
                   out2 = drop (sz * 4) out1;
                   base2 = base - sz * 8;
                   out3 = (if has_area
                           then out2 @ map (\<lambda>i. out2 ! (base2 + i * 4 + 3)) (rev [0..<sz])
                           else out2);
                   out4 = (if has_area
                           then out3 @ map (\<lambda>i. out3 ! (i * 4)) [0..<sz]
                           else out3);
                   vc2 = (if has_area then vc1 @ [sz, sz] else vc1)
               in (\<lparr>verts = map trafo out4, vertcnt = vc2\<rparr>,
                   lg @ [(Debug,
                     ''generate mesh procedurally by radial extrusion (IfcRevolvedAreaSolid)'')]))))"

section \<open>Quadrify\<close>

text \<open>\<open>struct XYSorter\<close>: sort first by X coordinates, then by Y coordinates.\<close>

definition XYSorter :: "IfcVector2 \<Rightarrow> IfcVector2 \<Rightarrow> bool" where
  "XYSorter a b = (if x2 a = x2 b then y2 a < y2 b else x2 a < x2 b)"

text \<open>
  \<open>typedef std::map<IfcVector2, size_t, XYSorter> XYSortedField\<close>: the entries in the
  order of the keys. \<open>field.find(k) != field.end()\<close> is \<open>field_find\<close>, \<open>field[k] = v\<close>
  is \<open>field_assign\<close>; two keys are the same when neither sorts before the other.
\<close>

type_synonym XYSortedField = "(IfcVector2 \<times> nat) list"

fun field_find :: "XYSortedField \<Rightarrow> IfcVector2 \<Rightarrow> bool" where
  "field_find [] k = False"
| "field_find ((k', v) # field) k =
     (if \<not> XYSorter k k' \<and> \<not> XYSorter k' k then True else field_find field k)"

fun field_assign :: "XYSortedField \<Rightarrow> IfcVector2 \<Rightarrow> nat \<Rightarrow> XYSortedField" where
  "field_assign [] k v = [(k, v)]"
| "field_assign ((k', v') # field) k v =
     (if XYSorter k k' then (k, v) # (k', v') # field
      else if XYSorter k' k then (k', v') # field_assign field k v
      else (k', v) # field)"

text \<open>
  The first loop of \<open>QuadrifyPart\<close>, the search along the x axis: \<open>None\<close> when no opening
  is found, else \<open>xs\<close>, \<open>xe\<close> and the iterator \<open>start\<close> (the entries from the opening found).
\<close>

fun x_search :: "IfcVector2 \<Rightarrow> IfcVector2 \<Rightarrow> BoundingBox list \<Rightarrow> XYSortedField
    \<Rightarrow> (IfcFloat \<times> IfcFloat \<times> XYSortedField) option" where
  "x_search pmin pmax bbs [] = None"
| "x_search pmin pmax bbs (start # field) =
     (if x2 (fst (bbs ! snd start)) \<ge> x2 pmax then None
      else if x2 (snd (bbs ! snd start)) > x2 pmin \<and> y2 (snd (bbs ! snd start)) > y2 pmin \<and>
              y2 (fst (bbs ! snd start)) < y2 pmax
      then Some (x2 (fst (bbs ! snd start)), x2 (snd (bbs ! snd start)), start # field)
      else x_search pmin pmax bbs field)"

text \<open>
  The second loop, along the y axis from \<open>start\<close>, with \<open>ylast\<close>, \<open>found\<close> and what has been
  pushed onto \<open>out\<close> since the call; \<open>rec\<close> stands for the recursive call of
  \<open>QuadrifyPart\<close> (with the same \<open>field\<close> and \<open>bbs\<close>).
\<close>

fun y_loop :: "(IfcVector2 \<Rightarrow> IfcVector2 \<Rightarrow> IfcVector2 list) \<Rightarrow> IfcVector2 \<Rightarrow> IfcVector2 \<Rightarrow> IfcFloat
    \<Rightarrow> IfcFloat \<Rightarrow> BoundingBox list \<Rightarrow> XYSortedField \<Rightarrow> IfcFloat \<Rightarrow> bool \<Rightarrow> IfcVector2 list
    \<Rightarrow> IfcFloat \<times> bool \<times> IfcVector2 list" where
  "y_loop rec pmin pmax xs xe bbs [] ylast found out = (ylast, found, out)"
| "y_loop rec pmin pmax xs xe bbs (start # field) ylast found out =
     (if x2 (fst (bbs ! snd start)) > xs \<or> y2 (fst (bbs ! snd start)) \<ge> y2 pmax
      then (ylast, found, out)
      else if y2 (snd (bbs ! snd start)) > ylast then
        y_loop rec pmin pmax xs xe bbs field (min (y2 (snd (bbs ! snd start))) (y2 pmax)) True
          (if max (y2 (fst (bbs ! snd start))) (y2 pmin) - ylast > 0
           then out @ rec (IfcVector2 xs ylast)
                          (IfcVector2 xe (max (y2 (fst (bbs ! snd start))) (y2 pmin)))
           else out)
      else y_loop rec pmin pmax xs xe bbs field ylast found out)"

text \<open>
  The rectangles on which the loop calls \<open>rec\<close>, for the proof that \<open>QuadrifyPart\<close>
  terminates.
\<close>

fun y_calls :: "IfcVector2 \<Rightarrow> IfcVector2 \<Rightarrow> IfcFloat
    \<Rightarrow> IfcFloat \<Rightarrow> BoundingBox list \<Rightarrow> XYSortedField \<Rightarrow> IfcFloat \<Rightarrow> (IfcVector2 \<times> IfcVector2) list" where
  "y_calls pmin pmax xs xe bbs [] ylast = []"
| "y_calls pmin pmax xs xe bbs (start # field) ylast =
     (if x2 (fst (bbs ! snd start)) > xs \<or> y2 (fst (bbs ! snd start)) \<ge> y2 pmax
      then []
      else if y2 (snd (bbs ! snd start)) > ylast then
        (if max (y2 (fst (bbs ! snd start))) (y2 pmin) - ylast > 0
           then [(IfcVector2 xs ylast,
                          IfcVector2 xe (max (y2 (fst (bbs ! snd start))) (y2 pmin)))]
           else []) @
        y_calls pmin pmax xs xe bbs field (min (y2 (snd (bbs ! snd start))) (y2 pmax))
      else y_calls pmin pmax xs xe bbs field ylast)"

lemma y_loop_cong [fundef_cong]:
  assumes "pmin = pmin'" "pmax = pmax'" "xs = xs'" "xe = xe'" "bbs = bbs'" "field = field'"
    "ylast = ylast'" "found = found'" "out = out'"
    "\<And>a b. (a, b) \<in> set (y_calls pmin' pmax' xs' xe' bbs' field' ylast') \<Longrightarrow> rec a b = rec' a b"
  shows "y_loop rec pmin pmax xs xe bbs field ylast found out
         = y_loop rec' pmin' pmax' xs' xe' bbs' field' ylast' found' out'"
proof -
  have "(\<And>a b. (a, b) \<in> set (y_calls pmin pmax xs xe bbs field ylast) \<Longrightarrow> rec a b = rec' a b)
    \<Longrightarrow> y_loop rec pmin pmax xs xe bbs field ylast found out
         = y_loop rec' pmin pmax xs xe bbs field ylast found out"
  proof (induction field arbitrary: ylast found out)
    case Nil
    then show ?case by simp
  next
    case (Cons start field)
    show ?case
      using Cons.prems Cons.IH by (auto simp del: max_less_iff_conj)
  qed
  with assms show ?thesis by simp
qed

text \<open>
  The measure for the termination of \<open>QuadrifyPart\<close>: whether the rectangle is upside
  down, the number of y coordinates of openings in its y range, the number of right
  edges of openings strictly inside its x range. The calls from the loop along y and the
  call for the rest above \<open>ylast\<close> shrink the y range, the call for the rest to the right
  keeps it and shrinks the x range.
\<close>

definition ycoords :: "XYSortedField \<Rightarrow> BoundingBox list \<Rightarrow> IfcFloat list" where
  "ycoords field bbs = concat (map (\<lambda>e. [y2 (fst (bbs ! snd e)), y2 (snd (bbs ! snd e))]) field)"

definition xcoords :: "XYSortedField \<Rightarrow> BoundingBox list \<Rightarrow> IfcFloat list" where
  "xcoords field bbs = map (\<lambda>e. x2 (snd (bbs ! snd e))) field"

definition q_inv :: "IfcVector2 \<Rightarrow> IfcVector2 \<Rightarrow> nat" where
  "q_inv pmin pmax = (if y2 pmax < y2 pmin then 1 else 0)"

definition q_ny :: "IfcVector2 \<Rightarrow> IfcVector2 \<Rightarrow> XYSortedField \<Rightarrow> BoundingBox list \<Rightarrow> nat" where
  "q_ny pmin pmax field bbs =
     length (filter (\<lambda>c. y2 pmin \<le> c \<and> c < y2 pmax) (ycoords field bbs)) +
     length (filter (\<lambda>c. y2 pmin < c \<and> c \<le> y2 pmax) (ycoords field bbs))"

definition q_nx :: "IfcVector2 \<Rightarrow> IfcVector2 \<Rightarrow> XYSortedField \<Rightarrow> BoundingBox list \<Rightarrow> nat" where
  "q_nx pmin pmax field bbs =
     length (filter (\<lambda>c. x2 pmin < c \<and> c < x2 pmax) (xcoords field bbs))"

lemma filter_length_mono:
  "(\<And>c. Q c \<Longrightarrow> P c) \<Longrightarrow> length (filter Q xs) \<le> length (filter P xs)"
  by (induction xs) auto

lemma filter_length_strict:
  "(\<And>c. Q c \<Longrightarrow> P c) \<Longrightarrow> x \<in> set xs \<Longrightarrow> P x \<Longrightarrow> \<not> Q x
     \<Longrightarrow> length (filter Q xs) < length (filter P xs)"
proof (induction xs)
  case Nil
  then show ?case by simp
next
  case (Cons a xs)
  have m: "length (filter Q xs) \<le> length (filter P xs)"
    using Cons.prems(1) by (rule filter_length_mono)
  show ?case
  proof (cases "x = a")
    case True
    with Cons.prems m show ?thesis by simp
  next
    case False
    with Cons have "length (filter Q xs) < length (filter P xs)" by simp
    with Cons.prems(1) show ?thesis by auto
  qed
qed

lemma x_search_Some:
  "x_search pmin pmax bbs field = Some (xs0, xe0, start) \<Longrightarrow>
     set start \<subseteq> set field \<and> xe0 \<in> set (xcoords field bbs) \<and> x2 pmin < xe0"
  by (induction field) (auto simp: xcoords_def split: if_splits)

lemma ycoords_mono: "set start \<subseteq> set field \<Longrightarrow> set (ycoords start bbs) \<subseteq> set (ycoords field bbs)"
  by (auto simp: ycoords_def)

lemma y_calls_upright:
  "(a, b) \<in> set (y_calls pmin pmax xs xe bbs field ylast) \<Longrightarrow> y2 a < y2 b"
  by (induction field arbitrary: ylast) (auto split: if_splits simp del: max_less_iff_conj)

lemma y_calls_inside:
  "(a, b) \<in> set (y_calls pmin pmax xs xe bbs field ylast) \<Longrightarrow> y2 pmin \<le> ylast
     \<Longrightarrow> y2 pmin < y2 pmax
     \<Longrightarrow> y2 pmin \<le> y2 a \<and> y2 b < y2 pmax \<and> y2 b \<in> set (ycoords field bbs)"
proof (induction field arbitrary: ylast)
  case Nil
  then show ?case by simp
next
  case (Cons start field)
  let ?bb = "bbs ! snd start"
  show ?case
  proof (cases "x2 (fst ?bb) > xs \<or> y2 (fst ?bb) \<ge> y2 pmax")
    case True
    with Cons.prems show ?thesis by simp
  next
    case brk: False
    show ?thesis
    proof (cases "y2 (snd ?bb) > ylast")
      case False
      with brk Cons.prems Cons.IH [of ylast] show ?thesis by (auto simp: ycoords_def)
    next
      case True
      have nl: "y2 pmin \<le> min (y2 (snd ?bb)) (y2 pmax)"
        using True Cons.prems by simp
      from Cons.prems(1) brk True
      consider (here) "max (y2 (fst ?bb)) (y2 pmin) - ylast > 0"
          "a = IfcVector2 xs ylast" "b = IfcVector2 xe (max (y2 (fst ?bb)) (y2 pmin))"
        | (later) "(a, b) \<in> set (y_calls pmin pmax xs xe bbs field
              (min (y2 (snd ?bb)) (y2 pmax)))"
        by (auto split: if_splits simp del: max_less_iff_conj)
      then show ?thesis
      proof cases
        case here
        from here(1) Cons.prems(2) have "max (y2 (fst ?bb)) (y2 pmin) = y2 (fst ?bb)"
          by (auto simp: max_def split: if_splits)
        with here brk Cons.prems show ?thesis by (auto simp: ycoords_def)
      next
        case later
        from Cons.IH [OF later nl Cons.prems(3)] show ?thesis by (auto simp: ycoords_def)
      qed
    qed
  qed
qed

lemma y_loop_ylast:
  assumes "y_loop rec pmin pmax xs xe bbs field ylast found out = (yl, f, out')"
    and "y2 pmin < y2 pmax" and "y2 pmin \<le> ylast"
    and "found \<longrightarrow> y2 pmin < ylast \<and> (ylast = y2 pmax \<or> ylast \<in> S)"
    and "set (ycoords field bbs) \<subseteq> S"
  shows "y2 pmin \<le> yl \<and> (f \<longrightarrow> y2 pmin < yl \<and> (yl = y2 pmax \<or> yl \<in> S))"
  using assms
proof (induction field arbitrary: ylast found out)
  case Nil
  then show ?case by simp
next
  case (Cons start field)
  let ?bb = "bbs ! snd start"
  have sub: "set (ycoords field bbs) \<subseteq> S" "y2 (snd ?bb) \<in> S"
    using Cons.prems(5) by (auto simp: ycoords_def)
  show ?case
  proof (cases "x2 (fst ?bb) > xs \<or> y2 (fst ?bb) \<ge> y2 pmax")
    case True
    with Cons.prems show ?thesis by auto
  next
    case brk: False
    show ?thesis
    proof (cases "y2 (snd ?bb) > ylast")
      case False
      with brk Cons.prems(1) have
        "y_loop rec pmin pmax xs xe bbs field ylast found out = (yl, f, out')" by simp
      from Cons.IH [OF this Cons.prems(2) Cons.prems(3) Cons.prems(4) sub(1)]
      show ?thesis .
    next
      case True
      let ?y = "min (y2 (snd ?bb)) (y2 pmax)"
      from brk True Cons.prems(1) obtain o1 where
        r: "y_loop rec pmin pmax xs xe bbs field ?y True o1 = (yl, f, out')"
        by (auto split: if_splits simp del: max_less_iff_conj)
      have a: "y2 pmin \<le> ?y" "True \<longrightarrow> y2 pmin < ?y \<and> (?y = y2 pmax \<or> ?y \<in> S)"
        using True Cons.prems(2) Cons.prems(3) sub(2) by (auto simp: min_def)
      from Cons.IH [OF r Cons.prems(2) a sub(1)] show ?thesis .
    qed
  qed
qed

text \<open>
  \<open>QuadrifyPart\<close> only ever pushes onto \<open>out\<close>: the function returns what one call
  pushes, in order.
\<close>

function QuadrifyPart :: "IfcVector2 \<Rightarrow> IfcVector2 \<Rightarrow> XYSortedField \<Rightarrow> BoundingBox list
    \<Rightarrow> IfcVector2 list" where
  "QuadrifyPart pmin pmax field bbs =
     (if x2 pmin - x2 pmax = 0 \<or> y2 pmin - y2 pmax = 0 then []
      else
        (case x_search pmin pmax bbs field of
           None \<Rightarrow> [pmin, IfcVector2 (x2 pmin) (y2 pmax), pmax, IfcVector2 (x2 pmax) (y2 pmin)]
         | Some (xs0, xe0, start) \<Rightarrow>
             (case y_loop (\<lambda>a b. QuadrifyPart a b field bbs) pmin pmax
                     (max (x2 pmin) xs0) (min (x2 pmax) xe0) bbs start (y2 pmin) False
                     (if max (x2 pmin) xs0 - x2 pmin \<noteq> 0
                      then [pmin, IfcVector2 (x2 pmin) (y2 pmax),
                            IfcVector2 (max (x2 pmin) xs0) (y2 pmax),
                            IfcVector2 (max (x2 pmin) xs0) (y2 pmin)]
                      else []) of
                (ylast, found, out) \<Rightarrow>
                  if \<not> found then
                    out @ [IfcVector2 (max (x2 pmin) xs0) (y2 pmin),
                           IfcVector2 (max (x2 pmin) xs0) (y2 pmax),
                           IfcVector2 (min (x2 pmax) xe0) (y2 pmax),
                           IfcVector2 (min (x2 pmax) xe0) (y2 pmin)]
                  else
                    out @
                    (if ylast < y2 pmax
                     then QuadrifyPart (IfcVector2 (max (x2 pmin) xs0) ylast)
                            (IfcVector2 (min (x2 pmax) xe0) (y2 pmax)) field bbs
                     else []) @
                    (if x2 pmax - min (x2 pmax) xe0 \<noteq> 0
                     then QuadrifyPart (IfcVector2 (min (x2 pmax) xe0) (y2 pmin)) pmax field bbs
                     else []))))"
  by pat_completeness auto
termination
proof (relation "measures [\<lambda>(pmin, pmax, field, bbs). q_inv pmin pmax,
                            \<lambda>(pmin, pmax, field, bbs). q_ny pmin pmax field bbs,
                            \<lambda>(pmin, pmax, field, bbs). q_nx pmin pmax field bbs]", goal_cases)
  case 1
  show ?case by simp
next
  case (2 pmin pmax field bbs t xs0 r xe0 start a b)
  then have xs: "x_search pmin pmax bbs field = Some (xs0, xe0, start)"
    and nd: "y2 pmin \<noteq> y2 pmax" by auto
  from 2 have up: "y2 a < y2 b" by (auto dest: y_calls_upright)
  show ?case
  proof (cases "y2 pmax < y2 pmin")
    case True
    with up show ?thesis by (simp add: q_inv_def)
  next
    case False
    with nd have lt: "y2 pmin < y2 pmax" by simp
    from 2(5) have "y2 pmin \<le> y2 a \<and> y2 b < y2 pmax \<and> y2 b \<in> set (ycoords start bbs)"
      by (rule y_calls_inside) (use lt in simp_all)
    with x_search_Some [OF xs] ycoords_mono [of start field bbs]
    have ins: "y2 pmin \<le> y2 a" "y2 b < y2 pmax" "y2 b \<in> set (ycoords field bbs)" by auto
    have "length (filter (\<lambda>c. y2 a \<le> c \<and> c < y2 b) (ycoords field bbs))
          < length (filter (\<lambda>c. y2 pmin \<le> c \<and> c < y2 pmax) (ycoords field bbs))"
      by (rule filter_length_strict [where x = "y2 b"]) (use ins up in auto)
    moreover have "length (filter (\<lambda>c. y2 a < c \<and> c \<le> y2 b) (ycoords field bbs))
          \<le> length (filter (\<lambda>c. y2 pmin < c \<and> c \<le> y2 pmax) (ycoords field bbs))"
      by (rule filter_length_mono) (use ins up in auto)
    ultimately show ?thesis using up lt by (simp add: q_inv_def q_ny_def)
  qed
next
  case (3 pmin pmax field bbs t xs0 r xe0 start ylast r2 found out)
  then have xs: "x_search pmin pmax bbs field = Some (xs0, xe0, start)"
    and nd: "y2 pmin \<noteq> y2 pmax" by auto
  show ?case
  proof (cases "y2 pmax < y2 pmin")
    case True
    with 3 show ?thesis by (simp add: q_inv_def)
  next
    case False
    with nd have lt: "y2 pmin < y2 pmax" by simp
    from 3 obtain o0 where yl: "y_loop (\<lambda>a b. QuadrifyPart a b field bbs) pmin pmax
          (max (x2 pmin) xs0) (min (x2 pmax) xe0) bbs start (y2 pmin) False o0
        = (ylast, found, out)" "found" "ylast < y2 pmax"
      by (metis prod.collapse prod.inject)
    from y_loop_ylast [OF yl(1) lt, of "set (ycoords field bbs)"]
      x_search_Some [OF xs] ycoords_mono [of start field bbs] yl(2) yl(3)
    have ins: "y2 pmin < ylast" "ylast \<in> set (ycoords field bbs)" by auto
    have "length (filter (\<lambda>c. ylast \<le> c \<and> c < y2 pmax) (ycoords field bbs))
          \<le> length (filter (\<lambda>c. y2 pmin \<le> c \<and> c < y2 pmax) (ycoords field bbs))"
      by (rule filter_length_mono) (use ins in auto)
    moreover have "length (filter (\<lambda>c. ylast < c \<and> c \<le> y2 pmax) (ycoords field bbs))
          < length (filter (\<lambda>c. y2 pmin < c \<and> c \<le> y2 pmax) (ycoords field bbs))"
      by (rule filter_length_strict [where x = ylast]) (use ins yl in auto)
    ultimately show ?thesis using lt yl by (simp add: q_inv_def q_ny_def)
  qed
next
  case (4 pmin pmax field bbs t xs0 r xe0 start ylast r2 found out)
  then have xs: "x_search pmin pmax bbs field = Some (xs0, xe0, start)" by auto
  from 4 have ne: "x2 pmax \<noteq> min (x2 pmax) xe0" by simp
  then have xe: "min (x2 pmax) xe0 = xe0" "xe0 < x2 pmax"
    by (auto simp: min_def split: if_splits)
  from x_search_Some [OF xs] have ins: "xe0 \<in> set (xcoords field bbs)" "x2 pmin < xe0" by auto
  have "length (filter (\<lambda>c. xe0 < c \<and> c < x2 pmax) (xcoords field bbs))
        < length (filter (\<lambda>c. x2 pmin < c \<and> c < x2 pmax) (xcoords field bbs))"
    by (rule filter_length_strict [where x = xe0]) (use ins xe in auto)
  then show ?case by (simp add: q_inv_def q_ny_def q_nx_def xe)
qed

declare QuadrifyPart.simps [simp del]

text \<open>The loop of \<open>Quadrify\<close> that sorts the openings into \<open>field\<close>.\<close>

fun build_field :: "BoundingBox list \<Rightarrow> nat \<Rightarrow> XYSortedField \<Rightarrow> Logger \<Rightarrow> XYSortedField \<times> Logger" where
  "build_field [] i field lg = (field, lg)"
| "build_field (b # bs) i field lg =
     build_field bs (i + 1) (field_assign field (fst b) i)
       (if field_find field (fst b)
        then lg @ [(Warn, ''constraint failure during generation of wall openings, results may be faulty'')]
        else lg)"

text \<open>\<open>v.resize(n, x)\<close>\<close>

definition resize :: "nat \<Rightarrow> 'a \<Rightarrow> 'a list \<Rightarrow> 'a list" where
  "resize n v xs = take n xs @ replicate (n - length xs) v"

text \<open>
  \<open>Quadrify\<close> on bounding boxes (\<open>ai_assert(curmesh.IsEmpty())\<close> is compiled out of release
  builds) and \<open>Quadrify\<close> on contours.
\<close>

definition Quadrify_bbs :: "BoundingBox list \<Rightarrow> TempMesh \<Rightarrow> Logger \<Rightarrow> TempMesh \<times> Logger" where
  "Quadrify_bbs bbs curmesh lg =
     (let (field, lg') = build_field bbs 0 [] lg;
          quads = QuadrifyPart zero2 one_vec field bbs
      in (curmesh\<lparr>vertcnt := resize (length quads div 4) 4 (vertcnt curmesh),
                  verts := verts curmesh @ map (\<lambda>v2. IfcVector3 (x2 v2) (y2 v2) 0) quads\<rparr>,
          lg'))"

definition Quadrify :: "ContourVector \<Rightarrow> TempMesh \<Rightarrow> Logger \<Rightarrow> TempMesh \<times> Logger" where
  "Quadrify cs curmesh lg = Quadrify_bbs (map bb cs) curmesh lg"

section \<open>GenerateOpenings\<close>

text \<open>
  Unary minus on vectors.
\<close>

definition neg3 :: "IfcVector3 \<Rightarrow> IfcVector3" where
  "neg3 a = IfcVector3 (- x3 a) (- y3 a) (- z3 a)"

text \<open>
  The two loops of \<open>DerivePlaneCoordinateSpace\<close> that look for a pair \<open>i < j\<close> of
  vertices whose cross product with the anchor \<open>any_point\<close> is longer than \<open>1e-8\<close>: the
  inner loop over \<open>j\<close>, and the outer loop over \<open>i\<close>, which stops at the first \<open>i\<close> that has
  such a \<open>j\<close> and gives \<open>i\<close> and the normal.
\<close>

fun find_j :: "IfcVector3 list \<Rightarrow> IfcVector3 \<Rightarrow> nat \<Rightarrow> nat list \<Rightarrow> IfcVector3 option" where
  "find_j out any_point i [] = None"
| "find_j out any_point i (j # js) =
     (if \<bar>Length3 (neg3 (cross3 (sub3 (out ! i) any_point) (sub3 (out ! j) any_point)))\<bar>
           > 1 / 100000000
      then Some (neg3 (cross3 (sub3 (out ! i) any_point) (sub3 (out ! j) any_point)))
      else find_j out any_point i js)"

fun find_i :: "IfcVector3 list \<Rightarrow> IfcVector3 \<Rightarrow> nat \<Rightarrow> nat list \<Rightarrow> (nat \<times> IfcVector3) option" where
  "find_i out any_point s [] = None"
| "find_i out any_point s (i # is) =
     (case find_j out any_point i [i + 1..<s] of
        Some nor \<Rightarrow> Some (i, nor)
      | None \<Rightarrow> find_i out any_point s is)"

text \<open>
  \<open>DerivePlaneCoordinateSpace\<close>: \<open>None\<close> stands for \<open>ok = false\<close>, else the result is the
  matrix with the rows \<open>r\<close>, \<open>u\<close>, \<open>nor\<close> and the plane offset \<open>d\<close>. The mesh is one polygon
  (the \<open>assert\<close> of the source); on an empty mesh the source reads out of range.
\<close>

definition DerivePlaneCoordinateSpace :: "TempMesh \<Rightarrow> (IfcMatrix3 \<times> IfcFloat) option" where
  "DerivePlaneCoordinateSpace curmesh =
     (let out = verts curmesh;
          s = length out;
          any_point = out ! (s - 1);
          base = s - last (vertcnt curmesh)
      in case find_i out any_point s [base..<s - 1] of
           None \<Rightarrow> None
         | Some (i, nor0) \<Rightarrow>
             (let nor = Normalize3 nor0;
                  r = Normalize3 (sub3 (out ! i) any_point);
                  d = dot3 (neg3 any_point) nor;
                  u = Normalize3 (cross3 r nor)
              in Some (IfcMatrix3 r u nor, d)))"

text \<open>
  The first loop of \<open>ProjectOntoPlane\<close>: the \<open>z\<close> of the last vertex, the minimum
  and maximum and the flat contour.
\<close>

fun project_verts :: "IfcMatrix4 \<Rightarrow> IfcVector3 list \<Rightarrow> IfcFloat \<times> IfcVector2 \<times> IfcVector2 \<times> Contour
    \<Rightarrow> IfcFloat \<times> IfcVector2 \<times> IfcVector2 \<times> Contour" where
  "project_verts m [] st = st"
| "project_verts m (x # in_verts) (coord, vmin, vmax, out_contour) =
     project_verts m in_verts
       (z3 (apply4 m x),
        min2 (IfcVector2 (x3 (apply4 m x)) (y3 (apply4 m x))) vmin,
        max2 (IfcVector2 (x3 (apply4 m x)) (y3 (apply4 m x))) vmax,
        out_contour @ [IfcVector2 (x3 (apply4 m x)) (y3 (apply4 m x))])"

text \<open>
  \<open>ProjectOntoPlane\<close>: \<open>None\<close> for \<open>ok = false\<close>, else the matrix \<open>mult * m\<close>, the
  contour rescaled to \<open>[0,1]\<close> and clamped, and \<open>out_base_d\<close>.
\<close>

definition ProjectOntoPlane ::
  "Collaborators \<Rightarrow> TempMesh \<Rightarrow> (IfcMatrix4 \<times> Contour \<times> IfcFloat) option" where
  "ProjectOntoPlane E in_mesh =
     (case DerivePlaneCoordinateSpace in_mesh of
        None \<Rightarrow> None
      | Some (m3, out_base_d) \<Rightarrow>
          (case project_verts (IfcMatrix4_of m3) (verts in_mesh)
                  (- 1,
                   IfcVector2 (fst (MinMaxChooser E)) (fst (MinMaxChooser E)),
                   IfcVector2 (snd (MinMaxChooser E)) (snd (MinMaxChooser E)), []) of
             (coord, vmin, vmax0, out_contour) \<Rightarrow>
               (let vmax = sub2 vmax0 vmin;
                    mult = identity4\<lparr>a1 := 1 / x2 vmax, b2 := 1 / y2 vmax,
                                     a4 := - x2 vmin * (1 / x2 vmax),
                                     b4 := - y2 vmin * (1 / y2 vmax),
                                     c4 := - coord\<rparr>
                in Some (mul4 mult (IfcMatrix4_of m3),
                         map (\<lambda>vv. min2 (max2 (IfcVector2 ((x2 vv - x2 vmin) / x2 vmax)
                                                            ((y2 vv - y2 vmin) / y2 vmax))
                                               zero2) one_vec) out_contour,
                         out_base_d))))"

text \<open>
  The variables of the loop of \<open>GenerateOpenings\<close> over the faces of one opening:
  \<open>vi_total\<close>, the extremes \<open>dmin\<close>, \<open>dmax\<close> of the plane distance, the bounding box
  \<open>vpmin\<close>, \<open>vpmax\<close> and the projected contour (\<open>temp_contour\<close> in the source).
\<close>

record OpeningProjection =
  vi_total :: nat
  dmin :: IfcFloat
  dmax :: IfcFloat
  vpmin :: IfcVector2
  vpmax :: IfcVector2
  projected :: Contour

text \<open>
  The loop over the vertices of one face of the opening, its fifth argument the number
  of vertices left.
\<close>

fun project_face_verts :: "bool \<Rightarrow> IfcMatrix4 \<Rightarrow> IfcVector3 \<Rightarrow> IfcVector3 list \<Rightarrow> nat
    \<Rightarrow> OpeningProjection \<Rightarrow> OpeningProjection" where
  "project_face_verts check_intersection m nor profile_verts 0 st = st"
| "project_face_verts check_intersection m nor profile_verts (Suc k) st =
     (let x = profile_verts ! vi_total st;
          vert_d = - dot3 x nor;
          v = apply4 m x;
          vv = min2 (max2 (IfcVector2 (x3 v) (y3 v)) zero2) one_vec
      in project_face_verts check_intersection m nor profile_verts k
           (st\<lparr>dmin := (if check_intersection then min (dmin st) vert_d else dmin st),
               dmax := (if check_intersection then max (dmax st) vert_d else dmax st),
               vpmin := min2 (vpmin st) vv,
               vpmax := max2 (vpmax st) vv,
               projected := (if \<not> IsDuplicateVertex vv (projected st)
                             then projected st @ [vv] else projected st),
               vi_total := vi_total st + 1\<rparr>))"

text \<open>
  The loop over the faces: a face whose normal has \<open>|nor \<cdot> face_nor| < 0.5\<close> is skipped
  (the \<open>abs\<close> of the source is taken as the floating-point one). A face of fewer than
  three vertices at the end of the vertex list makes the source read out of range.
\<close>

fun project_faces :: "bool \<Rightarrow> IfcMatrix4 \<Rightarrow> IfcVector3 \<Rightarrow> IfcVector3 list \<Rightarrow> nat list
    \<Rightarrow> OpeningProjection \<Rightarrow> OpeningProjection" where
  "project_faces check_intersection m nor profile_verts [] st = st"
| "project_faces check_intersection m nor profile_verts (cnt # profile_vertcnts) st =
     (if \<bar>dot3 nor (Normalize3 (cross3
               (sub3 (profile_verts ! (vi_total st + 2)) (profile_verts ! vi_total st))
               (sub3 (profile_verts ! (vi_total st + 1)) (profile_verts ! vi_total st))))\<bar>
           < 1 / 2
      then project_faces check_intersection m nor profile_verts profile_vertcnts
             (st\<lparr>vi_total := vi_total st + cnt\<rparr>)
      else project_faces check_intersection m nor profile_verts profile_vertcnts
             (project_face_verts check_intersection m nor profile_verts cnt st))"

text \<open>
  The loop started from the \<open>MinMaxChooser\<close> values.
\<close>

definition opening_projection ::
  "Collaborators \<Rightarrow> IfcMatrix4 \<Rightarrow> IfcVector3 \<Rightarrow> bool \<Rightarrow> TempOpening \<Rightarrow> OpeningProjection" where
  "opening_projection E m nor check_intersection opening =
     project_faces check_intersection m nor (verts (profileMesh opening))
       (vertcnt (profileMesh opening))
       \<lparr>vi_total = 0,
        dmin = fst (MinMaxChooser E), dmax = snd (MinMaxChooser E),
        vpmin = IfcVector2 (fst (MinMaxChooser E)) (fst (MinMaxChooser E)),
        vpmax = IfcVector2 (snd (MinMaxChooser E)) (snd (MinMaxChooser E)),
        projected = []\<rparr>"

text \<open>
  The part of the body of the loop over the openings before the overlap resolution:
  \<open>None\<close> for each \<open>continue\<close> (too few vertices, too few projected vertices, the
  intersection check, the area gate), else the contour and its bounding box.
\<close>

definition project_opening ::
  "Collaborators \<Rightarrow> IfcMatrix4 \<Rightarrow> IfcVector3 \<Rightarrow> IfcFloat \<Rightarrow> bool \<Rightarrow> TempOpening
     \<Rightarrow> (Contour \<times> BoundingBox) option" where
  "project_opening E m nor base_d check_intersection opening =
     (if length (verts (profileMesh opening)) \<le> 2 then None
      else
        (let st = opening_projection E m nor check_intersection opening;
             epsilon = \<bar>dmax st - dmin st\<bar> * (1 / 100)
         in if length (projected st) \<le> 2 then None
            else if check_intersection \<and>
                    (base_d < dmin st - epsilon \<or> base_d > dmax st + epsilon) then None
            else if \<bar>x2 (vpmax st) - x2 (vpmin st)\<bar> * \<bar>y2 (vpmax st) - y2 (vpmin st)\<bar>
                      < 1 / 100000 then None
            else Some (projected st, (vpmin st, vpmax st))))"

text \<open>
  The end of the body: \<open>if (!temp_contour.empty())\<close> the contour is pushed.
\<close>

definition accept_contour :: "bool \<Rightarrow> ScanState \<Rightarrow> ScanState" where
  "accept_contour generate_connection_geometry st =
     (if temp_contour st \<noteq> [] then
        st\<lparr>contours_to_openings :=
              (if generate_connection_geometry
               then contours_to_openings st @ [joined_openings st]
               else contours_to_openings st),
           contours := contours st @ [\<lparr>contour = temp_contour st, bb = new_bb st\<rparr>]\<rparr>
      else st)"

text \<open>
  The loop over the openings, each with its position in the list.
\<close>

fun openings_loop :: "Collaborators \<Rightarrow> IfcMatrix4 \<Rightarrow> IfcVector3 \<Rightarrow> IfcFloat \<Rightarrow> bool \<Rightarrow> bool
    \<Rightarrow> (nat \<times> TempOpening) list \<Rightarrow> ScanState \<Rightarrow> ScanResult" where
  "openings_loop E m nor base_d check_intersection generate_connection_geometry [] st
     = Finished st"
| "openings_loop E m nor base_d check_intersection generate_connection_geometry
       ((i, opening) # openings) st =
     (case project_opening E m nor base_d check_intersection opening of
        None \<Rightarrow>
          openings_loop E m nor base_d check_intersection generate_connection_geometry openings st
      | Some (c, box) \<Rightarrow>
          (case scan E generate_connection_geometry 0
                  (st\<lparr>temp_contour := c, new_bb := box, joined_openings := [i]\<rparr>) of
             Finished st' \<Rightarrow>
               openings_loop E m nor base_d check_intersection generate_connection_geometry
                 openings (accept_contour generate_connection_geometry st')
           | Poly2TriEscape st' \<Rightarrow> Poly2TriEscape st'
           | ClipperThrow sx \<Rightarrow> ClipperThrow sx))"

text \<open>
  The loop of \<open>CleanupOuterContour\<close> over the vertices of the mesh, with \<open>index\<close>,
  \<open>countdown\<close>, the polygon \<open>subject\<close> and the new buffers \<open>vold\<close>, \<open>iold\<close>; \<open>Inl\<close> when the
  clipper throws.
\<close>

fun outer_loop :: "Collaborators \<Rightarrow> Polygon \<Rightarrow> nat list \<Rightarrow> IfcVector3 list \<Rightarrow> nat \<Rightarrow> nat \<Rightarrow> Polygon
    \<Rightarrow> IfcVector3 list \<Rightarrow> nat list \<Rightarrow> string + (IfcVector3 list \<times> nat list)" where
  "outer_loop E clip vc [] index countdown subject vold iold = Inr (vold, iold)"
| "outer_loop E clip vc (pip # rest) index countdown subject vold iold =
     (if countdown = 0 \<and> vc ! index = 0
      then outer_loop E clip vc rest (index + 1) 0 subject vold iold
      else
        (let index' = (if countdown = 0 then index + 1 else index);
             countdown' = (if countdown = 0 then vc ! index else countdown);
             subject' = subject @ [(to_int64 (x3 pip), to_int64 (y3 pip))]
         in if countdown' - 1 = 0 then
              (case Execute E ctIntersection
                      [(ptSubject, if \<not> Orientation E subject' then rev subject' else subject'),
                       (ptClip, clip)] of
                 Inl sx \<Rightarrow> Inl sx
               | Inr clipped \<Rightarrow>
                   outer_loop E clip vc rest index' 0 []
                     (vold @ concat (map (\<lambda>ex. map (\<lambda>point.
                          IfcVector3 (from_int64 (fst point)) (from_int64 (snd point)) 0)
                          (outer ex)) clipped))
                     (iold @ map (\<lambda>ex. length (outer ex)) clipped))
            else outer_loop E clip vc rest index' (countdown' - 1) subject' vold iold))"

text \<open>
  \<open>CleanupOuterContour\<close>: the \<open>catch\<close> logs and returns with the mesh as it was, the
  normal end swaps the buffers in.
\<close>

definition CleanupOuterContour ::
  "Collaborators \<Rightarrow> Contour \<Rightarrow> TempMesh \<Rightarrow> Logger \<Rightarrow> TempMesh \<times> Logger" where
  "CleanupOuterContour E contour_flat curmesh lg =
     (case outer_loop E
             (if \<not> Orientation E (to_Polygon contour_flat) then rev (to_Polygon contour_flat)
              else to_Polygon contour_flat)
             (vertcnt curmesh) (verts curmesh) 0 0 [] [] [] of
        Inl sx \<Rightarrow>
          (curmesh,
           lg @ [(Error,
             ''Ifc: error during polygon clipping, wall contour line may be wrong: (Clipper: ''
               @ sx @ '')'')])
      | Inr (vold, iold) \<Rightarrow> (curmesh\<lparr>verts := vold, vertcnt := iold\<rparr>, lg))"

text \<open>
  \<open>CloseWindows\<close>: the search for the wall point closest to \<open>world_point\<close>.
\<close>

fun nearest_loop :: "IfcVector3 \<Rightarrow> IfcVector3 list \<Rightarrow> IfcFloat \<times> IfcVector3 \<Rightarrow> IfcFloat \<times> IfcVector3" where
  "nearest_loop world_point [] bst = bst"
| "nearest_loop world_point (other # others) (best, bestv) =
     nearest_loop world_point others
       (if SquareLength3 (sub3 world_point other) < best
        then (SquareLength3 (sub3 world_point other), other) else (best, bestv))"

text \<open>
  The variables of the loop of \<open>CloseWindows\<close> over the points of one contour (the
  source also keeps \<open>last_diff\<close>, which it never reads).
\<close>

record CloseState =
  cw_mesh :: TempMesh
  outer_border :: bool
  last_proj_point :: IfcVector2
  start_is_outer_border :: bool

text \<open>
  The test against \<open>border_epsilon_lower = 1e-4\<close> and \<open>border_epsilon_upper = 1 - 1e-4\<close>.
\<close>

definition on_outer_border :: "IfcVector2 \<Rightarrow> bool" where
  "on_outer_border proj_point =
     (x2 proj_point \<le> 1 / 10000 \<or> x2 proj_point \<ge> 1 - 1 / 10000 \<or>
      y2 proj_point \<le> 1 / 10000 \<or> y2 proj_point \<ge> 1 - 1 / 10000)"

text \<open>
  The body of that loop for one point: \<open>is_first\<close> is \<open>cit == cbegin\<close>, \<open>is_last\<close> is
  \<open>cit == cend - 1\<close>.
\<close>

definition close_point :: "IfcMatrix4 \<Rightarrow> IfcVector3 list \<Rightarrow> IfcVector2 \<Rightarrow> nat \<Rightarrow> bool \<Rightarrow> bool
    \<Rightarrow> IfcVector2 \<Rightarrow> CloseState \<Rightarrow> CloseState" where
  "close_point minv others cbegin vstart is_first is_last proj_point st =
     (let world_point = apply4 minv (IfcVector3 (x2 proj_point) (y2 proj_point) 0);
          bestv = snd (nearest_loop world_point others (10000000000, zero3));
          drop_this_edge =
            (on_outer_border proj_point \<and> outer_border st \<and>
             \<bar>(x2 proj_point - x2 (last_proj_point st)) *
               (y2 proj_point - y2 (last_proj_point st))\<bar> < 1 / 100000);
          start' = (if on_outer_border proj_point \<and> \<not> outer_border st \<and> is_first then True
                    else start_is_outer_border st);
          verts1 = (if drop_this_edge then butlast (butlast (verts (cw_mesh st)))
                    else verts (cw_mesh st));
          verts2 = (if \<not> drop_this_edge then verts1 @ [bestv, world_point] else verts1);
          vc2 = (if \<not> drop_this_edge then vertcnt (cw_mesh st) @ [4] else vertcnt (cw_mesh st));
          verts3 = (if \<not> is_first then verts2 @ [world_point, bestv] else verts2);
          drop_last =
            (start' \<and> on_outer_border proj_point \<and>
             \<bar>(x2 proj_point - x2 cbegin) * (y2 proj_point - y2 cbegin)\<bar> < 1 / 100000);
          verts4 = (if \<not> is_first \<and> is_last
                    then (if drop_last then butlast (butlast verts3)
                          else verts3 @ [verts3 ! vstart, verts3 ! (vstart + 1)])
                    else verts3);
          vc4 = (if \<not> is_first \<and> is_last \<and> drop_last then butlast vc2 else vc2)
      in \<lparr>cw_mesh = \<lparr>verts = verts4, vertcnt = vc4\<rparr>,
          outer_border = on_outer_border proj_point,
          last_proj_point = proj_point,
          start_is_outer_border = start'\<rparr>)"

fun close_points :: "IfcMatrix4 \<Rightarrow> IfcVector3 list \<Rightarrow> IfcVector2 \<Rightarrow> nat \<Rightarrow> bool \<Rightarrow> Contour
    \<Rightarrow> CloseState \<Rightarrow> CloseState" where
  "close_points minv others cbegin vstart is_first [] st = st"
| "close_points minv others cbegin vstart is_first (proj_point # rest) st =
     close_points minv others cbegin vstart False rest
       (close_point minv others cbegin vstart is_first (rest = []) proj_point st)"

text \<open>
  The branch without an other side: the unprojected contour is appended to the wall
  points of every opening of \<open>refs\<close>.
\<close>

fun add_wall_points :: "IfcVector3 list \<Rightarrow> nat list \<Rightarrow> TempOpening list \<Rightarrow> TempOpening list" where
  "add_wall_points pts [] openings = openings"
| "add_wall_points pts (i # refs) openings =
     add_wall_points pts refs
       (openings[i := (openings ! i)\<lparr>wallPoints := wallPoints (openings ! i) @ pts\<rparr>])"

text \<open>
  The loop over the contours, from position \<open>k\<close>. \<open>FindAdjacentContours\<close> computes
  nothing that is used (and its \<open>ai_assert\<close> is compiled out of release builds).
\<close>

fun CloseWindows_from :: "ContourVector \<Rightarrow> nat \<Rightarrow> IfcMatrix4 \<Rightarrow> nat list list \<Rightarrow> TempMesh
    \<Rightarrow> TempOpening list \<Rightarrow> TempMesh \<times> TempOpening list" where
  "CloseWindows_from [] k minv c2o curmesh openings = (curmesh, openings)"
| "CloseWindows_from (w # ws) k minv c2o curmesh openings =
     (if IsInvalid w then CloseWindows_from ws (k + 1) minv c2o curmesh openings
      else if list_ex (\<lambda>i. wallPoints (openings ! i) \<noteq> []) (c2o ! k) then
        CloseWindows_from ws (k + 1) minv c2o
          (cw_mesh (close_points minv (concat (map (\<lambda>i. wallPoints (openings ! i)) (c2o ! k)))
                      (hd (contour w)) (length (verts curmesh)) True (contour w)
                      \<lparr>cw_mesh = curmesh, outer_border = False, last_proj_point = zero2,
                       start_is_outer_border = False\<rparr>))
          openings
      else
        CloseWindows_from ws (k + 1) minv c2o curmesh
          (add_wall_points
             (map (\<lambda>proj_point. apply4 minv (IfcVector3 (x2 proj_point) (y2 proj_point) 0))
                (contour w))
             (c2o ! k) openings))"

definition CloseWindows :: "ContourVector \<Rightarrow> IfcMatrix4 \<Rightarrow> nat list list \<Rightarrow> TempMesh
    \<Rightarrow> TempOpening list \<Rightarrow> TempMesh \<times> TempOpening list" where
  "CloseWindows cs minv c2o curmesh openings = CloseWindows_from cs 0 minv c2o curmesh openings"

text \<open>
  \<open>GenerateOpenings\<close> after the check that contours are left: the mesh is cleared and
  quadrified, the contours cleaned up and inserted, the outer contour clipped, the
  projection undone and the windows closed.
\<close>

definition finish_openings :: "Collaborators \<Rightarrow> IfcMatrix4 \<Rightarrow> Contour \<Rightarrow> bool \<Rightarrow> TempOpening list
    \<Rightarrow> ScanState \<Rightarrow> bool \<times> TempMesh \<times> TempOpening list \<times> Logger" where
  "finish_openings E minv contour_flat generate_connection_geometry openings st =
     (case Quadrify (contours st) empty_mesh (logger st) of
        (m1, lg1) \<Rightarrow>
          (case CleanupWindowContours E (contours st) lg1 of
             (cs, lg2) \<Rightarrow>
               (case InsertWindowContours cs openings m1 lg2 of
                  (m2, lg3) \<Rightarrow>
                    (case CleanupOuterContour E contour_flat m2 lg3 of
                       (m3, lg4) \<Rightarrow>
                         (if generate_connection_geometry then
                            (case CloseWindows cs minv (contours_to_openings st)
                                    (m3\<lparr>verts := map (apply4 minv) (verts m3)\<rparr>) openings of
                               (m5, openings') \<Rightarrow> (True, m5, openings', lg4))
                          else (True, m3\<lparr>verts := map (apply4 minv) (verts m3)\<rparr>, openings,
                                lg4))))))"

text \<open>
  \<open>GenerateOpenings\<close>. \<open>Inl\<close> is a throw of the clipper out of the overlap resolution,
  which the function does not catch; else the result is the return value, the face mesh,
  the openings (with their wall points) and the log.
\<close>

definition GenerateOpenings :: "Collaborators \<Rightarrow> TempOpening list \<Rightarrow> IfcVector3 list \<Rightarrow> TempMesh
    \<Rightarrow> bool \<Rightarrow> bool \<Rightarrow> Logger \<Rightarrow> string + (bool \<times> TempMesh \<times> TempOpening list \<times> Logger)" where
  "GenerateOpenings E openings nors curmesh check_intersection generate_connection_geometry lg =
     (case ProjectOntoPlane E curmesh of
        None \<Rightarrow> Inr (False, curmesh, openings, lg)
      | Some (m, contour_flat, base_d) \<Rightarrow>
          (case openings_loop E m (IfcVector3 (c1 m) (c2 m) (c3 m)) base_d check_intersection
                  generate_connection_geometry (zip [0..<length openings] openings)
                  \<lparr>contours = [], contours_to_openings = [], temp_contour = [],
                   new_bb = (zero2, zero2), joined_openings = [], logger = lg\<rparr> of
             ClipperThrow sx \<Rightarrow> Inl sx
           | Poly2TriEscape st \<Rightarrow>
               (case TryAddOpenings_Poly2Tri E openings nors curmesh (logger st) of
                  (r, curmesh', lg') \<Rightarrow> Inr (r, curmesh', openings, lg'))
           | Finished st \<Rightarrow>
               if contours st = [] then Inr (False, curmesh, openings, logger st)
               else Inr (finish_openings E (Inverse E m) contour_flat
                           generate_connection_geometry openings st)))"

section \<open>Concrete inputs\<close>

text \<open>
  Stand-ins for the clipper, used where a statement is evaluated at a concrete input.
  \<open>two_piece_clipper\<close> answers every call with two triangles; \<open>length_clipper\<close> answers
  with nothing when the first polygon has fewer than three points and with that polygon
  otherwise.
\<close>

definition two_piece_clipper :: Collaborators where
  "two_piece_clipper =
     \<lparr>Orientation = (\<lambda>p. False),
      Execute = (\<lambda>ct ps. Inr [\<lparr>outer = [(0, 0), (1, 0), (0, 1)], holes = []\<rparr>,
                               \<lparr>outer = [(2, 2), (3, 2), (2, 3)], holes = []\<rparr>]),
      MinMaxChooser = (10000000000, - 10000000000),
      Inverse = (\<lambda>m. m),
      TryAddOpenings_Poly2Tri = (\<lambda>openings nors curmesh lg. (False, curmesh, lg))\<rparr>"

definition length_clipper :: Collaborators where
  "length_clipper =
     \<lparr>Orientation = (\<lambda>p. False),
      Execute = (\<lambda>ct ps. if length (snd (hd ps)) < 3 then Inr []
                          else Inr [\<lparr>outer = snd (hd ps), holes = []\<rparr>]),
      MinMaxChooser = (10000000000, - 10000000000),
      Inverse = (\<lambda>m. m),
      TryAddOpenings_Poly2Tri = (\<lambda>openings nors curmesh lg. (False, curmesh, lg))\<rparr>"

definition bowtie_window :: ProjectedWindowContour where
  "bowtie_window =
     \<lparr>contour = [IfcVector2 0 0, IfcVector2 1 1, IfcVector2 1 0, IfcVector2 0 1],
      bb = (IfcVector2 0 0, IfcVector2 1 1)\<rparr>"

definition sliver_window :: ProjectedWindowContour where
  "sliver_window =
     \<lparr>contour = [IfcVector2 0 0, IfcVector2 1 1],
      bb = (IfcVector2 0 0, IfcVector2 1 1)\<rparr>"

text \<open>
  A 4-gon that fits its bounding box within a thousandth of the diagonal (the diagonal
  is 5), but whose first vertex is not a corner of the box; and a contour that never
  comes near its box.
\<close>

definition near_fit_window :: ProjectedWindowContour where
  "near_fit_window =
     \<lparr>contour = [IfcVector2 (1 / 1000) 0, IfcVector2 3 0, IfcVector2 3 4, IfcVector2 0 4],
      bb = (IfcVector2 0 0, IfcVector2 3 4)\<rparr>"

definition exact_fit_window :: ProjectedWindowContour where
  "exact_fit_window =
     \<lparr>contour = [IfcVector2 0 0, IfcVector2 3 0, IfcVector2 3 4, IfcVector2 0 4],
      bb = (IfcVector2 0 0, IfcVector2 3 4)\<rparr>"

text \<open>
  The condition of the spec for the perfect fit, in its words: a 4-gon, and every
  corner of the bounding box has a vertex of the contour within \<open>eps\<close> in both coordinates.
\<close>

definition fits_corners_within :: "IfcFloat \<Rightarrow> ProjectedWindowContour \<Rightarrow> bool" where
  "fits_corners_within eps w =
     (length (contour w) = 4 \<and>
      list_all (\<lambda>c. list_ex (\<lambda>v. \<bar>x2 v - x2 c\<bar> < eps \<and> \<bar>y2 v - y2 c\<bar> < eps) (contour w))
        [fst (bb w), snd (bb w),
         IfcVector2 (x2 (fst (bb w))) (y2 (snd (bb w))),
         IfcVector2 (x2 (snd (bb w))) (y2 (fst (bb w)))])"



text \<open>Two profiles in the plane \<open>y = 0\<close>: an open one of two points, a triangle.\<close>

definition two_point_profile :: TempMesh where
  "two_point_profile = \<lparr>verts = [IfcVector3 1 0 0, IfcVector3 1 0 1], vertcnt = [2]\<rparr>"

definition triangle_profile :: TempMesh where
  "triangle_profile =
     \<lparr>verts = [IfcVector3 1 0 0, IfcVector3 2 0 0, IfcVector3 1 0 1], vertcnt = [3]\<rparr>"

text \<open>
  The square window of the spec's scenario, \<open>[(0.2,0.2),(0.8,0.2),(0.8,0.8),(0.2,0.8)]\<close>
  with its bounding box, and the boxes of the quads of a quad list (a quad is pushed as
  \<open>pmin, (pmin.x, pmax.y), pmax, (pmax.x, pmin.y)\<close>).
\<close>

definition square_window :: ProjectedWindowContour where
  "square_window =
     \<lparr>contour = [IfcVector2 (1 / 5) (1 / 5), IfcVector2 (4 / 5) (1 / 5),
                 IfcVector2 (4 / 5) (4 / 5), IfcVector2 (1 / 5) (4 / 5)],
      bb = (IfcVector2 (1 / 5) (1 / 5), IfcVector2 (4 / 5) (4 / 5))\<rparr>"

fun quad_boxes :: "IfcVector3 list \<Rightarrow> BoundingBox list" where
  "quad_boxes (a # b # c # d # vs) =
     (IfcVector2 (x3 a) (y3 a), IfcVector2 (x3 c) (y3 c)) # quad_boxes vs"
| "quad_boxes vs = []"

text \<open>
  \<open>plain_collaborators\<close> answers every clipper call with the first polygon it was
  given. A wall face, the unit square in the plane \<open>z = 0\<close>, with the matrix
  \<open>ProjectOntoPlane\<close> computes for it, and an opening that is a sliver: a triangle whose
  projected bounding box is \<open>0.00001\<close> wide and \<open>0.5\<close> high.
\<close>

definition plain_collaborators :: Collaborators where
  "plain_collaborators =
     \<lparr>Orientation = (\<lambda>p. True),
      Execute = (\<lambda>ct ps. Inr [\<lparr>outer = snd (hd ps), holes = []\<rparr>]),
      MinMaxChooser = (10000000000, - 10000000000),
      Inverse = (\<lambda>m. m),
      TryAddOpenings_Poly2Tri = (\<lambda>openings nors curmesh lg. (False, curmesh, lg))\<rparr>"

definition wall_face :: TempMesh where
  "wall_face = \<lparr>verts = [IfcVector3 0 0 0, IfcVector3 1 0 0, IfcVector3 1 1 0, IfcVector3 0 1 0],
                 vertcnt = [4]\<rparr>"

definition sliver_opening :: TempOpening where
  "sliver_opening =
     \<lparr>extrusionDir = IfcVector3 0 0 1,
      profileMesh = \<lparr>verts = [IfcVector3 (1 / 10) (1 / 10) 0, IfcVector3 (6 / 10) (1 / 10) 0,
                               IfcVector3 (35 / 100) (1 / 10 + 1 / 100000) 0],
                      vertcnt = [3]\<rparr>,
      wallPoints = []\<rparr>"

definition wall_matrix :: IfcMatrix4 where
  "wall_matrix = \<lparr>a1 = 0, a2 = - 1, a3 = 0, a4 = 1,  b1 = 1, b2 = 0, b3 = 0, b4 = 0,
                  c1 = 0, c2 = 0, c3 = - 1, c4 = 0,  d1 = 0, d2 = 0, d3 = 0, d4 = 1\<rparr>"

text \<open>
  The wall of the scenario with one square window, seen from its two sides: \<open>wall_face\<close>
  above and \<open>back_face\<close>, the unit square in the plane \<open>z = - 1\<close>, with the matrix
  \<open>ProjectOntoPlane\<close> computes for it. The opening is a box through the wall, given by
  its two faces parallel to the wall; on either side its projected contour is the
  square \<open>[(0.2,0.2),(0.8,0.2),(0.8,0.8),(0.2,0.8)]\<close>.

  \<open>wall_collaborators\<close> answers every clipper call with the first polygon it was given,
  which is the answer of the clipper for the calls of this scenario (the union of the
  square with itself, the intersection of a quad inside the unit square with the unit
  square). Its matrix inverse \<open>rigid_inverse\<close> transposes the upper left 3x3 part and
  maps the translation back; this is the inverse of a matrix whose 3x3 part is
  orthogonal, as it is for the two faces.
\<close>

definition rigid_inverse :: "IfcMatrix4 \<Rightarrow> IfcMatrix4" where
  "rigid_inverse m =
     \<lparr>a1 = a1 m, a2 = b1 m, a3 = c1 m, a4 = - (a1 m * a4 m + b1 m * b4 m + c1 m * c4 m),
      b1 = a2 m, b2 = b2 m, b3 = c2 m, b4 = - (a2 m * a4 m + b2 m * b4 m + c2 m * c4 m),
      c1 = a3 m, c2 = b3 m, c3 = c3 m, c4 = - (a3 m * a4 m + b3 m * b4 m + c3 m * c4 m),
      d1 = 0, d2 = 0, d3 = 0, d4 = 1\<rparr>"

definition wall_collaborators :: Collaborators where
  "wall_collaborators =
     \<lparr>Orientation = (\<lambda>p. True),
      Execute = (\<lambda>ct ps. Inr [\<lparr>outer = snd (hd ps), holes = []\<rparr>]),
      MinMaxChooser = (10000000000, - 10000000000),
      Inverse = rigid_inverse,
      TryAddOpenings_Poly2Tri = (\<lambda>openings nors curmesh lg. (False, curmesh, lg))\<rparr>"

definition back_face :: TempMesh where
  "back_face = \<lparr>verts = [IfcVector3 0 0 (- 1), IfcVector3 1 0 (- 1), IfcVector3 1 1 (- 1),
                         IfcVector3 0 1 (- 1)],
                 vertcnt = [4]\<rparr>"

definition back_matrix :: IfcMatrix4 where
  "back_matrix = \<lparr>a1 = 0, a2 = - 1, a3 = 0, a4 = 1,  b1 = 1, b2 = 0, b3 = 0, b4 = 0,
                  c1 = 0, c2 = 0, c3 = - 1, c4 = - 1,  d1 = 0, d2 = 0, d3 = 0, d4 = 1\<rparr>"

definition square_opening :: TempOpening where
  "square_opening =
     \<lparr>extrusionDir = IfcVector3 0 0 (- 1),
      profileMesh =
        \<lparr>verts = [IfcVector3 (1 / 5) (4 / 5) 0, IfcVector3 (1 / 5) (1 / 5) 0,
                  IfcVector3 (4 / 5) (1 / 5) 0, IfcVector3 (4 / 5) (4 / 5) 0,
                  IfcVector3 (1 / 5) (4 / 5) (- 1), IfcVector3 (1 / 5) (1 / 5) (- 1),
                  IfcVector3 (4 / 5) (1 / 5) (- 1), IfcVector3 (4 / 5) (4 / 5) (- 1)],
         vertcnt = [4, 4]\<rparr>,
      wallPoints = []\<rparr>"

text \<open>
  The result of the scenario in the words of the specification. \<open>border_strips\<close> are
  the four quads around the hole in the projection: the strip left of the hole, the one
  below it, the one above it and the one right of it. \<open>through_clipper\<close> takes a vertex
  to the fixed-point grid of the clipper and back, \<open>unproject\<close> undoes the projection of
  a face, \<open>hole_corners\<close> are the corners of the projected contour back in space, and
  \<open>connection_quads b w\<close> are four quads that connect the corners \<open>w\<close> with the wall
  points \<open>b\<close>, one quad per edge of the contour.
\<close>

definition border_strips :: "IfcVector3 list" where
  "border_strips =
     [IfcVector3 0 0 0, IfcVector3 0 1 0, IfcVector3 (1 / 5) 1 0, IfcVector3 (1 / 5) 0 0,
      IfcVector3 (1 / 5) 0 0, IfcVector3 (1 / 5) (1 / 5) 0, IfcVector3 (4 / 5) (1 / 5) 0,
      IfcVector3 (4 / 5) 0 0,
      IfcVector3 (1 / 5) (4 / 5) 0, IfcVector3 (1 / 5) 1 0, IfcVector3 (4 / 5) 1 0,
      IfcVector3 (4 / 5) (4 / 5) 0,
      IfcVector3 (4 / 5) 0 0, IfcVector3 (4 / 5) 1 0, IfcVector3 1 1 0, IfcVector3 1 0 0]"

definition through_clipper :: "IfcVector3 \<Rightarrow> IfcVector3" where
  "through_clipper v =
     IfcVector3 (from_int64 (to_int64 (x3 v))) (from_int64 (to_int64 (y3 v))) 0"

definition unproject :: "IfcMatrix4 \<Rightarrow> IfcVector3 \<Rightarrow> IfcVector3" where
  "unproject m v = apply4 (rigid_inverse m) v"

definition hole_corners :: "IfcMatrix4 \<Rightarrow> IfcVector3 list" where
  "hole_corners m =
     map (\<lambda>c. unproject m (IfcVector3 (x2 c) (y2 c) 0)) (contour square_window)"

definition connection_quads :: "IfcVector3 list \<Rightarrow> IfcVector3 list \<Rightarrow> IfcVector3 list" where
  "connection_quads b w =
     [b ! 0, w ! 0, b ! 1, w ! 1,  w ! 1, b ! 1, b ! 2, w ! 2,
      w ! 2, b ! 2, b ! 3, w ! 3,  w ! 3, b ! 3, b ! 0, w ! 0]"


text \<open>
  A clipper that finds nothing left in a difference and one triangle in a union, and
  the state of the overlap resolution with one accepted contour (of opening 0) whose box
  overlaps the box of the new contour (of opening 1), when no connection geometry is
  asked for and when it is.
\<close>

definition merging_clipper :: Collaborators where
  "merging_clipper =
     \<lparr>Orientation = (\<lambda>p. False),
      Execute = (\<lambda>ct ps. if ct = ctDifference then Inr []
                          else Inr [\<lparr>outer = [(0, 0), (1518500249, 0), (1518500249, 1518500249)],
                                    holes = []\<rparr>]),
      MinMaxChooser = (10000000000, - 10000000000),
      Inverse = (\<lambda>m. m),
      TryAddOpenings_Poly2Tri = (\<lambda>openings nors curmesh lg. (False, curmesh, lg))\<rparr>"

definition overlap_state :: "nat list list \<Rightarrow> ScanState" where
  "overlap_state c2o =
     \<lparr>contours = [\<lparr>contour = [IfcVector2 0 0, IfcVector2 (1 / 2) 0, IfcVector2 (1 / 2) (1 / 2)],
                    bb = (IfcVector2 0 0, IfcVector2 (1 / 2) (1 / 2))\<rparr>],
      contours_to_openings = c2o,
      temp_contour = [IfcVector2 (1 / 4) (1 / 4), IfcVector2 (3 / 4) (1 / 4),
                      IfcVector2 (3 / 4) (3 / 4)],
      new_bb = (IfcVector2 (1 / 4) (1 / 4), IfcVector2 (3 / 4) (3 / 4)),
      joined_openings = [1],
      logger = []\<rparr>"



section \<open>Properties\<close>

subsection \<open>ProcessPolyloop and the mesh invariant\<close>

lemma ProcessPolyloop_counts_match:
  "counts_match m \<Longrightarrow> counts_match (snd (ProcessPolyloop cv loop m))"
  by (simp add: ProcessPolyloop_def counts_match_def Let_def)

lemma ProcessPolyloop_two_or_more:
  "2 \<le> length loop \<Longrightarrow> no_zero_count m \<Longrightarrow>
     fst (ProcessPolyloop cv loop m) \<and> no_zero_count (snd (ProcessPolyloop cv loop m))"
  by (auto simp: ProcessPolyloop_def no_zero_count_def Let_def)

lemma ProcessPolyloop_one_vertex:
  "ProcessPolyloop cv [p] m = (False, m)"
  by (simp add: ProcessPolyloop_def Let_def)

text \<open>
  C3. The spec's invariant for every mesh the public operations produce: the face counts
  sum to the number of vertices and no face count is 0; it names ProcessPolyloop, which
  is to ignore polyloops of zero and of one vertex. For a polyloop of no vertex the code
  pushes the count 0 and never pops it (only a count of exactly 1 is popped), so the
  output mesh carries a face count of 0.
\<close>

theorem ProcessPolyloop_empty_loop_keeps_zero_count:
  "ProcessPolyloop cv [] empty_mesh = (False, \<lparr>verts = [], vertcnt = [0]\<rparr>) \<and>
   \<not> no_zero_count (snd (ProcessPolyloop cv [] empty_mesh)) \<and>
   counts_match (snd (ProcessPolyloop cv [] empty_mesh))"
  by (simp add: ProcessPolyloop_def empty_mesh_def no_zero_count_def counts_match_def Let_def)

subsection \<open>Cleanup of the window contours\<close>

lemma CleanupWindowContour_cases:
  assumes "Execute E ctUnion [(ptSubject, to_Polygon (contour w))] = Inr clipped"
  shows "CleanupWindowContour E w lg =
           Inr (if clipped = [] then FlagInvalid w else w,
                lg @ (if clipped = []
                      then [(Error, ''error during polygon clipping, window contour is degenerate'')]
                      else if length clipped \<noteq> 1
                      then [(Error, ''error during polygon clipping, window contour is not convex'')]
                      else []))"
  using assms by (simp add: CleanupWindowContour_def Let_def)

lemma CleanupWindowContour_result:
  assumes "CleanupWindowContour E w lg = Inr (w', lg')"
  shows "bb w' = bb w \<and>
         (w' = w \<or>
          w' = FlagInvalid w \<and> Execute E ctUnion [(ptSubject, to_Polygon (contour w))] = Inr [])"
  using assms
  by (auto simp: CleanupWindowContour_def FlagInvalid_def Let_def split: sum.splits if_splits)

lemma CleanupWindowContours_slots:
  assumes "CleanupWindowContours E cs lg = (cs', lg')"
  shows "length cs' = length cs \<and>
         (\<forall>i<length cs. bb (cs' ! i) = bb (cs ! i) \<and>
            (cs' ! i = cs ! i \<or>
             cs' ! i = FlagInvalid (cs ! i) \<and>
             Execute E ctUnion [(ptSubject, to_Polygon (contour (cs ! i)))] = Inr []))"
  using assms
proof (induction cs arbitrary: lg cs' lg')
  case Nil
  then show ?case by simp
next
  case (Cons w ws)
  show ?case
  proof (cases "CleanupWindowContour E w lg")
    case (Inl sx)
    with Cons.prems show ?thesis by auto
  next
    case (Inr r)
    obtain w' lg1 where r: "r = (w', lg1)" by (cases r)
    obtain ws' lg2 where rec: "CleanupWindowContours E ws lg1 = (ws', lg2)"
      by (cases "CleanupWindowContours E ws lg1")
    from Cons.prems Inr r rec have cs': "cs' = w' # ws'" by simp
    from CleanupWindowContour_result [of E w lg w' lg1] Inr r
    have hd: "bb w' = bb w \<and>
         (w' = w \<or>
          w' = FlagInvalid w \<and> Execute E ctUnion [(ptSubject, to_Polygon (contour w))] = Inr [])"
      by simp
    from Cons.IH [OF rec] have tl: "length ws' = length ws \<and>
         (\<forall>i<length ws. bb (ws' ! i) = bb (ws ! i) \<and>
            (ws' ! i = ws ! i \<or>
             ws' ! i = FlagInvalid (ws ! i) \<and>
             Execute E ctUnion [(ptSubject, to_Polygon (contour (ws ! i)))] = Inr []))" .
    show ?thesis
    proof (intro conjI allI impI)
      show "length cs' = length (w # ws)" using cs' tl by simp
    next
      fix i assume "i < length (w # ws)"
      then show "bb (cs' ! i) = bb ((w # ws) ! i)"
        using cs' hd tl by (cases i) auto
    next
      fix i assume "i < length (w # ws)"
      then show "cs' ! i = (w # ws) ! i \<or>
             cs' ! i = FlagInvalid ((w # ws) ! i) \<and>
             Execute E ctUnion [(ptSubject, to_Polygon (contour ((w # ws) ! i)))] = Inr []"
        using cs' hd tl by (cases i) auto
    qed
  qed
qed

text \<open>
  C6, as the claim states it, fails: when the union of a contour with itself has more
  than one piece, the code logs an error and goes on with the first piece; the contour
  is not flagged invalid. Here the clipper answers with two pieces and the window
  leaves \<open>CleanupWindowContour\<close> as it came, not invalid.
\<close>

theorem CleanupWindowContour_multiple_pieces_not_flagged:
  "Execute two_piece_clipper ctUnion [(ptSubject, to_Polygon (contour bowtie_window))]
     = Inr [\<lparr>outer = [(0, 0), (1, 0), (0, 1)], holes = []\<rparr>,
            \<lparr>outer = [(2, 2), (3, 2), (2, 3)], holes = []\<rparr>] \<and>
   CleanupWindowContour two_piece_clipper bowtie_window []
     = Inr (bowtie_window,
            [(Error, ''error during polygon clipping, window contour is not convex'')]) \<and>
   \<not> IsInvalid bowtie_window"
  by (simp add: CleanupWindowContour_def two_piece_clipper_def bowtie_window_def
        IsInvalid_def Let_def)

lemma CleanupWindowContours_no_throw:
  assumes "\<forall>w\<in>set cs. \<exists>clipped. Execute E ctUnion [(ptSubject, to_Polygon (contour w))] = Inr clipped"
  shows "CleanupWindowContours E cs lg =
           (map (\<lambda>w. if Execute E ctUnion [(ptSubject, to_Polygon (contour w))] = Inr []
                      then FlagInvalid w else w) cs,
            lg @ concat (map (\<lambda>w.
              case Execute E ctUnion [(ptSubject, to_Polygon (contour w))] of
                Inl sx \<Rightarrow> []
              | Inr clipped \<Rightarrow>
                  if clipped = []
                  then [(Error, ''error during polygon clipping, window contour is degenerate'')]
                  else if length clipped \<noteq> 1
                  then [(Error, ''error during polygon clipping, window contour is not convex'')]
                  else []) cs))"
  using assms
proof (induction cs arbitrary: lg)
  case Nil
  then show ?case by simp
next
  case (Cons w ws)
  from Cons.prems obtain clipped where
    c: "Execute E ctUnion [(ptSubject, to_Polygon (contour w))] = Inr clipped" by auto
  from Cons.prems have r: "\<forall>w\<in>set ws. \<exists>clipped.
      Execute E ctUnion [(ptSubject, to_Polygon (contour w))] = Inr clipped" by simp
  show ?case
    by (simp add: CleanupWindowContour_cases [OF c] Cons.IH [OF r] c)
qed

text \<open>
  C6, amended. Each contour is unioned with itself. The pass flags a contour invalid
  (empties it) exactly when that union has no piece, and logs an error for it; when the
  union has more than one piece it logs an error and does not flag the contour. In
  every case the slot is kept: the pass returns a list of the same length with the same
  bounding boxes, so positions in the contour list stay stable.
\<close>

theorem CleanupWindowContours_flags_the_empty_unions:
  "length (fst (CleanupWindowContours E cs lg)) = length cs \<and>
   (\<forall>i<length cs. bb (fst (CleanupWindowContours E cs lg) ! i) = bb (cs ! i)) \<and>
   ((\<forall>w\<in>set cs. \<exists>clipped.
        Execute E ctUnion [(ptSubject, to_Polygon (contour w))] = Inr clipped) \<longrightarrow>
      (\<forall>i<length cs.
         IsInvalid (fst (CleanupWindowContours E cs lg) ! i) =
           (Execute E ctUnion [(ptSubject, to_Polygon (contour (cs ! i)))] = Inr [] \<or>
            IsInvalid (cs ! i))) \<and>
      snd (CleanupWindowContours E cs lg) =
        lg @ concat (map (\<lambda>w.
              case Execute E ctUnion [(ptSubject, to_Polygon (contour w))] of
                Inl sx \<Rightarrow> []
              | Inr clipped \<Rightarrow>
                  if clipped = []
                  then [(Error, ''error during polygon clipping, window contour is degenerate'')]
                  else if length clipped \<noteq> 1
                  then [(Error, ''error during polygon clipping, window contour is not convex'')]
                  else []) cs))"
proof -
  obtain cs' lg' where r: "CleanupWindowContours E cs lg = (cs', lg')"
    by (cases "CleanupWindowContours E cs lg")
  from CleanupWindowContours_slots [OF r] r
  have 1: "length (fst (CleanupWindowContours E cs lg)) = length cs"
    and 2: "\<forall>i<length cs. bb (fst (CleanupWindowContours E cs lg) ! i) = bb (cs ! i)"
    by simp_all
  have 3: "(\<forall>w\<in>set cs. \<exists>clipped.
        Execute E ctUnion [(ptSubject, to_Polygon (contour w))] = Inr clipped) \<longrightarrow>
      (\<forall>i<length cs.
         IsInvalid (fst (CleanupWindowContours E cs lg) ! i) =
           (Execute E ctUnion [(ptSubject, to_Polygon (contour (cs ! i)))] = Inr [] \<or>
            IsInvalid (cs ! i))) \<and>
      snd (CleanupWindowContours E cs lg) =
        lg @ concat (map (\<lambda>w.
              case Execute E ctUnion [(ptSubject, to_Polygon (contour w))] of
                Inl sx \<Rightarrow> []
              | Inr clipped \<Rightarrow>
                  if clipped = []
                  then [(Error, ''error during polygon clipping, window contour is degenerate'')]
                  else if length clipped \<noteq> 1
                  then [(Error, ''error during polygon clipping, window contour is not convex'')]
                  else []) cs)"
  proof
    assume a: "\<forall>w\<in>set cs. \<exists>clipped.
        Execute E ctUnion [(ptSubject, to_Polygon (contour w))] = Inr clipped"
    show "(\<forall>i<length cs.
         IsInvalid (fst (CleanupWindowContours E cs lg) ! i) =
           (Execute E ctUnion [(ptSubject, to_Polygon (contour (cs ! i)))] = Inr [] \<or>
            IsInvalid (cs ! i))) \<and>
      snd (CleanupWindowContours E cs lg) =
        lg @ concat (map (\<lambda>w.
              case Execute E ctUnion [(ptSubject, to_Polygon (contour w))] of
                Inl sx \<Rightarrow> []
              | Inr clipped \<Rightarrow>
                  if clipped = []
                  then [(Error, ''error during polygon clipping, window contour is degenerate'')]
                  else if length clipped \<noteq> 1
                  then [(Error, ''error during polygon clipping, window contour is not convex'')]
                  else []) cs)"
      by (simp add: CleanupWindowContours_no_throw [OF a] IsInvalid_def FlagInvalid_def)
  qed
  from 1 2 3 show ?thesis by (intro conjI) assumption+
qed

theorem CleanupWindowContours_flags_the_empty_unions_witness:
  "Execute length_clipper ctUnion [(ptSubject, to_Polygon (contour sliver_window))] = Inr [] \<and>
   Execute length_clipper ctUnion [(ptSubject, to_Polygon (contour bowtie_window))] \<noteq> Inr [] \<and>
   length (fst (CleanupWindowContours length_clipper [bowtie_window, sliver_window] [])) = 2 \<and>
   \<not> IsInvalid (fst (CleanupWindowContours length_clipper [bowtie_window, sliver_window] []) ! 0) \<and>
   IsInvalid (fst (CleanupWindowContours length_clipper [bowtie_window, sliver_window] []) ! 1) \<and>
   snd (CleanupWindowContours length_clipper [bowtie_window, sliver_window] [])
     = [(Error, ''error during polygon clipping, window contour is degenerate'')]"
proof -
  have e: "Execute length_clipper ctUnion [(ptSubject, to_Polygon (contour sliver_window))]
             = Inr []"
    by (simp add: length_clipper_def sliver_window_def to_Polygon_def)
  have b: "Execute length_clipper ctUnion [(ptSubject, to_Polygon (contour bowtie_window))]
             = Inr [\<lparr>outer = to_Polygon (contour bowtie_window), holes = []\<rparr>]"
    by (simp add: length_clipper_def bowtie_window_def to_Polygon_def)
  have v: "\<not> IsInvalid bowtie_window" "\<not> IsInvalid sliver_window"
    by (simp_all add: IsInvalid_def bowtie_window_def sliver_window_def)
  have nt: "\<forall>w\<in>set [bowtie_window, sliver_window]. \<exists>clipped.
        Execute length_clipper ctUnion [(ptSubject, to_Polygon (contour w))] = Inr clipped"
    using e b by simp
  note T = CleanupWindowContours_flags_the_empty_unions
         [of length_clipper "[bowtie_window, sliver_window]" "[]"]
  note U = T [THEN conjunct2, THEN conjunct2, THEN mp, OF nt]
  from T [THEN conjunct1]
  have l: "length (fst (CleanupWindowContours length_clipper [bowtie_window, sliver_window] []))
             = 2"
    by (simp del: CleanupWindowContours.simps)
  from U [THEN conjunct1, rule_format, of 0]
    b v
  have i0: "\<not> IsInvalid (fst (CleanupWindowContours length_clipper
               [bowtie_window, sliver_window] []) ! 0)"
    by (simp del: CleanupWindowContours.simps)
  from U [THEN conjunct1, rule_format, of 1]
    e v
  have i1: "IsInvalid (fst (CleanupWindowContours length_clipper
               [bowtie_window, sliver_window] []) ! 1)"
    by (simp del: CleanupWindowContours.simps)
  from U [THEN conjunct2] e b
  have lg: "snd (CleanupWindowContours length_clipper [bowtie_window, sliver_window] [])
     = [(Error, ''error during polygon clipping, window contour is degenerate'')]"
    by (simp del: CleanupWindowContours.simps)
  from e b l i0 i1 lg show ?thesis by simp
qed

subsection \<open>The walk along a window contour\<close>

lemma unat_target: "2 * n < 2 ^ 64 \<Longrightarrow> unat ((of_nat n :: 64 word) * 2) = 2 * n"
  by (simp add: unat_word_ariths unat_of_nat mult.commute)

lemma unat_next:
  assumes "2 * n < 2 ^ 64" "unat (e :: 64 word) \<le> 2 * n" "e \<noteq> of_nat n * 2"
  shows "unat e < 2 * n" "unat (e + 1) \<le> 2 * n"
proof -
  from assms(1) have t: "unat ((of_nat n :: 64 word) * 2) = 2 * n" by (rule unat_target)
  from assms(3) have "unat e \<noteq> unat ((of_nat n :: 64 word) * 2)" by (simp add: word_unat_eq_iff)
  with t assms(2) show lt: "unat e < 2 * n" by simp
  have "unat (e + 1) \<le> unat e + 1" by (simp add: unat_word_ariths) 
  with lt show "unat (e + 1) \<le> 2 * n" by simp
qed

lemma walk_bound_aux:
  assumes "2 * length cont < 2 ^ 64" "unat e \<le> 2 * length cont"
    "walk box cont diag n e lh vfh edge mesh lg = (e', mesh', lg')"
  shows "(lg' = lg \<and> unat e' < 2 * length cont) \<or>
         (lg' = lg @ [(Error, ''encountered unexpected topology while generating window contour'')]
          \<and> unat e' = 2 * length cont)"
  using assms
proof (induction box cont diag n e lh vfh edge mesh lg rule: walk.induct)
  case (1 box cont diag n e last_hit very_first_hit edge curmesh lg)
  show ?case
  proof (cases "e = of_nat (length cont) * 2")
    case True
    have "walk box cont diag n e last_hit very_first_hit edge curmesh lg =
            (e, curmesh,
             lg @ [(Error, ''encountered unexpected topology while generating window contour'')])"
      by (subst walk.simps) (simp add: True)
    with "1.prems"(3) have "e' = e" and
      "lg' = lg @ [(Error, ''encountered unexpected topology while generating window contour'')]"
      by simp_all
    moreover have "unat e = 2 * length cont"
      unfolding True using "1.prems"(1) by (rule unat_target)
    ultimately show ?thesis by simp
  next
    case False
    note nx = unat_next [OF "1.prems"(1) "1.prems"(2) False]
    show ?thesis
      using "1.prems"(1) "1.prems"(3) False nx "1.IH"
      apply (subst (asm) walk.simps)
      apply (simp add: Let_def split: if_splits option.splits)
      done
  qed
qed


lemma sqrt_25: "sqrt 25 = 5"
  using real_sqrt_abs [of 5] by simp

lemma near_fit_diag: "Length2 (sub2 (fst (bb near_fit_window)) (snd (bb near_fit_window))) = 5"
  by (simp add: near_fit_window_def Length2_def sub2_def SquareLength2_def sqrt_25)

text \<open>
  C9. The walk along a contour ends for every input (\<open>walk\<close> is a total function: the
  distance of the counter \<open>e\<close> to \<open>2 * size\<close> shrinks with every round). Started with
  \<open>e = 0\<close> it either leaves through the \<open>break\<close> at the very first hit, with \<open>e\<close> below
  \<open>2 * |contour|\<close> and nothing logged, or it reaches \<open>e = 2 * |contour|\<close>, logs the
  topology error and breaks: never more than \<open>2 * |contour|\<close> rounds.
\<close>

theorem walk_bounded_by_twice_the_contour:
  assumes "2 * length cont < 2 ^ 64"
  shows "\<exists>e' mesh' lg'.
           walk box cont diag n 0 lh vfh edge mesh lg = (e', mesh', lg') \<and>
           (lg' = lg \<and> unat e' < 2 * length cont \<or>
            lg' = lg @ [(Error, ''encountered unexpected topology while generating window contour'')]
            \<and> unat e' = 2 * length cont)"
proof -
  obtain e' mesh' lg' where r: "walk box cont diag n 0 lh vfh edge mesh lg = (e', mesh', lg')"
    by (cases "walk box cont diag n 0 lh vfh edge mesh lg")
  from walk_bound_aux [OF assms _ r] r show ?thesis by simp
qed

theorem walk_bounded_by_twice_the_contour_witness:
  "2 * length [IfcVector2 1 1] < (2::nat) ^ 64 \<and>
   walk (IfcVector2 0 0, IfcVector2 3 4) [IfcVector2 1 1] 5 0 0 None None zero2 empty_mesh []
     = (2, empty_mesh,
        [(Error, ''encountered unexpected topology while generating window contour'')]) \<and>
   (\<exists>e' mesh' lg'.
      walk (bb exact_fit_window) (contour exact_fit_window) 5 0 0 None None zero2 empty_mesh []
        = (e', mesh', lg') \<and> lg' = [] \<and> unat e' < 2 * length (contour exact_fit_window))"
proof -
  have a: "2 * length [IfcVector2 1 1] < (2::nat) ^ 64" by simp
  have b: "2 * length (contour exact_fit_window) < (2::nat) ^ 64"
    by (simp add: exact_fit_window_def)
  have c: "walk (IfcVector2 0 0, IfcVector2 3 4) [IfcVector2 1 1] 5 0 0 None None zero2
             empty_mesh []
           = (2, empty_mesh,
              [(Error, ''encountered unexpected topology while generating window contour'')])"
    by (simp add: walk.simps hit_x_def hit_y_def snap_def zero2_def)
  have d: "snd (snd (walk (bb exact_fit_window) (contour exact_fit_window) 5 0 0 None None zero2
             empty_mesh [])) = []"
    by (simp add: exact_fit_window_def walk.simps hit_x_def hit_y_def snap_def zero2_def
          empty_mesh_def emit_face_def Let_def sub2_def SquareLength2_def)
  from walk_bounded_by_twice_the_contour [OF b, of "bb exact_fit_window" 5 0 None None zero2
         empty_mesh "[]"] d
  have "\<exists>e' mesh' lg'.
      walk (bb exact_fit_window) (contour exact_fit_window) 5 0 0 None None zero2 empty_mesh []
        = (e', mesh', lg') \<and> lg' = [] \<and> unat e' < 2 * length (contour exact_fit_window)"
    by auto
  with a c show ?thesis by simp
qed

subsection \<open>The perfect fit\<close>

text \<open>
  C5, as the claim states it, fails: the test for the perfect fit looks the four corners
  of the box up in the set of the four vertices, which is exact equality; the tolerance
  \<open>diag / 1000\<close> is only computed after it, for the walk. This 4-gon has every corner of
  its box within a thousandth of the diagonal of a vertex, and four triangles are put
  into the mesh for it.
\<close>

theorem InsertWindowContours_near_fit_not_skipped:
  "fits_corners_within
     (Length2 (sub2 (fst (bb near_fit_window)) (snd (bb near_fit_window))) / 1000)
     near_fit_window \<and>
   vertcnt (fst (InsertWindowContours [near_fit_window] [] empty_mesh [])) = [3, 3, 3, 3]"
proof -
  have "fits_corners_within (5 / 1000) near_fit_window"
    by (simp add: fits_corners_within_def near_fit_window_def)
  moreover have "vertcnt (fst (InsertWindowContours [near_fit_window] [] empty_mesh []))
      = [3, 3, 3, 3]"
    by (simp add: near_fit_diag)
       (simp add: near_fit_window_def walk.simps hit_x_def hit_y_def snap_def zero2_def
          empty_mesh_def emit_face_def Let_def sub2_def SquareLength2_def)
  ultimately show ?thesis by (simp add: near_fit_diag)
qed

text \<open>
  C5, amended. InsertWindowContours leaves the quad hole untouched (nothing is pushed,
  nothing is logged) for every opening contour that is a 4-gon having the four corners of
  its bounding box among its vertices, exactly.
\<close>

theorem InsertWindowContours_exact_fit_skipped:
  assumes "length (contour w) = 4"
    and "fst (bb w) \<in> set (contour w)" and "snd (bb w) \<in> set (contour w)"
    and "IfcVector2 (x2 (fst (bb w))) (y2 (snd (bb w))) \<in> set (contour w)"
    and "IfcVector2 (x2 (snd (bb w))) (y2 (fst (bb w))) \<in> set (contour w)"
  shows "InsertWindowContours (w # ws) openings curmesh lg
           = InsertWindowContours ws openings curmesh lg \<and>
         InsertWindowContours [w] openings curmesh lg = (curmesh, lg)"
  using assms by simp

theorem InsertWindowContours_exact_fit_skipped_witness:
  "length (contour exact_fit_window) = 4 \<and>
   InsertWindowContours [exact_fit_window] ([] :: nat list) empty_mesh [] = (empty_mesh, [])"
proof -
  have "length (contour exact_fit_window) = 4"
    "fst (bb exact_fit_window) \<in> set (contour exact_fit_window)"
    "snd (bb exact_fit_window) \<in> set (contour exact_fit_window)"
    "IfcVector2 (x2 (fst (bb exact_fit_window))) (y2 (snd (bb exact_fit_window)))
       \<in> set (contour exact_fit_window)"
    "IfcVector2 (x2 (snd (bb exact_fit_window))) (y2 (fst (bb exact_fit_window)))
       \<in> set (contour exact_fit_window)"
    by (simp_all add: exact_fit_window_def)
  from InsertWindowContours_exact_fit_skipped [OF this, of "[]" "[] :: nat list" empty_mesh "[]"]
  show ?thesis by (simp add: exact_fit_window_def)
qed

subsection \<open>The half-space clipper\<close>





























lemma finish_face_cases:
  "finish_face E pushed result =
     (if 3 \<le> length (remove_near_duplicates E pushed) \<and> pushed \<noteq> []
      then result\<lparr>verts := verts result @ remove_near_duplicates E pushed,
                   vertcnt := vertcnt result @ [length (remove_near_duplicates E pushed)]\<rparr>
      else result)"
  by (auto simp: finish_face_def)

lemma finish_face_invariant:
  "counts_match result \<Longrightarrow> counts_match (finish_face E pushed result)"
  "no_zero_count result \<Longrightarrow> no_zero_count (finish_face E pushed result)"
  by (auto simp: finish_face_cases counts_match_def no_zero_count_def)

lemma clip_faces_invariant:
  "counts_match result \<Longrightarrow> counts_match (clip_faces E p n vin vidx cnts result)"
  "no_zero_count result \<Longrightarrow> no_zero_count (clip_faces E p n vin vidx cnts result)"
  by (induction cnts arbitrary: vidx result) (auto simp: finish_face_invariant)






subsection \<open>Revolved area solids\<close>

lemma pi_ge_three: "3 \<le> pi"
proof -
  have "sin (pi / 6) \<le> pi / 6" by (rule sin_x_le_x) simp
  then show ?thesis by (simp add: sin_30)
qed

lemma cnt_segments_quarter: "cnt_segments_of (1 / 4) = 2"
proof -
  have a: "16 * \<bar>1 / 4 :: real\<bar> / (pi / 2) = 8 / pi" by simp
  have "8 / pi < 3" using pi_ge_three by (simp add: field_simps)
  moreover have "2 \<le> 8 / pi" using pi_less_4 by (simp add: field_simps)
  ultimately have "\<lfloor>8 / pi\<rfloor> = 2" by linarith
  then show ?thesis by (simp only: cnt_segments_of_def AI_MATH_HALF_PI_F_def a)
qed

lemma ceiling_quarter: "max 2 (nat \<lceil>16 * \<bar>1 / 4 :: real\<bar> / (pi / 2)\<rceil>) = 3"
proof -
  have a: "16 * \<bar>1 / 4 :: real\<bar> / (pi / 2) = 8 / pi" by simp
  have "8 / pi \<le> 3" using pi_ge_three by (simp add: field_simps)
  moreover have "2 < 8 / pi" using pi_less_4 by (simp add: field_simps)
  ultimately have "\<lceil>8 / pi\<rceil> = 3" by linarith
  then show ?thesis by (simp only: a)
qed

lemma revolve_profile_vc:
  "snd (revolve_profile rot sz base is (out, vc)) = vc @ replicate (length is) 4"
  by (induction "is" arbitrary: out vc) (auto simp: Let_def replicate_append_same)

lemma revolve_profile_len:
  "length (fst (revolve_profile rot sz base is (out, vc))) = length out + 4 * length is"
  by (induction "is" arbitrary: out vc) (auto simp: Let_def)

lemma revolve_segments_vc:
  "snd (fst (revolve_segments rot sz k base (out, vc))) = vc @ replicate (k * sz) 4"
proof (induction k arbitrary: base out vc)
  case 0
  then show ?case by simp
next
  case (Suc k)
  obtain out' vc' where r: "revolve_profile rot sz base [0..<sz] (out, vc) = (out', vc')"
    by (cases "revolve_profile rot sz base [0..<sz] (out, vc)")
  from revolve_profile_vc [of rot sz base "[0..<sz]" out vc] r
  have "vc' = vc @ replicate sz 4" by simp
  with Suc [of "base + sz * 4" out' vc'] r show ?case
    by (simp add: replicate_add [symmetric] add.commute)
qed

lemma ProcessRevolvedAreaSolid_degenerate:
  assumes "profile_ok" "1 < length (verts meshout)" "\<bar>Angle * angle_scale\<bar> < 1 / 1000"
  shows "ProcessRevolvedAreaSolid Rotation trafo profile_ok meshout ProfileType axis pos Angle
           angle_scale result lg =
         (if ProfileType = ''AREA'' \<and> 2 < length (verts meshout) then meshout else result, lg)"
  using assms by (simp add: ProcessRevolvedAreaSolid_def Let_def)

lemma ProcessRevolvedAreaSolid_vertcnt:
  assumes "profile_ok" "1 < length (verts meshout)" "1 / 1000 \<le> \<bar>Angle * angle_scale\<bar>"
  shows "vertcnt (fst (ProcessRevolvedAreaSolid Rotation trafo profile_ok meshout ProfileType
           axis pos Angle angle_scale result lg)) =
         vertcnt result @
         replicate (cnt_segments_of (Angle * angle_scale) * length (verts meshout)) 4 @
         (if ProfileType = ''AREA'' \<and> 2 < length (verts meshout) \<and>
             \<bar>Angle * angle_scale\<bar> < AI_MATH_TWO_PI_F * (99 / 100)
          then [length (verts meshout), length (verts meshout)] else [])"
proof -
  obtain out1 vc1 base where r:
    "revolve_segments (Rotation (Angle * angle_scale / of_nat (cnt_segments_of (Angle * angle_scale)))
         axis pos) (length (verts meshout)) (cnt_segments_of (Angle * angle_scale)) 0
       (verts result @ concat (map (replicate 4) (verts meshout)), vertcnt result)
     = ((out1, vc1), base)"
    by (metis surj_pair)
  from revolve_segments_vc [of "Rotation (Angle * angle_scale /
         of_nat (cnt_segments_of (Angle * angle_scale))) axis pos" "length (verts meshout)"
       "cnt_segments_of (Angle * angle_scale)" 0
       "verts result @ concat (map (replicate 4) (verts meshout))" "vertcnt result"] r
  have vc: "vc1 = vertcnt result @
      replicate (cnt_segments_of (Angle * angle_scale) * length (verts meshout)) 4"
    by simp
  from assms r vc show ?thesis
    by (simp add: ProcessRevolvedAreaSolid_def Let_def)
qed

text \<open>
  C8, as the claim states it, fails twice. The segment count is the truncation of
  \<open>16 |\<theta>| / (\<pi>/2)\<close>, not its ceiling: for \<open>\<theta> = 1/4\<close> the quotient is \<open>8/\<pi>\<close>, between 2
  and 3, the code revolves in 2 segments (four quads for a profile of two points) and
  the formula of the claim gives 3. And for \<open>|\<theta>| < 10^-3\<close> the profile is returned only
  when it has an area: for a profile that is not of type AREA the result is left as it
  was, here empty.
\<close>

theorem revolved_solid_segment_count_is_truncated:
  "cnt_segments_of (1 / 4) = 2 \<and>
   max 2 (nat \<lceil>16 * \<bar>1 / 4 :: real\<bar> / (pi / 2)\<rceil>) = 3 \<and>
   vertcnt (fst (ProcessRevolvedAreaSolid (\<lambda>d a p v. v) id True two_point_profile ''CURVE''
      (IfcVector3 0 0 1) zero3 (1 / 4) 1 empty_mesh [])) = [4, 4, 4, 4] \<and>
   ProcessRevolvedAreaSolid (\<lambda>d a p v. v) id True two_point_profile ''CURVE''
      (IfcVector3 0 0 1) zero3 0 1 empty_mesh [] = (empty_mesh, [])"
proof -
  have "vertcnt (fst (ProcessRevolvedAreaSolid (\<lambda>d a p v. v) id True two_point_profile ''CURVE''
      (IfcVector3 0 0 1) zero3 (1 / 4) 1 empty_mesh [])) = [4, 4, 4, 4]"
    by (subst ProcessRevolvedAreaSolid_vertcnt)
       (simp_all add: two_point_profile_def cnt_segments_quarter empty_mesh_def numeral_eq_Suc)
  moreover have "ProcessRevolvedAreaSolid (\<lambda>d a p v. v) id True two_point_profile ''CURVE''
      (IfcVector3 0 0 1) zero3 0 1 empty_mesh [] = (empty_mesh, [])"
    by (subst ProcessRevolvedAreaSolid_degenerate) (simp_all add: two_point_profile_def)
  ultimately show ?thesis using cnt_segments_quarter ceiling_quarter by simp
qed

text \<open>
  C8, amended. For a revolved area solid whose profile was read with at least two
  vertices, with total angle \<open>\<theta> = Angle * angle_scale\<close>: when \<open>|\<theta>| \<ge> 10^-3\<close> the revolution
  uses \<open>max(2, \<lfloor>16 |\<theta>| / (\<pi>/2)\<rfloor>)\<close> segments, one quad per profile vertex and segment, and
  two capping polygons follow only when the profile has an area (type AREA, more than two
  vertices) and \<open>|\<theta>| < 2\<pi> \<cdot> 0.99\<close>; when \<open>|\<theta>| < 10^-3\<close> the revolution degenerates: the
  original profile is returned when it has an area, and the result is left untouched
  otherwise.
\<close>

theorem ProcessRevolvedAreaSolid_segment_count:
  assumes "profile_ok" and "1 < length (verts meshout)"
  shows "cnt_segments_of (Angle * angle_scale)
           = max 2 (nat \<lfloor>16 * \<bar>Angle * angle_scale\<bar> / (pi / 2)\<rfloor>) \<and>
         (\<bar>Angle * angle_scale\<bar> < 1 / 1000 \<longrightarrow>
            ProcessRevolvedAreaSolid Rotation trafo profile_ok meshout ProfileType axis pos Angle
              angle_scale result lg =
            (if ProfileType = ''AREA'' \<and> 2 < length (verts meshout) then meshout else result,
             lg)) \<and>
         (1 / 1000 \<le> \<bar>Angle * angle_scale\<bar> \<longrightarrow>
            vertcnt (fst (ProcessRevolvedAreaSolid Rotation trafo profile_ok meshout ProfileType
              axis pos Angle angle_scale result lg)) =
            vertcnt result @
            replicate (cnt_segments_of (Angle * angle_scale) * length (verts meshout)) 4 @
            (if ProfileType = ''AREA'' \<and> 2 < length (verts meshout) \<and>
                \<bar>Angle * angle_scale\<bar> < 2 * pi * (99 / 100)
             then [length (verts meshout), length (verts meshout)] else []))"
  using ProcessRevolvedAreaSolid_degenerate [OF assms, of Angle angle_scale Rotation trafo
          ProfileType axis pos result lg]
        ProcessRevolvedAreaSolid_vertcnt [OF assms, of Angle angle_scale Rotation trafo
          ProfileType axis pos result lg]
  by (simp add: cnt_segments_of_def AI_MATH_HALF_PI_F_def AI_MATH_TWO_PI_F_def)

theorem ProcessRevolvedAreaSolid_segment_count_witness:
  "1 < length (verts triangle_profile) \<and>
   cnt_segments_of (1 / 4 * 1) = 2 \<and>
   vertcnt (fst (ProcessRevolvedAreaSolid (\<lambda>d a p v. v) id True triangle_profile ''AREA''
      (IfcVector3 0 0 1) zero3 (1 / 4) 1 empty_mesh [])) = [4, 4, 4, 4, 4, 4, 3, 3] \<and>
   vertcnt (fst (ProcessRevolvedAreaSolid (\<lambda>d a p v. v) id True triangle_profile ''AREA''
      (IfcVector3 0 0 1) zero3 8 1 empty_mesh [])) = replicate (cnt_segments_of 8 * 3) 4 \<and>
   ProcessRevolvedAreaSolid (\<lambda>d a p v. v) id True triangle_profile ''AREA''
      (IfcVector3 0 0 1) zero3 0 1 empty_mesh [] = (triangle_profile, [])"
proof -
  have l: "1 < length (verts triangle_profile)" and l3: "length (verts triangle_profile) = 3"
    by (simp_all add: triangle_profile_def)
  have small: "\<bar>1 / 4 * 1 :: real\<bar> < 2 * pi * (99 / 100)"
    using pi_ge_three by simp
  have big: "\<not> \<bar>8 * 1 :: real\<bar> < 2 * pi * (99 / 100)"
    using pi_less_4 by simp
  note T = ProcessRevolvedAreaSolid_segment_count [OF TrueI l, of _ 1 "\<lambda>d a p v. v" id "''AREA''"
      "IfcVector3 0 0 1" zero3 empty_mesh "[]"]
  have a: "vertcnt (fst (ProcessRevolvedAreaSolid (\<lambda>d a p v. v) id True triangle_profile ''AREA''
      (IfcVector3 0 0 1) zero3 (1 / 4) 1 empty_mesh [])) = [4, 4, 4, 4, 4, 4, 3, 3]"
    using T [of "1 / 4"] small cnt_segments_quarter
    by (simp add: l3 empty_mesh_def numeral_eq_Suc)
  have b: "vertcnt (fst (ProcessRevolvedAreaSolid (\<lambda>d a p v. v) id True triangle_profile ''AREA''
      (IfcVector3 0 0 1) zero3 8 1 empty_mesh [])) = replicate (cnt_segments_of 8 * 3) 4"
    using T [of 8] big by (simp add: l3 empty_mesh_def)
  have c: "ProcessRevolvedAreaSolid (\<lambda>d a p v. v) id True triangle_profile ''AREA''
      (IfcVector3 0 0 1) zero3 0 1 empty_mesh [] = (triangle_profile, [])"
    using T [of 0] by (simp add: l3)
  from l a b c cnt_segments_quarter show ?thesis by simp
qed

subsection \<open>GenerateOpenings\<close>

lemma Length3_axis [simp]:
  "Length3 (IfcVector3 x 0 0) = \<bar>x\<bar>" "Length3 (IfcVector3 0 y 0) = \<bar>y\<bar>"
  "Length3 (IfcVector3 0 0 z) = \<bar>z\<bar>"
  by (simp_all add: Length3_def SquareLength3_def)

lemma upt_3: "[0..<3] = [0, 1, 2]" "[Suc 0..<4] = [1, 2, 3]"
  by (simp_all add: upt_rec)

lemma wall_plane:
  "DerivePlaneCoordinateSpace wall_face =
     Some (IfcMatrix3 (IfcVector3 0 (- 1) 0) (IfcVector3 1 0 0) (IfcVector3 0 0 (- 1)), 0)"
  by (simp add: DerivePlaneCoordinateSpace_def wall_face_def Let_def upt_3 sub3_def cross3_def
        neg3_def Normalize3_def dot3_def)

lemma wall_projection:
  "ProjectOntoPlane plain_collaborators wall_face =
     Some (wall_matrix, [IfcVector2 1 0, IfcVector2 1 1, IfcVector2 0 1, IfcVector2 0 0], 0)"
  by (simp add: ProjectOntoPlane_def wall_plane)
     (simp add: wall_face_def plain_collaborators_def IfcMatrix4_of_def apply4_def min2_def
        max2_def sub2_def identity4_def mul4_def wall_matrix_def zero2_def one_vec_def Let_def)

lemma sliver_projection:
  "opening_projection plain_collaborators wall_matrix (IfcVector3 0 0 (- 1)) True sliver_opening =
     \<lparr>vi_total = 3, dmin = 0, dmax = 0,
      vpmin = IfcVector2 (89999 / 100000) (1 / 10), vpmax = IfcVector2 (9 / 10) (6 / 10),
      projected = [IfcVector2 (9 / 10) (1 / 10), IfcVector2 (9 / 10) (6 / 10),
                   IfcVector2 (89999 / 100000) (35 / 100)]\<rparr>"
  by (simp add: opening_projection_def sliver_opening_def plain_collaborators_def
        numeral_3_eq_3 sub3_def cross3_def Normalize3_def dot3_def apply4_def wall_matrix_def
        min2_def max2_def zero2_def one_vec_def Let_def sub2_def SquareLength2_def)


lemma scan_union_step:
  assumes "it < length (contours st)"
    and "BoundingBoxesOverlapping (bb (contours st ! it)) (new_bb st)"
    and "MakeDisjunctWindowContours E (contour (contours st ! it)) (temp_contour st) = Inr d"
    and "\<not> (length d = 1 \<and>
            \<not> BoundingBoxesOverlapping (bb (contours st ! it))
                (GetBoundingBox E (outer (d ! 0))))"
    and "MergeWindowContours E (temp_contour st) (contour (contours st ! it)) = Inr u"
  shows "scan E g it st =
           (if length u > 1 then Poly2TriEscape st
            else if u = [] then
              Finished (st\<lparr>logger := logger st @ [(Warn, ''ignoring duplicate opening'')],
                           temp_contour := []\<rparr>)
            else scan E g 0 (merge_contours g it u st))"
  using assms by (subst scan.simps) auto

lemma openings_loop_skip:
  "project_opening E m nor base_d chk opening = None \<Longrightarrow>
     openings_loop E m nor base_d chk g ((i, opening) # rest) st
       = openings_loop E m nor base_d chk g rest st"
  by simp

lemma openings_loop_all_skipped:
  "\<forall>io\<in>set ios. project_opening E m nor base_d chk (snd io) = None \<Longrightarrow>
     openings_loop E m nor base_d chk g ios st = Finished st"
  by (induction ios) auto

lemma area_gate:
  "\<bar>x2 (vpmax (opening_projection E m nor chk opening)) -
     x2 (vpmin (opening_projection E m nor chk opening))\<bar> *
   \<bar>y2 (vpmax (opening_projection E m nor chk opening)) -
     y2 (vpmin (opening_projection E m nor chk opening))\<bar> < 1 / 100000
   \<Longrightarrow> project_opening E m nor base_d chk opening = None"
  by (simp add: project_opening_def Let_def)

lemma sliver_skipped:
  "project_opening plain_collaborators wall_matrix (IfcVector3 0 0 (- 1)) 0 True sliver_opening
     = None"
  by (rule area_gate) (simp add: sliver_projection)

lemma sliver_run:
  "GenerateOpenings plain_collaborators [sliver_opening] nors wall_face True g []
     = Inr (False, wall_face, [sliver_opening], [])"
  by (simp add: GenerateOpenings_def wall_projection)
     (simp add: wall_matrix_def sliver_skipped [unfolded wall_matrix_def])


lemma openings_loop_escape:
  assumes "project_opening E m nor base_d chk opening = Some (c, box)"
    and "scan E g 0 (st\<lparr>temp_contour := c, new_bb := box, joined_openings := [i]\<rparr>)
           = Poly2TriEscape st'"
  shows "openings_loop E m nor base_d chk g ((i, opening) # rest) st = Poly2TriEscape st'"
  using assms by simp

lemma GenerateOpenings_escape:
  assumes "ProjectOntoPlane E curmesh = Some (m, contour_flat, base_d)"
    and "openings_loop E m (IfcVector3 (c1 m) (c2 m) (c3 m)) base_d chk g
           (zip [0..<length openings] openings)
           \<lparr>contours = [], contours_to_openings = [], temp_contour = [],
            new_bb = (zero2, zero2), joined_openings = [], logger = lg\<rparr> = Poly2TriEscape st'"
  shows "GenerateOpenings E openings nors curmesh chk g lg =
           Inr (fst (TryAddOpenings_Poly2Tri E openings nors curmesh (logger st')),
                fst (snd (TryAddOpenings_Poly2Tri E openings nors curmesh (logger st'))),
                openings,
                snd (snd (TryAddOpenings_Poly2Tri E openings nors curmesh (logger st'))))"
  using assms by (simp add: GenerateOpenings_def split: prod.splits)

lemma scan_no_contours: "contours st = [] \<Longrightarrow> scan E g it st = Finished st"
  by (subst scan.simps) simp

lemma overlap_state_merged:
  "scan merging_clipper g 0 (overlap_state c2o) =
     Finished \<lparr>contours = [],
               contours_to_openings = (if g then erase 0 c2o else c2o),
               temp_contour = [IfcVector2 0 0, IfcVector2 1 0, IfcVector2 1 1],
               new_bb = (IfcVector2 0 0, IfcVector2 (3 / 4) (3 / 4)),
               joined_openings = (if g then [1] @ c2o ! 0 else [1]),
               logger = [(Debug, ''merging overlapping openings'')]\<rparr>"
  by (subst scan.simps)
     (simp add: overlap_state_def BoundingBoxesOverlapping_def scan_no_contours
        MakeDisjunctWindowContours_def MergeWindowContours_def merging_clipper_def
        merge_contours_def erase_def ExtractVerticesFromClipper_def
        from_IntPoint_def from_int64_def max_ulong64_def min2_def max2_def zero2_def one_vec_def
        sub2_def SquareLength2_def)

text \<open>
  C1, as the claim states it, fails in one place: the tables of originating openings are
  kept only when connection geometry is asked for. Here the accepted contour of opening
  0 and the new contour of opening 1 overlap and their union is one polygon;
  \<open>generate_connection_geometry\<close> is false. The contours are merged, but the list of
  the merged contour is \<open>[1]\<close> alone, and no table entry exists, before or after the
  merged contour is accepted.
\<close>

theorem merge_without_connection_geometry_joins_no_lists:
  "scan merging_clipper False 0 (overlap_state []) =
     Finished \<lparr>contours = [], contours_to_openings = [],
               temp_contour = [IfcVector2 0 0, IfcVector2 1 0, IfcVector2 1 1],
               new_bb = (IfcVector2 0 0, IfcVector2 (3 / 4) (3 / 4)),
               joined_openings = [1],
               logger = [(Debug, ''merging overlapping openings'')]\<rparr> \<and>
   contours_to_openings (accept_contour False
     \<lparr>contours = [], contours_to_openings = [],
      temp_contour = [IfcVector2 0 0, IfcVector2 1 0, IfcVector2 1 1],
      new_bb = (IfcVector2 0 0, IfcVector2 (3 / 4) (3 / 4)),
      joined_openings = [1],
      logger = [(Debug, ''merging overlapping openings'')]\<rparr>) = []"
  by (simp add: overlap_state_merged accept_contour_def)

text \<open>
  C1, amended. In GenerateOpenings, when the bounding box of the new contour overlaps the
  box of the accepted contour at position \<open>it\<close> and subtracting that contour does not
  give a single polygon whose box is clear of it, the two contours are unioned. If the
  union has no polygon, the new contour is emptied with a warning, the scan ends and
  nothing is accepted. If it has more than one polygon, the scan ends in the escape, the
  loop over the openings ends with it, and GenerateOpenings returns what
  TryAddOpenings_Poly2Tri returns for the openings, the normals and the untouched face.
  If it has exactly one polygon, that polygon (back in floating point, clamped to the
  unit square, duplicates within \<open>10^-5\<close> removed) becomes the new contour, the new box
  becomes the component-wise union of the two boxes, the old contour is erased and the
  scan restarts at the first contour; the list of originating openings of the old
  contour is appended to that of the new one, and its table entry erased, when
  \<open>generate_connection_geometry\<close> is set, and no such list is kept otherwise.
\<close>

theorem overlap_resolution_unions_the_contours:
  assumes "it < length (contours st)"
    and "BoundingBoxesOverlapping (bb (contours st ! it)) (new_bb st)"
    and "MakeDisjunctWindowContours E (contour (contours st ! it)) (temp_contour st) = Inr d"
    and "\<not> (length d = 1 \<and>
            \<not> BoundingBoxesOverlapping (bb (contours st ! it))
                (GetBoundingBox E (outer (d ! 0))))"
    and "MergeWindowContours E (temp_contour st) (contour (contours st ! it)) = Inr u"
  shows
   "(u = [] \<longrightarrow>
       scan E g it st =
         Finished (st\<lparr>logger := logger st @ [(Warn, ''ignoring duplicate opening'')],
                      temp_contour := []\<rparr>) \<and>
       accept_contour g (st\<lparr>logger := logger st @ [(Warn, ''ignoring duplicate opening'')],
                            temp_contour := []\<rparr>)
         = st\<lparr>logger := logger st @ [(Warn, ''ignoring duplicate opening'')],
              temp_contour := []\<rparr>) \<and>
    (1 < length u \<longrightarrow> scan E g it st = Poly2TriEscape st) \<and>
    (length u = 1 \<longrightarrow>
       scan E g it st = scan E g 0 (merge_contours g it u st) \<and>
       temp_contour (merge_contours g it u st) = ExtractVerticesFromClipper (outer (u ! 0)) True \<and>
       new_bb (merge_contours g it u st)
         = (min2 (fst (new_bb st)) (fst (bb (contours st ! it))),
            max2 (snd (new_bb st)) (snd (bb (contours st ! it)))) \<and>
       joined_openings (merge_contours g it u st)
         = (if g then joined_openings st @ contours_to_openings st ! it
            else joined_openings st) \<and>
       contours_to_openings (merge_contours g it u st)
         = (if g then erase it (contours_to_openings st) else contours_to_openings st) \<and>
       contours (merge_contours g it u st) = erase it (contours st) \<and>
       Suc (length (contours (merge_contours g it u st))) = length (contours st)) \<and>
    (\<forall>m nor base_d chk opening c box i rest st0 st'.
       project_opening E m nor base_d chk opening = Some (c, box) \<and>
       scan E g 0 (st0\<lparr>temp_contour := c, new_bb := box, joined_openings := [i]\<rparr>)
         = Poly2TriEscape st' \<longrightarrow>
       openings_loop E m nor base_d chk g ((i, opening) # rest) st0 = Poly2TriEscape st') \<and>
    (\<forall>m contour_flat base_d chk openings nors curmesh lg st'.
       ProjectOntoPlane E curmesh = Some (m, contour_flat, base_d) \<and>
       openings_loop E m (IfcVector3 (c1 m) (c2 m) (c3 m)) base_d chk g
           (zip [0..<length openings] openings)
           \<lparr>contours = [], contours_to_openings = [], temp_contour = [],
            new_bb = (zero2, zero2), joined_openings = [], logger = lg\<rparr> = Poly2TriEscape st'
       \<longrightarrow>
       GenerateOpenings E openings nors curmesh chk g lg =
           Inr (fst (TryAddOpenings_Poly2Tri E openings nors curmesh (logger st')),
                fst (snd (TryAddOpenings_Poly2Tri E openings nors curmesh (logger st'))),
                openings,
                snd (snd (TryAddOpenings_Poly2Tri E openings nors curmesh (logger st')))))"
proof -
  note step = scan_union_step [OF assms, of g]
  have empty: "u = [] \<longrightarrow>
       scan E g it st =
         Finished (st\<lparr>logger := logger st @ [(Warn, ''ignoring duplicate opening'')],
                      temp_contour := []\<rparr>) \<and>
       accept_contour g (st\<lparr>logger := logger st @ [(Warn, ''ignoring duplicate opening'')],
                            temp_contour := []\<rparr>)
         = st\<lparr>logger := logger st @ [(Warn, ''ignoring duplicate opening'')],
              temp_contour := []\<rparr>"
    using step by (simp add: accept_contour_def)
  have many: "1 < length u \<longrightarrow> scan E g it st = Poly2TriEscape st"
    using step by simp
  have one: "length u = 1 \<longrightarrow>
       scan E g it st = scan E g 0 (merge_contours g it u st) \<and>
       temp_contour (merge_contours g it u st) = ExtractVerticesFromClipper (outer (u ! 0)) True \<and>
       new_bb (merge_contours g it u st)
         = (min2 (fst (new_bb st)) (fst (bb (contours st ! it))),
            max2 (snd (new_bb st)) (snd (bb (contours st ! it)))) \<and>
       joined_openings (merge_contours g it u st)
         = (if g then joined_openings st @ contours_to_openings st ! it
            else joined_openings st) \<and>
       contours_to_openings (merge_contours g it u st)
         = (if g then erase it (contours_to_openings st) else contours_to_openings st) \<and>
       contours (merge_contours g it u st) = erase it (contours st) \<and>
       Suc (length (contours (merge_contours g it u st))) = length (contours st)"
    using step assms(1) by (auto simp: merge_contours_def erase_def)
  have esc: "\<forall>m nor base_d chk opening c box i rest st0 st'.
       project_opening E m nor base_d chk opening = Some (c, box) \<and>
       scan E g 0 (st0\<lparr>temp_contour := c, new_bb := box, joined_openings := [i]\<rparr>)
         = Poly2TriEscape st' \<longrightarrow>
       openings_loop E m nor base_d chk g ((i, opening) # rest) st0 = Poly2TriEscape st'"
    by (intro allI impI, elim conjE) (rule openings_loop_escape)
  have gen: "\<forall>m contour_flat base_d chk openings nors curmesh lg st'.
       ProjectOntoPlane E curmesh = Some (m, contour_flat, base_d) \<and>
       openings_loop E m (IfcVector3 (c1 m) (c2 m) (c3 m)) base_d chk g
           (zip [0..<length openings] openings)
           \<lparr>contours = [], contours_to_openings = [], temp_contour = [],
            new_bb = (zero2, zero2), joined_openings = [], logger = lg\<rparr> = Poly2TriEscape st'
       \<longrightarrow>
       GenerateOpenings E openings nors curmesh chk g lg =
           Inr (fst (TryAddOpenings_Poly2Tri E openings nors curmesh (logger st')),
                fst (snd (TryAddOpenings_Poly2Tri E openings nors curmesh (logger st'))),
                openings,
                snd (snd (TryAddOpenings_Poly2Tri E openings nors curmesh (logger st'))))"
    by (intro allI impI, elim conjE) (rule GenerateOpenings_escape)
  from empty many one esc gen show ?thesis by (intro conjI) assumption+
qed

theorem overlap_resolution_unions_the_contours_witness:
  "scan merging_clipper True 0 (overlap_state [[0]])
     = scan merging_clipper True 0
         (merge_contours True 0
            [\<lparr>outer = [(0, 0), (1518500249, 0), (1518500249, 1518500249)], holes = []\<rparr>]
            (overlap_state [[0]])) \<and>
   joined_openings (merge_contours True 0
            [\<lparr>outer = [(0, 0), (1518500249, 0), (1518500249, 1518500249)], holes = []\<rparr>]
            (overlap_state [[0]])) = [1, 0] \<and>
   contours (merge_contours True 0
            [\<lparr>outer = [(0, 0), (1518500249, 0), (1518500249, 1518500249)], holes = []\<rparr>]
            (overlap_state [[0]])) = [] \<and>
   new_bb (merge_contours True 0
            [\<lparr>outer = [(0, 0), (1518500249, 0), (1518500249, 1518500249)], holes = []\<rparr>]
            (overlap_state [[0]])) = (IfcVector2 0 0, IfcVector2 (3 / 4) (3 / 4))"
proof -
  have 1: "0 < length (contours (overlap_state [[0]]))"
    by (simp add: overlap_state_def)
  have 2: "BoundingBoxesOverlapping (bb (contours (overlap_state [[0]]) ! 0))
      (new_bb (overlap_state [[0]]))"
    by (simp add: overlap_state_def BoundingBoxesOverlapping_def)
  have 3: "MakeDisjunctWindowContours merging_clipper
      (contour (contours (overlap_state [[0]]) ! 0)) (temp_contour (overlap_state [[0]])) = Inr []"
    by (simp add: MakeDisjunctWindowContours_def merging_clipper_def)
  have 4: "\<not> (length ([] :: ExPolygons) = 1 \<and>
            \<not> BoundingBoxesOverlapping (bb (contours (overlap_state [[0]]) ! 0))
                (GetBoundingBox merging_clipper (outer (([] :: ExPolygons) ! 0))))"
    by simp
  have 5: "MergeWindowContours merging_clipper (temp_contour (overlap_state [[0]]))
      (contour (contours (overlap_state [[0]]) ! 0))
      = Inr [\<lparr>outer = [(0, 0), (1518500249, 0), (1518500249, 1518500249)], holes = []\<rparr>]"
    by (simp add: MergeWindowContours_def merging_clipper_def)
  note T = overlap_resolution_unions_the_contours [OF 1 2 3 4 5, of True]
  have l: "length [\<lparr>outer = [(0, 0), (1518500249, 0), (1518500249 :: int, 1518500249 :: int)],
      holes = []\<rparr>] = 1" by simp
  from T [THEN conjunct2, THEN conjunct2, THEN conjunct1] l
  have a: "scan merging_clipper True 0 (overlap_state [[0]])
     = scan merging_clipper True 0
         (merge_contours True 0
            [\<lparr>outer = [(0, 0), (1518500249, 0), (1518500249, 1518500249)], holes = []\<rparr>]
            (overlap_state [[0]]))"
    by simp
  have b: "joined_openings (merge_contours True 0
            [\<lparr>outer = [(0, 0), (1518500249, 0), (1518500249, 1518500249)], holes = []\<rparr>]
            (overlap_state [[0]])) = [1, 0]"
    "contours (merge_contours True 0
            [\<lparr>outer = [(0, 0), (1518500249, 0), (1518500249, 1518500249)], holes = []\<rparr>]
            (overlap_state [[0]])) = []"
    "new_bb (merge_contours True 0
            [\<lparr>outer = [(0, 0), (1518500249, 0), (1518500249, 1518500249)], holes = []\<rparr>]
            (overlap_state [[0]])) = (IfcVector2 0 0, IfcVector2 (3 / 4) (3 / 4))"
    by (simp_all add: merge_contours_def overlap_state_def erase_def min2_def max2_def)
  from a b show ?thesis by simp
qed


lemma GenerateOpenings_no_contours:
  assumes "ProjectOntoPlane E curmesh = Some (m, contour_flat, base_d)"
    and "openings_loop E m (IfcVector3 (c1 m) (c2 m) (c3 m)) base_d chk g
           (zip [0..<length openings] openings)
           \<lparr>contours = [], contours_to_openings = [], temp_contour = [],
            new_bb = (zero2, zero2), joined_openings = [], logger = lg\<rparr> = Finished st'"
    and "contours st' = []"
  shows "GenerateOpenings E openings nors curmesh chk g lg =
           Inr (False, curmesh, openings, logger st')"
  using assms by (simp add: GenerateOpenings_def)

lemma GenerateOpenings_all_skipped:
  assumes "ProjectOntoPlane E curmesh = Some (m, contour_flat, base_d)"
    and "\<forall>opening\<in>set openings.
           project_opening E m (IfcVector3 (c1 m) (c2 m) (c3 m)) base_d chk opening = None"
  shows "GenerateOpenings E openings nors curmesh chk g lg = Inr (False, curmesh, openings, lg)"
proof -
  from assms(2) have "\<forall>io\<in>set (zip [0..<length openings] openings).
      project_opening E m (IfcVector3 (c1 m) (c2 m) (c3 m)) base_d chk (snd io) = None"
    by (auto dest: set_zip_rightD)
  from openings_loop_all_skipped [OF this]
  have "openings_loop E m (IfcVector3 (c1 m) (c2 m) (c3 m)) base_d chk g
           (zip [0..<length openings] openings)
           \<lparr>contours = [], contours_to_openings = [], temp_contour = [],
            new_bb = (zero2, zero2), joined_openings = [], logger = lg\<rparr> =
         Finished \<lparr>contours = [], contours_to_openings = [], temp_contour = [],
            new_bb = (zero2, zero2), joined_openings = [], logger = lg\<rparr>" .
  from GenerateOpenings_no_contours [OF assms(1) this] show ?thesis by simp
qed

lemma GenerateOpenings_no_openings:
  "GenerateOpenings E [] nors curmesh chk g lg = Inr (False, curmesh, [], lg)"
  by (simp add: GenerateOpenings_def split: option.splits)

text \<open>
  C4, as the claim states it, fails in one place: the area gate logs nothing. The
  projected bounding box of this opening has the area \<open>0.00001 * 0.5\<close>, below \<open>10^-5\<close>; the
  opening is skipped, \<open>GenerateOpenings\<close> returns false with the face and the opening as
  they were, and the log, empty before, is empty after.
\<close>

theorem area_gate_logs_no_warning:
  "\<bar>x2 (vpmax (opening_projection plain_collaborators wall_matrix (IfcVector3 0 0 (- 1)) True
          sliver_opening)) -
     x2 (vpmin (opening_projection plain_collaborators wall_matrix (IfcVector3 0 0 (- 1)) True
          sliver_opening))\<bar> *
   \<bar>y2 (vpmax (opening_projection plain_collaborators wall_matrix (IfcVector3 0 0 (- 1)) True
          sliver_opening)) -
     y2 (vpmin (opening_projection plain_collaborators wall_matrix (IfcVector3 0 0 (- 1)) True
          sliver_opening))\<bar> = 1 / 200000 \<and>
   GenerateOpenings plain_collaborators [sliver_opening] [] wall_face True True []
     = Inr (False, wall_face, [sliver_opening], [])"
  by (simp add: sliver_run sliver_projection)

text \<open>
  C4, amended. An opening whose projected bounding box has an area below \<open>10^-5\<close> is
  skipped, and nothing is logged for it: the loop over the openings goes on with the
  state it had. When the loop ends with no contour accepted, \<open>GenerateOpenings\<close> returns
  false and the face mesh and the openings are as they were passed in; this is so in
  particular when every opening is skipped, where the log is untouched too, as it is
  with no opening at all.
\<close>

theorem GenerateOpenings_skips_small_openings:
  "(\<bar>x2 (vpmax (opening_projection E m nor chk opening)) -
      x2 (vpmin (opening_projection E m nor chk opening))\<bar> *
    \<bar>y2 (vpmax (opening_projection E m nor chk opening)) -
      y2 (vpmin (opening_projection E m nor chk opening))\<bar> < 1 / 100000 \<longrightarrow>
      project_opening E m nor base_d chk opening = None \<and>
      openings_loop E m nor base_d chk g ((i, opening) # rest) st
        = openings_loop E m nor base_d chk g rest st) \<and>
   (ProjectOntoPlane E curmesh = Some (pm, contour_flat, pd) \<and>
    openings_loop E pm (IfcVector3 (c1 pm) (c2 pm) (c3 pm)) pd chk g
        (zip [0..<length openings] openings)
        \<lparr>contours = [], contours_to_openings = [], temp_contour = [],
         new_bb = (zero2, zero2), joined_openings = [], logger = lg\<rparr> = Finished st' \<and>
    contours st' = [] \<longrightarrow>
      GenerateOpenings E openings nors curmesh chk g lg
        = Inr (False, curmesh, openings, logger st')) \<and>
   (ProjectOntoPlane E curmesh = Some (pm, contour_flat, pd) \<and>
    (\<forall>opening\<in>set openings.
        project_opening E pm (IfcVector3 (c1 pm) (c2 pm) (c3 pm)) pd chk opening = None) \<longrightarrow>
      GenerateOpenings E openings nors curmesh chk g lg = Inr (False, curmesh, openings, lg)) \<and>
   GenerateOpenings E [] nors curmesh chk g lg = Inr (False, curmesh, [], lg)"
proof -
  have 1: "\<bar>x2 (vpmax (opening_projection E m nor chk opening)) -
      x2 (vpmin (opening_projection E m nor chk opening))\<bar> *
    \<bar>y2 (vpmax (opening_projection E m nor chk opening)) -
      y2 (vpmin (opening_projection E m nor chk opening))\<bar> < 1 / 100000 \<longrightarrow>
      project_opening E m nor base_d chk opening = None \<and>
      openings_loop E m nor base_d chk g ((i, opening) # rest) st
        = openings_loop E m nor base_d chk g rest st"
    using area_gate [of E m nor chk "opening" base_d] by simp
  have 2: "ProjectOntoPlane E curmesh = Some (pm, contour_flat, pd) \<and>
    openings_loop E pm (IfcVector3 (c1 pm) (c2 pm) (c3 pm)) pd chk g
        (zip [0..<length openings] openings)
        \<lparr>contours = [], contours_to_openings = [], temp_contour = [],
         new_bb = (zero2, zero2), joined_openings = [], logger = lg\<rparr> = Finished st' \<and>
    contours st' = [] \<longrightarrow>
      GenerateOpenings E openings nors curmesh chk g lg
        = Inr (False, curmesh, openings, logger st')"
    by (intro impI, elim conjE) (rule GenerateOpenings_no_contours)
  have 3: "ProjectOntoPlane E curmesh = Some (pm, contour_flat, pd) \<and>
    (\<forall>opening\<in>set openings.
        project_opening E pm (IfcVector3 (c1 pm) (c2 pm) (c3 pm)) pd chk opening = None) \<longrightarrow>
      GenerateOpenings E openings nors curmesh chk g lg = Inr (False, curmesh, openings, lg)"
    by (intro impI, elim conjE) (rule GenerateOpenings_all_skipped)
  note 4 = GenerateOpenings_no_openings [of E nors curmesh chk g lg]
  from 1 2 3 4 show ?thesis by (intro conjI) assumption+
qed

theorem GenerateOpenings_skips_small_openings_witness:
  "project_opening plain_collaborators wall_matrix (IfcVector3 0 0 (- 1)) 0 True sliver_opening
     = None \<and>
   ProjectOntoPlane plain_collaborators wall_face =
     Some (wall_matrix, [IfcVector2 1 0, IfcVector2 1 1, IfcVector2 0 1, IfcVector2 0 0], 0) \<and>
   GenerateOpenings plain_collaborators [sliver_opening] [] wall_face True True
       [(Info, ''before'')]
     = Inr (False, wall_face, [sliver_opening], [(Info, ''before'')])"
proof -
  note T = GenerateOpenings_skips_small_openings
    [of plain_collaborators wall_matrix "IfcVector3 0 0 (- 1)" True sliver_opening 0 True
        0 "[]" "\<lparr>contours = [], contours_to_openings = [], temp_contour = [],
         new_bb = (zero2, zero2), joined_openings = [], logger = []\<rparr>"
        wall_face wall_matrix "[IfcVector2 1 0, IfcVector2 1 1, IfcVector2 0 1, IfcVector2 0 0]"
        0 "[sliver_opening]" "[(Info, ''before'')]" _ "[]"]
  have a: "\<bar>x2 (vpmax (opening_projection plain_collaborators wall_matrix (IfcVector3 0 0 (- 1))
              True sliver_opening)) -
      x2 (vpmin (opening_projection plain_collaborators wall_matrix (IfcVector3 0 0 (- 1))
              True sliver_opening))\<bar> *
    \<bar>y2 (vpmax (opening_projection plain_collaborators wall_matrix (IfcVector3 0 0 (- 1))
              True sliver_opening)) -
      y2 (vpmin (opening_projection plain_collaborators wall_matrix (IfcVector3 0 0 (- 1))
              True sliver_opening))\<bar> < 1 / 100000"
    by (simp add: sliver_projection)
  from T [THEN conjunct1] a
  have s: "project_opening plain_collaborators wall_matrix (IfcVector3 0 0 (- 1)) 0 True
      sliver_opening = None"
    by simp
  have n: "IfcVector3 (c1 wall_matrix) (c2 wall_matrix) (c3 wall_matrix) = IfcVector3 0 0 (- 1)"
    by (simp add: wall_matrix_def)
  from T [THEN conjunct2, THEN conjunct2, THEN conjunct1] wall_projection s n
  have r: "GenerateOpenings plain_collaborators [sliver_opening] [] wall_face True True
       [(Info, ''before'')]
     = Inr (False, wall_face, [sliver_opening], [(Info, ''before'')])"
    by simp
  from s wall_projection r show ?thesis by (intro conjI) assumption+
qed

subsection \<open>The wall with one square window\<close>

lemma replicate_4: "replicate 4 x = [x, x, x, x]"
  by (simp add: numeral_eq_Suc)

lemma Quadrify_square_window:
  "Quadrify [square_window] empty_mesh [] =
     (\<lparr>verts =
         [IfcVector3 0 0 0, IfcVector3 0 1 0, IfcVector3 (1 / 5) 1 0, IfcVector3 (1 / 5) 0 0,
          IfcVector3 (1 / 5) 0 0, IfcVector3 (1 / 5) (1 / 5) 0, IfcVector3 (4 / 5) (1 / 5) 0,
          IfcVector3 (4 / 5) 0 0,
          IfcVector3 (1 / 5) (4 / 5) 0, IfcVector3 (1 / 5) 1 0, IfcVector3 (4 / 5) 1 0,
          IfcVector3 (4 / 5) (4 / 5) 0,
          IfcVector3 (4 / 5) 0 0, IfcVector3 (4 / 5) 1 0, IfcVector3 1 1 0, IfcVector3 1 0 0],
       vertcnt = [4, 4, 4, 4]\<rparr>, [])"
  by (simp add: Quadrify_def Quadrify_bbs_def square_window_def empty_mesh_def zero2_def
        one_vec_def QuadrifyPart.simps XYSorter_def resize_def replicate_4)

lemma back_plane:
  "DerivePlaneCoordinateSpace back_face =
     Some (IfcMatrix3 (IfcVector3 0 (- 1) 0) (IfcVector3 1 0 0) (IfcVector3 0 0 (- 1)), - 1)"
  by (simp add: DerivePlaneCoordinateSpace_def back_face_def Let_def upt_3 sub3_def cross3_def
        neg3_def Normalize3_def dot3_def)

lemmas proj_eval = IfcMatrix4_of_def apply4_def min2_def
        max2_def sub2_def identity4_def mul4_def zero2_def one_vec_def Let_def

lemma wall_face_projection:
  "MinMaxChooser E = (10000000000, - 10000000000) \<Longrightarrow>
   ProjectOntoPlane E wall_face =
     Some (wall_matrix, [IfcVector2 1 0, IfcVector2 1 1, IfcVector2 0 1, IfcVector2 0 0], 0)"
  by (simp add: ProjectOntoPlane_def wall_plane)
     (simp add: wall_face_def proj_eval wall_matrix_def)

lemma back_projection:
  "MinMaxChooser E = (10000000000, - 10000000000) \<Longrightarrow>
   ProjectOntoPlane E back_face =
     Some (back_matrix, [IfcVector2 1 0, IfcVector2 1 1, IfcVector2 0 1, IfcVector2 0 0], - 1)"
  by (simp add: ProjectOntoPlane_def back_plane)
     (simp add: back_face_def proj_eval back_matrix_def)

lemma square_projection_front:
  "profileMesh opening = profileMesh square_opening \<Longrightarrow>
   opening_projection wall_collaborators wall_matrix (IfcVector3 0 0 (- 1)) True opening =
     \<lparr>vi_total = 8, dmin = - 1, dmax = 0,
      vpmin = IfcVector2 (1 / 5) (1 / 5), vpmax = IfcVector2 (4 / 5) (4 / 5),
      projected = [IfcVector2 (1 / 5) (1 / 5), IfcVector2 (4 / 5) (1 / 5),
                   IfcVector2 (4 / 5) (4 / 5), IfcVector2 (1 / 5) (4 / 5)]\<rparr>"
  by (simp add: opening_projection_def square_opening_def wall_collaborators_def
        numeral_eq_Suc sub3_def cross3_def Normalize3_def dot3_def apply4_def wall_matrix_def
        min2_def max2_def zero2_def one_vec_def Let_def sub2_def SquareLength2_def)


lemma square_projection_back:
  "profileMesh opening = profileMesh square_opening \<Longrightarrow>
   opening_projection wall_collaborators back_matrix (IfcVector3 0 0 (- 1)) True opening =
     \<lparr>vi_total = 8, dmin = - 1, dmax = 0,
      vpmin = IfcVector2 (1 / 5) (1 / 5), vpmax = IfcVector2 (4 / 5) (4 / 5),
      projected = [IfcVector2 (1 / 5) (1 / 5), IfcVector2 (4 / 5) (1 / 5),
                   IfcVector2 (4 / 5) (4 / 5), IfcVector2 (1 / 5) (4 / 5)]\<rparr>"
  by (simp add: opening_projection_def square_opening_def wall_collaborators_def
        numeral_eq_Suc sub3_def cross3_def Normalize3_def dot3_def apply4_def back_matrix_def
        min2_def max2_def zero2_def one_vec_def Let_def sub2_def SquareLength2_def)

lemma square_contour_front:
  "profileMesh opening = profileMesh square_opening \<Longrightarrow>
   project_opening wall_collaborators wall_matrix (IfcVector3 0 0 (- 1)) 0 True opening
     = Some (contour square_window, bb square_window)"
  by (simp add: project_opening_def square_projection_front Let_def)
     (simp add: square_opening_def square_window_def)

lemma square_contour_back:
  "profileMesh opening = profileMesh square_opening \<Longrightarrow>
   project_opening wall_collaborators back_matrix (IfcVector3 0 0 (- 1)) (- 1) True opening
     = Some (contour square_window, bb square_window)"
  by (simp add: project_opening_def square_projection_back Let_def)
     (simp add: square_opening_def square_window_def)

lemma square_loop:
  "project_opening E m nor base_d True opening = Some (contour square_window, bb square_window)
   \<Longrightarrow>
   openings_loop E m nor base_d True True [(0, opening)]
     \<lparr>contours = [], contours_to_openings = [], temp_contour = [],
      new_bb = (zero2, zero2), joined_openings = [], logger = []\<rparr>
   = Finished \<lparr>contours = [square_window], contours_to_openings = [[0]],
               temp_contour = contour square_window, new_bb = bb square_window,
               joined_openings = [0], logger = []\<rparr>"
  by (simp add: scan_no_contours accept_contour_def) (simp add: square_window_def)

lemma square_cleanup:
  "CleanupWindowContours wall_collaborators [square_window] lg = ([square_window], lg)"
  by (simp add: CleanupWindowContour_def wall_collaborators_def Let_def)

lemma square_insert:
  "InsertWindowContours [square_window] openings curmesh lg = (curmesh, lg)"
  by (simp add: square_window_def)

lemma to_int64_values:
  "to_int64 0 = 0" "to_int64 1 = 1518500249" "to_int64 (1 / 5) = 303700049"
  "to_int64 (4 / 5) = 1214800199"
  by (simp_all add: to_int64_def max_ulong64_def)

lemma from_int64_values:
  "from_int64 0 = 0" "from_int64 1518500249 = 1"
  "from_int64 303700049 = 303700049 / 1518500249"
  "from_int64 1214800199 = 1214800199 / 1518500249"
  by (simp_all add: from_int64_def max_ulong64_def)

lemma square_outer:
  "CleanupOuterContour wall_collaborators
     [IfcVector2 1 0, IfcVector2 1 1, IfcVector2 0 1, IfcVector2 0 0]
     \<lparr>verts =
         [IfcVector3 0 0 0, IfcVector3 0 1 0, IfcVector3 (1 / 5) 1 0, IfcVector3 (1 / 5) 0 0,
          IfcVector3 (1 / 5) 0 0, IfcVector3 (1 / 5) (1 / 5) 0, IfcVector3 (4 / 5) (1 / 5) 0,
          IfcVector3 (4 / 5) 0 0,
          IfcVector3 (1 / 5) (4 / 5) 0, IfcVector3 (1 / 5) 1 0, IfcVector3 (4 / 5) 1 0,
          IfcVector3 (4 / 5) (4 / 5) 0,
          IfcVector3 (4 / 5) 0 0, IfcVector3 (4 / 5) 1 0, IfcVector3 1 1 0, IfcVector3 1 0 0],
       vertcnt = [4, 4, 4, 4]\<rparr> lg =
     (\<lparr>verts =
         [IfcVector3 0 0 0, IfcVector3 0 1 0,
          IfcVector3 (303700049 / 1518500249) 1 0, IfcVector3 (303700049 / 1518500249) 0 0,
          IfcVector3 (303700049 / 1518500249) 0 0,
          IfcVector3 (303700049 / 1518500249) (303700049 / 1518500249) 0,
          IfcVector3 (1214800199 / 1518500249) (303700049 / 1518500249) 0,
          IfcVector3 (1214800199 / 1518500249) 0 0,
          IfcVector3 (303700049 / 1518500249) (1214800199 / 1518500249) 0,
          IfcVector3 (303700049 / 1518500249) 1 0,
          IfcVector3 (1214800199 / 1518500249) 1 0,
          IfcVector3 (1214800199 / 1518500249) (1214800199 / 1518500249) 0,
          IfcVector3 (1214800199 / 1518500249) 0 0, IfcVector3 (1214800199 / 1518500249) 1 0,
          IfcVector3 1 1 0, IfcVector3 1 0 0],
       vertcnt = [4, 4, 4, 4]\<rparr>, lg)"
  by (simp add: CleanupOuterContour_def wall_collaborators_def to_Polygon_def to_int64_values
        from_int64_values)


lemma wall_inverse:
  "rigid_inverse wall_matrix =
     \<lparr>a1 = 0, a2 = 1, a3 = 0, a4 = 0,  b1 = - 1, b2 = 0, b3 = 0, b4 = 1,
      c1 = 0, c2 = 0, c3 = - 1, c4 = 0,  d1 = 0, d2 = 0, d3 = 0, d4 = 1\<rparr>"
  "rigid_inverse back_matrix =
     \<lparr>a1 = 0, a2 = 1, a3 = 0, a4 = 0,  b1 = - 1, b2 = 0, b3 = 0, b4 = 1,
      c1 = 0, c2 = 0, c3 = - 1, c4 = - 1,  d1 = 0, d2 = 0, d3 = 0, d4 = 1\<rparr>"
  by (simp_all add: rigid_inverse_def wall_matrix_def back_matrix_def)

lemma wall_normal:
  "IfcVector3 (c1 wall_matrix) (c2 wall_matrix) (c3 wall_matrix) = IfcVector3 0 0 (- 1)"
  "IfcVector3 (c1 back_matrix) (c2 back_matrix) (c3 back_matrix) = IfcVector3 0 0 (- 1)"
  by (simp_all add: wall_matrix_def back_matrix_def)

lemma finish_front:
  "finish_openings wall_collaborators (rigid_inverse wall_matrix)
     [IfcVector2 1 0, IfcVector2 1 1, IfcVector2 0 1, IfcVector2 0 0] True [square_opening]
     \<lparr>contours = [square_window], contours_to_openings = [[0]],
      temp_contour = contour square_window, new_bb = bb square_window,
      joined_openings = [0], logger = []\<rparr> =
   (True,
    \<lparr>verts =
       [IfcVector3 0 1 0,
        IfcVector3 1 1 0,
        IfcVector3 1 (1214800200 / 1518500249) 0,
        IfcVector3 0 (1214800200 / 1518500249) 0,
        IfcVector3 0 (1214800200 / 1518500249) 0,
        IfcVector3 (303700049 / 1518500249) (1214800200 / 1518500249) 0,
        IfcVector3 (303700049 / 1518500249) (303700050 / 1518500249) 0,
        IfcVector3 0 (303700050 / 1518500249) 0,
        IfcVector3 (1214800199 / 1518500249) (1214800200 / 1518500249) 0,
        IfcVector3 1 (1214800200 / 1518500249) 0,
        IfcVector3 1 (303700050 / 1518500249) 0,
        IfcVector3 (1214800199 / 1518500249) (303700050 / 1518500249) 0,
        IfcVector3 0 (303700050 / 1518500249) 0,
        IfcVector3 1 (303700050 / 1518500249) 0,
        IfcVector3 1 0 0,
        IfcVector3 0 0 0],
     vertcnt = [4, 4, 4, 4]\<rparr>,
    [square_opening\<lparr>wallPoints :=
       [IfcVector3 (1 / 5) (4 / 5) 0,
        IfcVector3 (1 / 5) (1 / 5) 0,
        IfcVector3 (4 / 5) (1 / 5) 0,
        IfcVector3 (4 / 5) (4 / 5) 0]\<rparr>],
    [])"
  by (simp add: finish_openings_def Quadrify_square_window square_cleanup square_insert
        square_outer wall_inverse
        del: CleanupWindowContours.simps InsertWindowContours.simps)
     (simp add: CloseWindows_def square_window_def square_opening_def IsInvalid_def apply4_def)

lemma finish_back:
  "finish_openings wall_collaborators (rigid_inverse back_matrix)
     [IfcVector2 1 0, IfcVector2 1 1, IfcVector2 0 1, IfcVector2 0 0] True
     [square_opening\<lparr>wallPoints :=
       [IfcVector3 (1 / 5) (4 / 5) 0,
        IfcVector3 (1 / 5) (1 / 5) 0,
        IfcVector3 (4 / 5) (1 / 5) 0,
        IfcVector3 (4 / 5) (4 / 5) 0]\<rparr>]
     \<lparr>contours = [square_window], contours_to_openings = [[0]],
      temp_contour = contour square_window, new_bb = bb square_window,
      joined_openings = [0], logger = []\<rparr> =
   (True,
    \<lparr>verts =
       [IfcVector3 0 1 (- 1),
        IfcVector3 1 1 (- 1),
        IfcVector3 1 (1214800200 / 1518500249) (- 1),
        IfcVector3 0 (1214800200 / 1518500249) (- 1),
        IfcVector3 0 (1214800200 / 1518500249) (- 1),
        IfcVector3 (303700049 / 1518500249) (1214800200 / 1518500249) (- 1),
        IfcVector3 (303700049 / 1518500249) (303700050 / 1518500249) (- 1),
        IfcVector3 0 (303700050 / 1518500249) (- 1),
        IfcVector3 (1214800199 / 1518500249) (1214800200 / 1518500249) (- 1),
        IfcVector3 1 (1214800200 / 1518500249) (- 1),
        IfcVector3 1 (303700050 / 1518500249) (- 1),
        IfcVector3 (1214800199 / 1518500249) (303700050 / 1518500249) (- 1),
        IfcVector3 0 (303700050 / 1518500249) (- 1),
        IfcVector3 1 (303700050 / 1518500249) (- 1),
        IfcVector3 1 0 (- 1),
        IfcVector3 0 0 (- 1),
        IfcVector3 (1 / 5) (4 / 5) 0,
        IfcVector3 (1 / 5) (4 / 5) (- 1),
        IfcVector3 (1 / 5) (1 / 5) 0,
        IfcVector3 (1 / 5) (1 / 5) (- 1),
        IfcVector3 (1 / 5) (1 / 5) (- 1),
        IfcVector3 (1 / 5) (1 / 5) 0,
        IfcVector3 (4 / 5) (1 / 5) 0,
        IfcVector3 (4 / 5) (1 / 5) (- 1),
        IfcVector3 (4 / 5) (1 / 5) (- 1),
        IfcVector3 (4 / 5) (1 / 5) 0,
        IfcVector3 (4 / 5) (4 / 5) 0,
        IfcVector3 (4 / 5) (4 / 5) (- 1),
        IfcVector3 (4 / 5) (4 / 5) (- 1),
        IfcVector3 (4 / 5) (4 / 5) 0,
        IfcVector3 (1 / 5) (4 / 5) 0,
        IfcVector3 (1 / 5) (4 / 5) (- 1)],
     vertcnt = [4, 4, 4, 4, 4, 4, 4, 4]\<rparr>,
    [square_opening\<lparr>wallPoints :=
       [IfcVector3 (1 / 5) (4 / 5) 0,
        IfcVector3 (1 / 5) (1 / 5) 0,
        IfcVector3 (4 / 5) (1 / 5) 0,
        IfcVector3 (4 / 5) (4 / 5) 0]\<rparr>],
    [])"
  by (simp add: finish_openings_def Quadrify_square_window square_cleanup square_insert
        square_outer wall_inverse
        del: CleanupWindowContours.simps InsertWindowContours.simps)
     (simp add: CloseWindows_def square_window_def square_opening_def IsInvalid_def apply4_def
        close_point_def on_outer_border_def SquareLength3_def sub3_def zero2_def zero3_def
        Let_def)


lemma wall_chooser: "MinMaxChooser wall_collaborators = (10000000000, - 10000000000)"
  "Inverse wall_collaborators = rigid_inverse"
  by (simp_all add: wall_collaborators_def)

lemma front_pass:
  "profileMesh opening = profileMesh square_opening \<Longrightarrow>
   GenerateOpenings wall_collaborators [opening] nors wall_face True True [] =
     Inr (finish_openings wall_collaborators (rigid_inverse wall_matrix)
            [IfcVector2 1 0, IfcVector2 1 1, IfcVector2 0 1, IfcVector2 0 0] True [opening]
            \<lparr>contours = [square_window], contours_to_openings = [[0]],
              temp_contour = contour square_window, new_bb = bb square_window,
              joined_openings = [0], logger = []\<rparr>)"
  by (simp add: GenerateOpenings_def wall_face_projection [OF wall_chooser(1)] wall_normal
        square_loop [OF square_contour_front] wall_chooser
        del: openings_loop.simps)

lemma back_pass:
  "profileMesh opening = profileMesh square_opening \<Longrightarrow>
   GenerateOpenings wall_collaborators [opening] nors back_face True True [] =
     Inr (finish_openings wall_collaborators (rigid_inverse back_matrix)
            [IfcVector2 1 0, IfcVector2 1 1, IfcVector2 0 1, IfcVector2 0 0] True [opening]
            \<lparr>contours = [square_window], contours_to_openings = [[0]],
              temp_contour = contour square_window, new_bb = bb square_window,
              joined_openings = [0], logger = []\<rparr>)"
  by (simp add: GenerateOpenings_def back_projection [OF wall_chooser(1)] wall_normal
        square_loop [OF square_contour_back] wall_chooser
        del: openings_loop.simps)


lemma hole_corners_values:
  "hole_corners wall_matrix =
     [IfcVector3 (1 / 5) (4 / 5) 0, IfcVector3 (1 / 5) (1 / 5) 0,
      IfcVector3 (4 / 5) (1 / 5) 0, IfcVector3 (4 / 5) (4 / 5) 0]"
  "hole_corners back_matrix =
     [IfcVector3 (1 / 5) (4 / 5) (- 1), IfcVector3 (1 / 5) (1 / 5) (- 1),
      IfcVector3 (4 / 5) (1 / 5) (- 1), IfcVector3 (4 / 5) (4 / 5) (- 1)]"
  by (simp_all add: hole_corners_def unproject_def wall_inverse square_window_def apply4_def)

lemma strips_values:
  "map (\<lambda>v. unproject wall_matrix (through_clipper v)) border_strips =
     [IfcVector3 0 1 0, IfcVector3 1 1 0,
      IfcVector3 1 (1214800200 / 1518500249) 0, IfcVector3 0 (1214800200 / 1518500249) 0,
      IfcVector3 0 (1214800200 / 1518500249) 0,
      IfcVector3 (303700049 / 1518500249) (1214800200 / 1518500249) 0,
      IfcVector3 (303700049 / 1518500249) (303700050 / 1518500249) 0,
      IfcVector3 0 (303700050 / 1518500249) 0,
      IfcVector3 (1214800199 / 1518500249) (1214800200 / 1518500249) 0,
      IfcVector3 1 (1214800200 / 1518500249) 0, IfcVector3 1 (303700050 / 1518500249) 0,
      IfcVector3 (1214800199 / 1518500249) (303700050 / 1518500249) 0,
      IfcVector3 0 (303700050 / 1518500249) 0, IfcVector3 1 (303700050 / 1518500249) 0,
      IfcVector3 1 0 0, IfcVector3 0 0 0]"
  "map (\<lambda>v. unproject back_matrix (through_clipper v)) border_strips =
     [IfcVector3 0 1 (- 1), IfcVector3 1 1 (- 1),
      IfcVector3 1 (1214800200 / 1518500249) (- 1),
      IfcVector3 0 (1214800200 / 1518500249) (- 1),
      IfcVector3 0 (1214800200 / 1518500249) (- 1),
      IfcVector3 (303700049 / 1518500249) (1214800200 / 1518500249) (- 1),
      IfcVector3 (303700049 / 1518500249) (303700050 / 1518500249) (- 1),
      IfcVector3 0 (303700050 / 1518500249) (- 1),
      IfcVector3 (1214800199 / 1518500249) (1214800200 / 1518500249) (- 1),
      IfcVector3 1 (1214800200 / 1518500249) (- 1),
      IfcVector3 1 (303700050 / 1518500249) (- 1),
      IfcVector3 (1214800199 / 1518500249) (303700050 / 1518500249) (- 1),
      IfcVector3 0 (303700050 / 1518500249) (- 1), IfcVector3 1 (303700050 / 1518500249) (- 1),
      IfcVector3 1 0 (- 1), IfcVector3 0 0 (- 1)]"
  by (simp_all add: border_strips_def unproject_def through_clipper_def wall_inverse
        to_int64_values from_int64_values apply4_def)

text \<open>
  C2, as the claim states it, fails. The wall face is the unit square in the plane
  \<open>z = 0\<close>; the opening is a box through the wall whose projected contour on the face is
  the square \<open>[(0.2,0.2),(0.8,0.2),(0.8,0.8),(0.2,0.8)]\<close>, and no face has met the opening
  before. \<open>GenerateOpenings\<close>, with its default flags, returns true and leaves the face
  as four quads, not eight.
\<close>

theorem square_window_face_has_four_quads_not_eight:
  "project_opening wall_collaborators wall_matrix (IfcVector3 0 0 (- 1)) 0 True square_opening
     = Some (contour square_window, bb square_window) \<and>
   (case GenerateOpenings wall_collaborators [square_opening] [] wall_face True True [] of
      Inl sx \<Rightarrow> False
    | Inr (r, curmesh, openings, lg) \<Rightarrow> r \<and> vertcnt curmesh = [4, 4, 4, 4] \<and> lg = [])"
  by (simp add: square_contour_front front_pass finish_front)

text \<open>
  C2, amended. For the wall face with the one opening whose projected contour is the
  square \<open>[(0.2,0.2),(0.8,0.2),(0.8,0.8),(0.2,0.8)]\<close>, \<open>GenerateOpenings\<close> decomposes the
  face into 4 quads, the four border strips around the hole: in the projection they
  are the strips left of the hole, below it, above it and right of it, none of them
  overlaps the hole, and the face mesh is these strips, each vertex taken through the
  fixed-point grid of the clipper and back, and un-projected. The corners of the hole
  are recorded as the wall points of the opening. When a face meets the opening after
  that (the other side of the wall, here the unit square in the plane \<open>z = - 1\<close>), the
  same four strips are followed by 4 quads that connect the corners of the hole on
  this face with the wall points recorded before: 8 faces of four vertices.
\<close>

theorem square_window_gives_four_border_strips:
  "project_opening wall_collaborators wall_matrix (IfcVector3 0 0 (- 1)) 0 True square_opening
     = Some (contour square_window, bb square_window) \<and>
   project_opening wall_collaborators back_matrix (IfcVector3 0 0 (- 1)) (- 1) True
       (square_opening\<lparr>wallPoints := hole_corners wall_matrix\<rparr>)
     = Some (contour square_window, bb square_window) \<and>
   Quadrify [square_window] empty_mesh []
     = (\<lparr>verts = border_strips, vertcnt = [4, 4, 4, 4]\<rparr>, []) \<and>
   quad_boxes border_strips =
     [(IfcVector2 0 0, IfcVector2 (1 / 5) 1), (IfcVector2 (1 / 5) 0, IfcVector2 (4 / 5) (1 / 5)),
      (IfcVector2 (1 / 5) (4 / 5), IfcVector2 (4 / 5) 1), (IfcVector2 (4 / 5) 0, IfcVector2 1 1)] \<and>
   list_ex (\<lambda>q. BoundingBoxesOverlapping q (bb square_window)) (quad_boxes border_strips)
     = False \<and>
   GenerateOpenings wall_collaborators [square_opening] nors wall_face True True [] =
     Inr (True,
          \<lparr>verts = map (\<lambda>v. unproject wall_matrix (through_clipper v)) border_strips,
            vertcnt = [4, 4, 4, 4]\<rparr>,
          [square_opening\<lparr>wallPoints := hole_corners wall_matrix\<rparr>],
          []) \<and>
   GenerateOpenings wall_collaborators
       [square_opening\<lparr>wallPoints := hole_corners wall_matrix\<rparr>] nors back_face True True [] =
     Inr (True,
          \<lparr>verts = map (\<lambda>v. unproject back_matrix (through_clipper v)) border_strips @
                     connection_quads (hole_corners wall_matrix) (hole_corners back_matrix),
            vertcnt = [4, 4, 4, 4, 4, 4, 4, 4]\<rparr>,
          [square_opening\<lparr>wallPoints := hole_corners wall_matrix\<rparr>],
          [])"
proof -
  have 1: "project_opening wall_collaborators wall_matrix (IfcVector3 0 0 (- 1)) 0 True
      square_opening = Some (contour square_window, bb square_window)"
    by (simp add: square_contour_front)
  have 2: "project_opening wall_collaborators back_matrix (IfcVector3 0 0 (- 1)) (- 1) True
       (square_opening\<lparr>wallPoints := hole_corners wall_matrix\<rparr>)
     = Some (contour square_window, bb square_window)"
    by (simp add: square_contour_back)
  have 3: "Quadrify [square_window] empty_mesh []
     = (\<lparr>verts = border_strips, vertcnt = [4, 4, 4, 4]\<rparr>, [])"
    by (simp add: Quadrify_square_window border_strips_def)
  have 4: "quad_boxes border_strips =
     [(IfcVector2 0 0, IfcVector2 (1 / 5) 1), (IfcVector2 (1 / 5) 0, IfcVector2 (4 / 5) (1 / 5)),
      (IfcVector2 (1 / 5) (4 / 5), IfcVector2 (4 / 5) 1), (IfcVector2 (4 / 5) 0, IfcVector2 1 1)]"
    by (simp add: border_strips_def)
  have 5: "list_ex (\<lambda>q. BoundingBoxesOverlapping q (bb square_window))
      (quad_boxes border_strips) = False"
    by (simp add: 4) (simp add: square_window_def BoundingBoxesOverlapping_def)
  have 6: "GenerateOpenings wall_collaborators [square_opening] nors wall_face True True [] =
     Inr (True,
          \<lparr>verts = map (\<lambda>v. unproject wall_matrix (through_clipper v)) border_strips,
            vertcnt = [4, 4, 4, 4]\<rparr>,
          [square_opening\<lparr>wallPoints := hole_corners wall_matrix\<rparr>],
          [])"
    by (simp add: front_pass finish_front hole_corners_values strips_values)
  have 7: "GenerateOpenings wall_collaborators
       [square_opening\<lparr>wallPoints := hole_corners wall_matrix\<rparr>] nors back_face True True [] =
     Inr (True,
          \<lparr>verts = map (\<lambda>v. unproject back_matrix (through_clipper v)) border_strips @
                     connection_quads (hole_corners wall_matrix) (hole_corners back_matrix),
            vertcnt = [4, 4, 4, 4, 4, 4, 4, 4]\<rparr>,
          [square_opening\<lparr>wallPoints := hole_corners wall_matrix\<rparr>],
          [])"
    by (simp add: back_pass finish_back hole_corners_values strips_values connection_quads_def)
  from 1 2 3 4 5 6 7 show ?thesis by (intro conjI) assumption+
qed

subsection \<open>Boxes that touch\<close>







end
